theory Spec2Isabelle
  imports Main "HOL-Library.Word"
begin

chapter \<open>The model\<close>

section \<open>Machine types, errors and the wire types\<close>

text \<open>
  Go's \<open>byte\<close>, \<open>int64\<close>, \<open>int32\<close> and \<open>uint32\<close> are words: addition, subtraction and
  multiplication wrap around and \<open>int64\<close> comparisons are the signed ones (\<open><s\<close>, \<open>\<le>s\<close>).
  Go's \<open>int\<close> (block heights, message lengths) is modelled by \<open>int\<close>; a \<open>*big.Int\<close> is an
  \<open>int\<close> as well. A pointer that may be nil is an \<open>option\<close>; a slice is a list (a nil slice
  is the empty list, except where the code tests a slice against nil).
\<close>

type_synonym byte = "8 word"
type_synonym int64 = "64 word"
type_synonym int32 = "32 word"
type_synonym uint32 = "32 word"

text \<open>
  Every error the code returns is a value. \<open>Panic\<close> stands for a Go run-time panic (a nil
  dereference or an index out of range); \<open>ExternalError\<close> is an error handed back by a
  library or by the node (decoding, signing, RPC) with its message.
\<close>

datatype error =
    IllegalStatus int
  | ParameterIsNil
  | ShortOfBitcoin
  | SizeError nat nat
  | NotFoundSign
  | VerifyFail
  | NotFoundFundScript
  | SettlementTxIsNil
  | ValIsMinus int64 int64
  | IllegalParameters
  | RateNotFound
  | IllegalOracleSigns
  | RateNoFix
  | NoTransaction
  | IllegalLength nat nat
  | IllegalSize nat
  | UnknownPublicKey
  | ExternalError string
  | Panic

record OutPoint =
  Hash :: "byte list"
  Index :: uint32

record TxIn =
  PreviousOutPoint :: OutPoint
  SignatureScript :: "byte list"
  Witness :: "byte list list option"
  Sequence :: uint32

record TxOut =
  Value :: int64
  PkScript :: "byte list"

record MsgTx =
  Version :: int32
  TxIn :: "TxIn list"
  TxOut :: "TxOut list"
  LockTime :: uint32

text \<open>
  The constructors of package \<open>wire\<close>. \<open>wire.NewTxIn\<close> gives a new input the maximal
  sequence number; \<open>RefundTx\<close> relies on it (its comment reads \<open>max(0xffffffff-0x01)\<close>).
\<close>

definition MaxTxInSequenceNum :: uint32 where
  "MaxTxInSequenceNum = 0xffffffff"

definition NewOutPoint :: "byte list \<Rightarrow> uint32 \<Rightarrow> OutPoint" where
  "NewOutPoint h i = \<lparr>Hash = h, Index = i\<rparr>"

definition NewTxIn :: "OutPoint \<Rightarrow> TxIn" where
  "NewTxIn prevOut =
     \<lparr>PreviousOutPoint = prevOut, SignatureScript = [], Witness = None,
      Sequence = MaxTxInSequenceNum\<rparr>"

definition NewTxOut :: "int64 \<Rightarrow> byte list \<Rightarrow> TxOut" where
  "NewTxOut v pk = \<lparr>Value = v, PkScript = pk\<rparr>"

definition NewMsgTx :: "int32 \<Rightarrow> MsgTx" where
  "NewMsgTx v = \<lparr>Version = v, TxIn = [], TxOut = [], LockTime = 0\<rparr>"

definition AddTxIn :: "TxIn \<Rightarrow> MsgTx \<Rightarrow> MsgTx" where
  "AddTxIn ti tx = tx\<lparr>TxIn := TxIn tx @ [ti]\<rparr>"

definition AddTxOut :: "TxOut \<Rightarrow> MsgTx \<Rightarrow> MsgTx" where
  "AddTxOut txo tx = tx\<lparr>TxOut := TxOut tx @ [txo]\<rparr>"

section \<open>The libraries the code calls\<close>

text \<open>
  The packages \<open>btcec\<close>, \<open>txscript\<close>, \<open>chainhash\<close>, \<open>btcutil\<close>, \<open>wire\<close>,
  \<open>encoding/hex\<close>, \<open>crypto/sha256\<close>, \<open>time\<close> and \<open>strconv\<close> are not part of the
  repository. Their functions are the fields of one record that every definition below
  takes as its first argument; \<open>'p\<close> is the type of
  curve points (\<open>btcec.PublicKey\<close> with both coordinates set). A scalar that the code
  passes as the big-endian bytes of a non-negative \<open>big.Int\<close> is passed as that integer.

  \<open>CeilHalf v\<close> is the value of \<open>int64(math.Ceil(float64(v) / float64(2)))\<close> for a
  \<open>v\<close> above \<open>2^53\<close> in absolute value, where \<open>float64(v)\<close> rounds.
  \<open>RoundLinear amount q x\<close> is the value of
  \<open>int64(math.Round(a*float64(x) - b))\<close> with \<open>a = float64(amount)/float64(2*q+1)\<close> and
  \<open>b = a*float64(q-1)\<close>: floating point is not embedded (Go may fuse the multiplication
  and the subtraction), and no statement below depends on the value.
\<close>

record 'p Lib =
  CurveAdd :: "'p \<Rightarrow> 'p \<Rightarrow> 'p"
  CurveScalarMult :: "'p \<Rightarrow> int \<Rightarrow> 'p"
  CurveScalarBaseMult :: "int \<Rightarrow> 'p"
  CurveN :: int
  SerializeCompressed :: "'p \<Rightarrow> byte list"
  SerializeUncompressed :: "'p \<Rightarrow> byte list"
  Sha256 :: "byte list \<Rightarrow> byte list"
  Hash160 :: "byte list \<Rightarrow> byte list"
  TxHash :: "MsgTx \<Rightarrow> byte list"
  AddData :: "byte list \<Rightarrow> byte list"
  AddInt64 :: "int \<Rightarrow> byte list"
  ParseDERSignature :: "byte list \<Rightarrow> error option"
  CalcWitnessSigHash :: "byte list option \<Rightarrow> MsgTx \<Rightarrow> nat \<Rightarrow> int64 \<Rightarrow> error + byte list"
  SignatureVerify :: "byte list \<Rightarrow> byte list \<Rightarrow> 'p \<Rightarrow> bool"
  RawTxInWitnessSignature ::
    "MsgTx \<Rightarrow> nat \<Rightarrow> int64 \<Rightarrow> byte list option \<Rightarrow> int \<Rightarrow> error + byte list"
  DecodeString :: "string \<Rightarrow> error + byte list"
  EncodeToString :: "byte list \<Rightarrow> string"
  ParsePubKey :: "byte list \<Rightarrow> error + 'p"
  WriteVarInt :: "nat \<Rightarrow> byte list"
  ReadVarInt :: "byte list \<Rightarrow> error + nat"
  VarIntSerializeSize :: "nat \<Rightarrow> nat"
  TimeParse :: "string \<Rightarrow> error + int"
  TimeFormat :: "int \<Rightarrow> string"
  Atoi :: "string \<Rightarrow> error + int"
  CeilHalf :: "int64 \<Rightarrow> int64"
  RoundLinear :: "int64 \<Rightarrow> nat \<Rightarrow> nat \<Rightarrow> int64"

text \<open>The script opcodes of \<open>txscript\<close> that the code uses, with Bitcoin's values.\<close>

definition OP_0 :: byte where "OP_0 = 0x00"
definition OP_2 :: byte where "OP_2 = 0x52"
definition OP_IF :: byte where "OP_IF = 0x63"
definition OP_ELSE :: byte where "OP_ELSE = 0x67"
definition OP_ENDIF :: byte where "OP_ENDIF = 0x68"
definition OP_DROP :: byte where "OP_DROP = 0x75"
definition OP_CHECKSIG :: byte where "OP_CHECKSIG = 0xac"
definition OP_CHECKMULTISIG :: byte where "OP_CHECKMULTISIG = 0xae"
definition OP_CHECKSEQUENCEVERIFY :: byte where "OP_CHECKSEQUENCEVERIFY = 0xb2"

section \<open>dlc.go: constants, Rate and Dlc\<close>

definition DlcSettlementTxSize :: int64 where "DlcSettlementTxSize = 345"
definition DlcFundTxBaseSize :: int64 where "DlcFundTxBaseSize = 55"
definition DlcTxInSize :: int64 where "DlcTxInSize = 149"
definition DlcTxOutSize :: int64 where "DlcTxOutSize = 31"

text \<open>
  A message position of a rate is \<open>None\<close> (a nil slice, "don't care") or \<open>Some bs\<close>.
  The key of a rate is nil (\<open>None\<close>), a \<open>btcec.PublicKey\<close> whose coordinates are still nil
  (\<open>Some None\<close>, what \<open>new(btcec.PublicKey)\<close> gives) or a point.
\<close>

record 'p Rate =
  msgs :: "byte list option list"
  amta :: int64
  amtb :: int64
  key :: "'p option option"
  rsign :: "byte list option"
  msign :: "int option"
  txid :: "byte list option"

text \<open>
  The game of game.go. Its back pointer to the contract is used for one thing, the fund
  amount \<open>g.dlc.FundAmount()\<close>; the functions that need it take the amount as an argument.
  The fixed rate \<open>frate\<close> is a pointer into the rate table: it is the index of that rate.
\<close>

record 'p Game =
  pubo :: "'p option"
  okeys :: "'p list"
  omsgs :: "byte list list"
  osigns :: "int list"
  rates :: "'p Rate list option"
  frate :: "nat option"
  height :: int
  glength :: int
  ghash :: "byte list option"

record 'p Dlc =
  famta :: int64
  famtb :: int64
  fefee :: int64
  sefee :: int64
  sfeea :: int64
  sfeeb :: int64
  isA :: bool
  locktime :: uint32
  puba :: "'p option"
  pubb :: "'p option"
  atxins :: "TxIn list"
  btxins :: "TxIn list"
  txouta :: "TxOut option"
  txoutb :: "TxOut option"
  rsigna :: "byte list option"
  rsignb :: "byte list option"
  game :: "'p Game option"

definition NewRate :: "byte list option list \<Rightarrow> int64 \<Rightarrow> int64 \<Rightarrow> 'p Rate" where
  "NewRate ms a b =
     \<lparr>msgs = ms, amta = a, amtb = b, key = None, rsign = None, msign = None, txid = None\<rparr>"

definition Amount :: "'p Rate \<Rightarrow> bool \<Rightarrow> int64" where
  "Amount r a = (if a then amta r else amtb r)"

definition ReceivedSign :: "'p Rate \<Rightarrow> byte list option" where
  "ReceivedSign r = rsign r"

definition MessageSign :: "'p Rate \<Rightarrow> int option" where
  "MessageSign r = msign r"

definition NewDlc :: "int64 \<Rightarrow> int64 \<Rightarrow> int64 \<Rightarrow> int64 \<Rightarrow> int64 \<Rightarrow> int64 \<Rightarrow> bool \<Rightarrow> 'p Dlc" where
  "NewDlc fa fb ff sf sa sb a =
     \<lparr>famta = fa, famtb = fb, fefee = ff, sefee = sf, sfeea = sa, sfeeb = sb, isA = a,
      locktime = 0, puba = None, pubb = None, atxins = [], btxins = [], txouta = None,
      txoutb = None, rsigna = None, rsignb = None, game = None\<rparr>"

definition SetPublicKey :: "'p option \<Rightarrow> bool \<Rightarrow> 'p Dlc \<Rightarrow> 'p Dlc" where
  "SetPublicKey pub a d = (if a then d\<lparr>puba := pub\<rparr> else d\<lparr>pubb := pub\<rparr>)"

definition SetTxInsAndTxOut :: "TxIn list \<Rightarrow> TxOut option \<Rightarrow> bool \<Rightarrow> 'p Dlc \<Rightarrow> 'p Dlc" where
  "SetTxInsAndTxOut txins txout a d =
     (if a then d\<lparr>atxins := txins, txouta := txout\<rparr>
      else d\<lparr>btxins := txins, txoutb := txout\<rparr>)"

definition FundTxIns :: "'p Dlc \<Rightarrow> bool \<Rightarrow> TxIn list" where
  "FundTxIns d a = (if a then atxins d else btxins d)"

definition SetRefundSign :: "byte list option \<Rightarrow> bool \<Rightarrow> 'p Dlc \<Rightarrow> 'p Dlc" where
  "SetRefundSign sign a d = (if a then d\<lparr>rsigna := sign\<rparr> else d\<lparr>rsignb := sign\<rparr>)"

definition IsA :: "'p Dlc \<Rightarrow> bool" where
  "IsA d = isA d"

definition FundAmount :: "'p Dlc \<Rightarrow> int64" where
  "FundAmount d = famta d + famtb d"

definition SettlementFee :: "'p Dlc \<Rightarrow> int64" where
  "SettlementFee d = sfeea d + sfeeb d"

definition FundEstimateFee :: "'p Dlc \<Rightarrow> int64" where
  "FundEstimateFee d = fefee d"

definition SettlementEstimateFee :: "'p Dlc \<Rightarrow> int64" where
  "SettlementEstimateFee d = sefee d"

definition PublicKey :: "'p Dlc \<Rightarrow> bool \<Rightarrow> 'p option" where
  "PublicKey d a = (if a then puba d else pubb d)"

section \<open>dlc.go: scripts\<close>

text \<open>
  A \<open>txscript.ScriptBuilder\<close> appends opcodes and data pushes; \<open>AddData\<close> of the library
  gives the bytes of one push. The error of \<open>builder.Script()\<close> is dropped by the code.
\<close>

definition FundScript :: "'p Lib \<Rightarrow> 'p Dlc \<Rightarrow> byte list option" where
  "FundScript lib d =
     (case (puba d, pubb d) of
        (Some a, Some b) \<Rightarrow>
          Some ([OP_2] @ AddData lib (SerializeCompressed lib a)
                @ AddData lib (SerializeCompressed lib b) @ [OP_2, OP_CHECKMULTISIG])
      | _ \<Rightarrow> None)"

definition SettlementScript :: "'p Lib \<Rightarrow> 'p \<Rightarrow> 'p \<Rightarrow> byte list" where
  "SettlementScript lib pub1 pub2 =
     [OP_IF] @ AddData lib (SerializeCompressed lib pub1) @ [OP_ELSE]
     @ AddInt64 lib (144 + 0) @ [OP_CHECKSEQUENCEVERIFY, OP_DROP]
     @ AddData lib (SerializeCompressed lib pub2) @ [OP_ENDIF, OP_CHECKSIG]"

definition P2WPKHpkScript :: "'p Lib \<Rightarrow> 'p \<Rightarrow> byte list" where
  "P2WPKHpkScript lib pub = OP_0 # AddData lib (Hash160 lib (SerializeCompressed lib pub))"

definition P2WSHpkScript :: "'p Lib \<Rightarrow> byte list \<Rightarrow> byte list" where
  "P2WSHpkScript lib script = OP_0 # AddData lib (Sha256 lib script)"

section \<open>dlc.go: the transactions\<close>

definition FundTx :: "'p Lib \<Rightarrow> 'p Dlc \<Rightarrow> MsgTx" where
  "FundTx lib d =
     (let tx = (NewMsgTx 2)\<lparr>TxIn := atxins d @ btxins d\<rparr> in
      case FundScript lib d of
        None \<Rightarrow> tx
      | Some script \<Rightarrow>
          (let tx1 = AddTxOut (NewTxOut (famta d + famtb d + sfeea d + sfeeb d)
                                 (P2WSHpkScript lib script)) tx;
               tx2 = (case txouta d of None \<Rightarrow> tx1 | Some o1 \<Rightarrow> AddTxOut o1 tx1)
           in case txoutb d of None \<Rightarrow> tx2 | Some o2 \<Rightarrow> AddTxOut o2 tx2))"

text \<open>
  \<open>SettlementTx\<close> returns nil (\<open>None\<close>) when the share of the side it is built for is
  not positive. It writes \<open>rate.txid\<close> when built for the other side, so the rate comes
  back with the transaction. Dereferencing a missing key is a panic.
\<close>

definition SettlementTx ::
  "'p Lib \<Rightarrow> 'p Dlc \<Rightarrow> 'p Rate \<Rightarrow> bool \<Rightarrow> error + (MsgTx option \<times> 'p Rate)" where
  "SettlementTx lib d rate a =
     (let val1 = (if a then amta rate else amtb rate);
          val2 = (if a then amtb rate else amta rate);
          pub1 = (if a then puba d else pubb d);
          pub2 = (if a then pubb d else puba d)
      in if val1 \<le>s 0 then Inr (None, rate)
         else
           (let txid1 = TxHash lib (FundTx lib d);
                tx = AddTxIn (NewTxIn (NewOutPoint txid1 0)) (NewMsgTx 2)
            in case (key rate, pub1, pub2) of
                 (Some (Some k), Some p1, Some p2) \<Rightarrow>
                   (let pub = CurveAdd lib k p1;
                        pkScript = P2WSHpkScript lib (SettlementScript lib pub p2);
                        tx1 = AddTxOut (NewTxOut val1 pkScript) tx;
                        tx2 = (if 0 <s val2
                               then AddTxOut (NewTxOut val2 (P2WPKHpkScript lib p2)) tx1
                               else tx1)
                    in if isA d \<noteq> a
                       then Inr (Some tx2, rate\<lparr>txid := Some (TxHash lib tx2)\<rparr>)
                       else Inr (Some tx2, rate))
               | _ \<Rightarrow> Inl Panic))"

definition RefundTx :: "'p Lib \<Rightarrow> 'p Dlc \<Rightarrow> error + MsgTx" where
  "RefundTx lib d =
     (let tx = NewMsgTx 2;
          txid1 = TxHash lib (FundTx lib d);
          txin = NewTxIn (NewOutPoint txid1 0);
          txin1 = txin\<lparr>Sequence := Sequence txin - 1\<rparr>;
          txin2 = (case (rsigna d, rsignb d) of
                     (Some sa, Some sb) \<Rightarrow>
                       txin1\<lparr>Witness :=
                         Some [[], sa, sb, (case FundScript lib d of None \<Rightarrow> [] | Some s \<Rightarrow> s)]\<rparr>
                   | _ \<Rightarrow> txin1);
          tx1 = AddTxIn txin2 tx
      in case (puba d, pubb d) of
           (Some a, Some b) \<Rightarrow>
             (let tx2 = AddTxOut (NewTxOut (famta d) (P2WPKHpkScript lib a)) tx1;
                  tx3 = AddTxOut (NewTxOut (famtb d) (P2WPKHpkScript lib b)) tx2
              in Inr (tx3\<lparr>LockTime := locktime d\<rparr>))
         | _ \<Rightarrow> Inl Panic)"

text \<open>
  \<open>Verify\<close> returns its error (\<open>None\<close> is success) and the rate, whose \<open>rsign\<close> it
  sets on success. \<open>txscript.NewTxSigHashes\<close> dereferences the transaction: a nil
  settlement transaction is a panic.
\<close>

definition Verify ::
  "'p Lib \<Rightarrow> 'p Dlc \<Rightarrow> 'p Rate \<Rightarrow> bool \<Rightarrow> byte list \<Rightarrow> 'p option \<Rightarrow> error option \<times> 'p Rate" where
  "Verify lib d rate a sign pub =
     (case ParseDERSignature lib sign of
        Some e \<Rightarrow> (Some e, rate)
      | None \<Rightarrow>
          (case SettlementTx lib d rate a of
             Inl e \<Rightarrow> (Some e, rate)
           | Inr (None, rate1) \<Rightarrow> (Some Panic, rate1)
           | Inr (Some tx, rate1) \<Rightarrow>
               (let script = FundScript lib d;
                    amt = FundAmount d + SettlementFee d
                in case CalcWitnessSigHash lib script tx 0 amt of
                     Inl e \<Rightarrow> (Some e, rate1)
                   | Inr h \<Rightarrow>
                       (case pub of
                          None \<Rightarrow> (Some Panic, rate1)
                        | Some p \<Rightarrow>
                            if \<not> SignatureVerify lib sign h p then (Some VerifyFail, rate1)
                            else (None, rate1\<lparr>rsign := Some sign\<rparr>)))))"

definition VerifyRefundTx :: "'p Lib \<Rightarrow> 'p Dlc \<Rightarrow> byte list \<Rightarrow> 'p option \<Rightarrow> error option" where
  "VerifyRefundTx lib d sign pub =
     (case ParseDERSignature lib sign of
        Some e \<Rightarrow> Some e
      | None \<Rightarrow>
          (case FundScript lib d of
             None \<Rightarrow> Some NotFoundFundScript
           | Some script \<Rightarrow>
               (case RefundTx lib d of
                  Inl e \<Rightarrow> Some e
                | Inr tx \<Rightarrow>
                    (let amt = FundAmount d + SettlementFee d
                     in case CalcWitnessSigHash lib (Some script) tx 0 amt of
                          Inl e \<Rightarrow> Some e
                        | Inr h \<Rightarrow>
                            (case pub of
                               None \<Rightarrow> Some Panic
                             | Some p \<Rightarrow>
                                 if \<not> SignatureVerify lib sign h p then Some VerifyFail
                                 else None)))))"

text \<open>
  \<open>SettlementToTx\<close> returns \<open>(tx, val1, script)\<close> or an error, and the rate as
  \<open>SettlementTx\<close> left it.
\<close>

definition SettlementToTx ::
  "'p Lib \<Rightarrow> 'p Dlc \<Rightarrow> 'p Rate \<Rightarrow> bool \<Rightarrow> byte list \<Rightarrow> int64 \<Rightarrow>
     (error + (MsgTx \<times> int64 \<times> byte list)) \<times> 'p Rate" where
  "SettlementToTx lib d rate a pkScript efee =
     (let val1 = (if a then amta rate else amtb rate);
          pub1 = (if a then puba d else pubb d);
          pub2 = (if a then pubb d else puba d)
      in case SettlementTx lib d rate a of
           Inl e \<Rightarrow> (Inl e, rate)
         | Inr (None, rate1) \<Rightarrow> (Inl SettlementTxIsNil, rate1)
         | Inr (Some stx, rate1) \<Rightarrow>
             (let txid1 = TxHash lib stx;
                  fee = of_nat (216 + length pkScript) * efee;
                  val = val1 - fee
              in if val <s 0 then (Inl (ValIsMinus val fee), rate1)
                 else
                   (let tx = AddTxOut (NewTxOut val pkScript)
                               (AddTxIn (NewTxIn (NewOutPoint txid1 0)) (NewMsgTx 2))
                    in case (key rate, pub1, pub2) of
                         (Some (Some k), Some p1, Some p2) \<Rightarrow>
                           (Inr (tx, val1, SettlementScript lib (CurveAdd lib k p1) p2), rate1)
                       | _ \<Rightarrow> (Inl Panic, rate1))))"

section \<open>game.go: the rate table\<close>

definition NewGame :: "int \<Rightarrow> int \<Rightarrow> 'p Game" where
  "NewGame h l =
     \<lparr>pubo = None, okeys = [], omsgs = [], osigns = [], rates = None, frate = None,
      height = h, glength = l, ghash = None\<rparr>"

definition GameHeight :: "'p Game \<Rightarrow> int" where
  "GameHeight g = height g"

definition GameLength :: "'p Game \<Rightarrow> int" where
  "GameLength g = glength g"

definition SetHash :: "byte list \<Rightarrow> 'p Game \<Rightarrow> 'p Game" where
  "SetHash h g = g\<lparr>ghash := Some h\<rparr>"

text \<open>
  \<open>q := int64(math.Pow(float64(0x100), float64(g.length))) / 4\<close>. A power of 256 below
  \<open>2^63\<close> is a float64 and converts exactly, which covers the lengths 1 to 7; a length
  below 1 gives 0. For longer messages the conversion is outside int64 and Go leaves its
  result to the implementation: nothing is stated about them.
\<close>

definition quarter :: "int \<Rightarrow> nat" where
  "quarter l = (if l \<le> 0 then 0 else 256 ^ nat l div 4)"

text \<open>
  The message vector of the first and of the last quarter: nil everywhere but at the
  last position, which holds \<open>byte(x)\<close>, the low eight bits of the counter.
\<close>

definition tail_msgs :: "int \<Rightarrow> nat \<Rightarrow> byte list option list" where
  "tail_msgs l x = map (\<lambda>i. if int i = l - 1 then Some [of_nat x] else None) [0..<nat l]"

text \<open>The message vector of the two middle quarters: the counter, low byte first.\<close>

fun linear_msgs :: "nat \<Rightarrow> nat \<Rightarrow> byte list option list" where
  "linear_msgs 0 tmp = []"
| "linear_msgs (Suc n) tmp =
     Some [of_nat (tmp mod 0x100)] # linear_msgs n ((tmp - tmp mod 0x100) div 0x100)"

definition gen_rates :: "'p Lib \<Rightarrow> int64 \<Rightarrow> int \<Rightarrow> 'p Rate list" where
  "gen_rates lib amount l =
     (let q = quarter l in
        map (\<lambda>x. NewRate (tail_msgs l x) 0 amount) [0..<q]
        @ map (\<lambda>x. let high = RoundLinear lib amount q x; low = amount - high
                   in NewRate (linear_msgs (nat l) x) high low) [q..<3 * q]
        @ map (\<lambda>x. NewRate (tail_msgs l x) amount 0) [q * 3..<q * 4])"

text \<open>\<open>Rates\<close> returns the cached table, or computes and caches it.\<close>

definition Rates :: "'p Lib \<Rightarrow> int64 \<Rightarrow> 'p Game \<Rightarrow> 'p Rate list \<times> 'p Game" where
  "Rates lib amount g =
     (case rates g of
        Some rs \<Rightarrow> (rs, g)
      | None \<Rightarrow> (let rs = gen_rates lib amount (glength g) in (rs, g\<lparr>rates := Some rs\<rparr>)))"

section \<open>game.go: searching the attested rate\<close>

fun bseq :: "byte list \<Rightarrow> byte list \<Rightarrow> bool" where
  "bseq [] [] = True"
| "bseq (a # as) (b # bs) = (if a \<noteq> b then False else bseq as bs)"
| "bseq _ _ = False"

text \<open>
  The inner loop of \<open>searchRate\<close> from position \<open>i\<close> down to 0 for one rate:
  \<open>Inr True\<close> when the loop reaches position 0 with every position matching (the rate is
  selected), \<open>Inr False\<close> when it breaks. The attested message is read only where the
  stored one is not nil.
\<close>

fun match_down :: "byte list option list \<Rightarrow> byte list list \<Rightarrow> nat \<Rightarrow> error + bool" where
  "match_down rm ms i =
     (if length rm \<le> i then Inl Panic
      else case rm ! i of
        None \<Rightarrow> (if i = 0 then Inr True else match_down rm ms (i - 1))
      | Some bs \<Rightarrow>
          if length ms \<le> i then Inl Panic
          else if bseq bs (ms ! i)
               then (if i = 0 then Inr True else match_down rm ms (i - 1))
               else Inr False)"

text \<open>The outer loop, over the table; \<open>k\<close> is the index of the head of the list.\<close>

fun search_loop :: "int \<Rightarrow> byte list list \<Rightarrow> 'p Rate list \<Rightarrow> nat \<Rightarrow> error + nat option" where
  "search_loop l ms [] k = Inr None"
| "search_loop l ms (r # rs) k =
     (if l - 1 < 0 then search_loop l ms rs (Suc k)
      else case match_down (msgs r) ms (nat (l - 1)) of
        Inl e \<Rightarrow> Inl e
      | Inr True \<Rightarrow> Inr (Some k)
      | Inr False \<Rightarrow> search_loop l ms rs (Suc k))"

definition searchRate ::
  "'p Lib \<Rightarrow> int64 \<Rightarrow> byte list list \<Rightarrow> 'p Game \<Rightarrow> (error + nat option) \<times> 'p Game" where
  "searchRate lib amount ms g =
     (let (rs, g1) = Rates lib amount g in (search_loop (glength g) ms rs 0, g1))"

definition GetFixedRate :: "'p Game \<Rightarrow> 'p Rate option" where
  "GetFixedRate g =
     (case frate g of None \<Rightarrow> None | Some i \<Rightarrow> Some ((case rates g of None \<Rightarrow> [] | Some rs \<Rightarrow> rs) ! i))"

section \<open>oracle.go: the hash, the commitment and the oracle's scalars\<close>

definition SetBytes :: "byte list \<Rightarrow> int" where
  "SetBytes bs = foldl (\<lambda>a b. a * 256 + uint b) 0 bs"

definition H :: "'p Lib \<Rightarrow> 'p \<Rightarrow> byte list \<Rightarrow> int" where
  "H lib R m = SetBytes (Sha256 lib (SerializeUncompressed lib R @ m)) mod CurveN lib"

definition Commit :: "'p Lib \<Rightarrow> 'p \<Rightarrow> 'p \<Rightarrow> byte list \<Rightarrow> 'p" where
  "Commit lib R O' m =
     (let h = H lib R m;
          h1 = (- h) mod CurveN lib;
          hO = CurveScalarMult lib O' h1
      in CurveAdd lib R hO)"

text \<open>
  \<open>Oracle.Keys\<close> and \<open>Oracle.Signs\<close>: the oracle's private key \<open>o\<close> and the private nonce
  \<open>r i\<close> of position \<open>i\<close> come from its key derivation (\<open>getKeys\<close>), which is outside
  the embedding; the public keys are their multiples of the base point. For each of the
  \<open>chainhash.HashSize\<close> bytes of the block hash, \<open>s = r - H(R,m)o mod N\<close>.
\<close>

definition HashSize :: nat where
  "HashSize = 32"

definition OracleKeys :: "'p Lib \<Rightarrow> int \<Rightarrow> (nat \<Rightarrow> int) \<Rightarrow> 'p \<times> 'p list" where
  "OracleKeys lib o' r =
     (CurveScalarBaseMult lib o', map (\<lambda>i. CurveScalarBaseMult lib (r i)) [0..<HashSize])"

definition OracleSign :: "'p Lib \<Rightarrow> int \<Rightarrow> int \<Rightarrow> byte list \<Rightarrow> int" where
  "OracleSign lib o' r m =
     (let R = CurveScalarBaseMult lib r;
          ho = H lib R m * o'
      in (r - ho) mod CurveN lib)"

definition OracleSigns :: "'p Lib \<Rightarrow> int \<Rightarrow> (nat \<Rightarrow> int) \<Rightarrow> byte list \<Rightarrow> byte list list \<times> int list" where
  "OracleSigns lib o' r h =
     (map (\<lambda>i. [h ! i]) [0..<HashSize],
      map (\<lambda>i. OracleSign lib o' (r i) [h ! i]) [0..<HashSize])"

section \<open>game.go: oracle keys and oracle signatures\<close>

definition msg_len :: "byte list option \<Rightarrow> nat" where
  "msg_len m = (case m of None \<Rightarrow> 0 | Some bs \<Rightarrow> length bs)"

text \<open>
  The inner loop of \<open>SetOracleKeys\<close> over the positions of one rate: the key starts
  with nil coordinates (\<open>None\<close>) and collects \<open>Commit(keys[idx], pub, m)\<close> of every
  position with a message.
\<close>

fun commit_keys ::
  "'p Lib \<Rightarrow> 'p \<Rightarrow> 'p list \<Rightarrow> byte list option list \<Rightarrow> nat \<Rightarrow> 'p option \<Rightarrow> error + 'p option" where
  "commit_keys lib pub keys [] idx k = Inr k"
| "commit_keys lib pub keys (m # ms) idx k =
     (if msg_len m = 0 then commit_keys lib pub keys ms (Suc idx) k
      else if length keys \<le> idx then Inl Panic
      else
        (let p = Commit lib (keys ! idx) pub (case m of None \<Rightarrow> [] | Some bs \<Rightarrow> bs)
         in commit_keys lib pub keys ms (Suc idx)
              (case k of None \<Rightarrow> Some p | Some k0 \<Rightarrow> Some (CurveAdd lib k0 p))))"

fun set_rate_keys :: "'p Lib \<Rightarrow> 'p \<Rightarrow> 'p list \<Rightarrow> 'p Rate list \<Rightarrow> error + 'p Rate list" where
  "set_rate_keys lib pub keys [] = Inr []"
| "set_rate_keys lib pub keys (r # rs) =
     (case commit_keys lib pub keys (msgs r) 0 None of
        Inl e \<Rightarrow> Inl e
      | Inr k \<Rightarrow>
          (case set_rate_keys lib pub keys rs of
             Inl e \<Rightarrow> Inl e
           | Inr rs1 \<Rightarrow> Inr (r\<lparr>key := Some k\<rparr> # rs1)))"

definition SetOracleKeys :: "'p Lib \<Rightarrow> int64 \<Rightarrow> 'p \<Rightarrow> 'p list \<Rightarrow> 'p Game \<Rightarrow> error + 'p Game" where
  "SetOracleKeys lib amount pub keys g =
     (let (rs, g1) = Rates lib amount g in
      case set_rate_keys lib pub keys rs of
        Inl e \<Rightarrow> Inl e
      | Inr rs1 \<Rightarrow> Inr (g1\<lparr>rates := Some rs1, pubo := Some pub, okeys := keys\<rparr>))"

text \<open>The loop of \<open>SetOracleSigns\<close> that adds up the scalars of the positions with a message.\<close>

fun sum_signs :: "int \<Rightarrow> int list \<Rightarrow> byte list option list \<Rightarrow> nat \<Rightarrow> int \<Rightarrow> error + int" where
  "sum_signs n signs [] i sign = Inr sign"
| "sum_signs n signs (m # ms) i sign =
     (if 0 < msg_len m
      then (if length signs \<le> i then Inl Panic
            else sum_signs n signs ms (Suc i) ((sign + signs ! i) mod n))
      else sum_signs n signs ms (Suc i) sign)"

text \<open>
  \<open>SetOracleSigns\<close> returns its error (\<open>None\<close> is success) and the game. On success
  the selected rate of the table carries the scalar, and \<open>frate\<close> points at it.
\<close>

definition SetOracleSigns ::
  "'p Lib \<Rightarrow> int64 \<Rightarrow> byte list list \<Rightarrow> int list \<Rightarrow> 'p Game \<Rightarrow> error option \<times> 'p Game" where
  "SetOracleSigns lib amount ms signs g =
     (case searchRate lib amount ms g of
        (Inl e, g1) \<Rightarrow> (Some e, g1)
      | (Inr None, g1) \<Rightarrow> (Some RateNotFound, g1)
      | (Inr (Some i), g1) \<Rightarrow>
          (let rs = (case rates g1 of None \<Rightarrow> [] | Some rs0 \<Rightarrow> rs0);
               rate = rs ! i
           in case sum_signs (CurveN lib) signs (msgs rate) 0 0 of
                Inl e \<Rightarrow> (Some e, g1)
              | Inr sign \<Rightarrow>
                  (let sG = CurveScalarBaseMult lib sign
                   in case key rate of
                        Some (Some k) \<Rightarrow>
                          if \<not> (k = sG) then (Some IllegalOracleSigns, g1)
                          else (None, g1\<lparr>rates := Some (rs[i := rate\<lparr>msign := Some sign\<rparr>]),
                                         frate := Some i, omsgs := ms, osigns := signs\<rparr>)
                      | _ \<Rightarrow> (Some Panic, g1))))"

section \<open>dlc.go: the contract and its game\<close>

definition SetGame :: "'p Game \<Rightarrow> 'p Dlc \<Rightarrow> 'p Dlc" where
  "SetGame g d = d\<lparr>game := Some g, locktime := word_of_int (GameHeight g + 144)\<rparr>"

text \<open>
  In the other game.go of the repository the contract itself carries the height and the
  length, and the scenarios set them with \<open>SetGameConditions\<close>. The model keeps the two
  fields in the game record of the contract (a fresh one when there is none yet):
  \<open>d.height = height; d.length = length; d.locktime = uint32(d.length + 144)\<close>.
\<close>

definition SetGameConditions :: "int \<Rightarrow> int \<Rightarrow> 'p Dlc \<Rightarrow> 'p Dlc" where
  "SetGameConditions h l d =
     (let g = (case game d of None \<Rightarrow> NewGame 0 0 | Some g0 \<Rightarrow> g0);
          g1 = g\<lparr>height := h, glength := l\<rparr>
      in d\<lparr>game := Some g1, locktime := word_of_int (glength g1 + 144)\<rparr>)"

definition DlcGameHeight :: "'p Dlc \<Rightarrow> error + int" where
  "DlcGameHeight d = (case game d of None \<Rightarrow> Inl Panic | Some g \<Rightarrow> Inr (GameHeight g))"

definition GameLen :: "'p Dlc \<Rightarrow> error + int" where
  "GameLen d = (case game d of None \<Rightarrow> Inl Panic | Some g \<Rightarrow> Inr (GameLength g))"

definition DlcRates :: "'p Lib \<Rightarrow> 'p Dlc \<Rightarrow> error + ('p Rate list \<times> 'p Dlc)" where
  "DlcRates lib d =
     (case game d of
        None \<Rightarrow> Inl Panic
      | Some g \<Rightarrow> (let (rs, g1) = Rates lib (FundAmount d) g in Inr (rs, d\<lparr>game := Some g1\<rparr>)))"

definition FixedRate :: "'p Dlc \<Rightarrow> error + 'p Rate option" where
  "FixedRate d = (case game d of None \<Rightarrow> Inl Panic | Some g \<Rightarrow> Inr (GetFixedRate g))"

definition DlcSetOracleKeys :: "'p Lib \<Rightarrow> 'p \<Rightarrow> 'p list \<Rightarrow> 'p Dlc \<Rightarrow> error + 'p Dlc" where
  "DlcSetOracleKeys lib pub keys d =
     (case game d of
        None \<Rightarrow> Inl Panic
      | Some g \<Rightarrow>
          (case SetOracleKeys lib (FundAmount d) pub keys g of
             Inl e \<Rightarrow> Inl e
           | Inr g1 \<Rightarrow> Inr (d\<lparr>game := Some g1\<rparr>)))"

text \<open>
  \<open>SetOracleSigs\<close> takes the block hash, an array of \<open>HashSize\<close> bytes, and makes one
  message of each byte.
\<close>

definition SetOracleSigs :: "'p Lib \<Rightarrow> byte list \<Rightarrow> int list \<Rightarrow> 'p Dlc \<Rightarrow> error option \<times> 'p Dlc" where
  "SetOracleSigs lib h signs d =
     (let ms = map (\<lambda>i. [h ! i]) [0..<HashSize] in
      if length ms \<noteq> length signs then (Some IllegalParameters, d)
      else case game d of
        None \<Rightarrow> (Some Panic, d)
      | Some g \<Rightarrow>
          (case SetOracleSigns lib (FundAmount d) ms signs g of
             (Some e, g1) \<Rightarrow> (Some e, d\<lparr>game := Some g1\<rparr>)
           | (None, g1) \<Rightarrow> (None, d\<lparr>game := Some (SetHash h g1)\<rparr>)))"

section \<open>wallet.go: funding a transaction\<close>

text \<open>
  An unspent output as \<open>ListUnspent\<close> returns it, with its transaction id parsed
  (\<open>chainhash.NewHashFromStr\<close>) and its amount in satoshi (\<open>btcutil.NewAmount\<close>).
\<close>

record Utxo =
  TxID :: "byte list"
  Vout :: uint32
  Address :: string
  Satoshi :: int64

text \<open>
  The loop of \<open>FundTx\<close> over the unspent outputs, in list order: the state is the
  outpoints collected so far, their total and the fee added. It stops at the first
  output where the total is exactly the amount and the fee of the inputs, or covers
  them and the fee of a change output.
\<close>

fun fund_loop ::
  "int64 \<Rightarrow> int64 \<Rightarrow> Utxo list \<Rightarrow> OutPoint list \<Rightarrow> int64 \<Rightarrow> int64 \<Rightarrow> OutPoint list \<times> int64 \<times> int64" where
  "fund_loop amount efee [] outs total' addfee = (outs, total', addfee)"
| "fund_loop amount efee (utxo # list) outs total' addfee =
     (let outs1 = outs @ [NewOutPoint (TxID utxo) (Vout utxo)];
          total1 = total' + Satoshi utxo;
          addfee1 = of_nat (length outs1) * DlcTxInSize * efee
      in if amount + addfee1 \<le>s total1
         then (if amount + addfee1 = total1 then (outs1, total1, addfee1)
               else (let addfee2 = addfee1 + DlcTxOutSize * efee
                     in if amount + addfee2 \<le>s total1 then (outs1, total1, addfee2)
                        else fund_loop amount efee list outs1 total1 addfee2))
         else fund_loop amount efee list outs1 total1 addfee1)"

text \<open>
  \<open>WalletFundTx\<close> is \<open>Wallet.FundTx\<close>. The node's answer to \<open>listunspent\<close> (sorted by
  \<open>ListUnspent\<close>) and the public key that the wallet draws at random for the change
  are arguments.
\<close>

definition WalletFundTx ::
  "'p Lib \<Rightarrow> error + Utxo list \<Rightarrow> 'p \<Rightarrow> MsgTx \<Rightarrow> int64 \<Rightarrow> int64 \<Rightarrow> error + MsgTx" where
  "WalletFundTx lib unspent cpub tx amount efee =
     (case unspent of
        Inl e \<Rightarrow> Inl e
      | Inr list \<Rightarrow>
          (let (outs, total', addfee) = fund_loop amount efee list [] 0 0 in
           if total' <s amount + addfee then Inl ShortOfBitcoin
           else
             (let tx1 = tx\<lparr>TxIn := TxIn tx @ map NewTxIn outs\<rparr> in
              if amount + addfee = total' then Inr tx1
              else
                (let change = total' - (amount + addfee);
                     pkScript = P2WPKHpkScript lib cpub
                 in Inr (AddTxOut (NewTxOut change pkScript) tx1)))))"

section \<open>wallet.go: signing and sending\<close>

text \<open>
  A wallet entry: the index of the derived key, its public key and its address. The
  private key of the entry (\<open>extKey.Child(idx)\<close>, \<open>ECPrivKey\<close>) comes from the key
  derivation of the library and is kept with the entry.
\<close>

record 'p Info =
  info_idx :: uint32
  info_pub :: 'p
  info_adr :: string
  info_pri :: int

record 'p Wallet =
  infos :: "'p Info list"

text \<open>
  What one call of a user operation gets from outside: the two random numbers that
  \<open>GetPublicKey\<close> draws (for the operation itself and for the change output of
  \<open>FundTx\<close>), the node's answer to \<open>listunspent\<close> as \<open>ListUnspent\<close> returns it, and
  the node's answer to \<open>sendrawtransaction\<close> as \<open>SendTx\<close> returns it.
\<close>

record World =
  RandomIndex :: nat
  RandomChangeIndex :: nat
  ListUnspent :: "error + Utxo list"
  SendRawTransaction :: "MsgTx \<Rightarrow> error + byte list"

text \<open>
  \<open>GetPublicKey\<close> returns the public key of the entry \<open>rand.Intn(len(w.infos))\<close>, which
  panics on a wallet without entries.
\<close>

definition pick_key :: "'p Wallet \<Rightarrow> nat \<Rightarrow> 'p" where
  "pick_key w r = info_pub (infos w ! (r mod length (infos w)))"

definition GetPublicKey :: "'p Wallet \<Rightarrow> nat \<Rightarrow> error + 'p" where
  "GetPublicKey w r = (if infos w = [] then Inl Panic else Inr (pick_key w r))"

text \<open>
  The loop of \<open>GetWitnessSignaturePlus\<close> over the entries of the wallet: it has no
  break, so the last entry with the public key gives the private key.
\<close>

fun find_pri :: "'p Info list \<Rightarrow> 'p \<Rightarrow> int option \<Rightarrow> int option" where
  "find_pri [] p pri = pri"
| "find_pri (info # rest) p pri =
     (if info_pub info = p then find_pri rest p (Some (info_pri info))
      else find_pri rest p pri)"

definition GetWitnessSignaturePlus ::
  "'p Lib \<Rightarrow> 'p Wallet \<Rightarrow> MsgTx \<Rightarrow> nat \<Rightarrow> int64 \<Rightarrow> byte list option \<Rightarrow> 'p option \<Rightarrow> int option
     \<Rightarrow> error + byte list" where
  "GetWitnessSignaturePlus lib w tx idx amt script pub add =
     (case pub of
        None \<Rightarrow> Inl Panic
      | Some p \<Rightarrow>
          (case find_pri (infos w) p None of
             None \<Rightarrow> Inl UnknownPublicKey
           | Some pri \<Rightarrow>
               (let pri1 = (case add of None \<Rightarrow> pri | Some a \<Rightarrow> (pri + a) mod CurveN lib)
                in RawTxInWitnessSignature lib tx idx amt script pri1)))"

definition GetWitnessSignature ::
  "'p Lib \<Rightarrow> 'p Wallet \<Rightarrow> MsgTx \<Rightarrow> nat \<Rightarrow> int64 \<Rightarrow> byte list option \<Rightarrow> 'p option
     \<Rightarrow> error + byte list" where
  "GetWitnessSignature lib w tx idx amt script pub =
     GetWitnessSignaturePlus lib w tx idx amt script pub None"

text \<open>
  The loop of \<open>SignTx\<close> over the inputs, by index: an input whose outpoint is not among
  the unspent outputs is skipped; otherwise the first wallet entry with the address of
  the output signs, and the witness is the signature and the public key. Without such an
  entry the code dereferences a nil public key.
\<close>

fun sign_txins ::
  "'p Lib \<Rightarrow> Utxo list \<Rightarrow> 'p Info list \<Rightarrow> nat list \<Rightarrow> MsgTx \<Rightarrow> error option \<times> MsgTx" where
  "sign_txins lib list ws [] tx = (None, tx)"
| "sign_txins lib list ws (idx # rest) tx =
     (let txin = TxIn tx ! idx in
      case find (\<lambda>item. TxID item = Hash (PreviousOutPoint txin)
                         \<and> Vout item = Index (PreviousOutPoint txin)) list of
        None \<Rightarrow> sign_txins lib list ws rest tx
      | Some utxo \<Rightarrow>
          (case find (\<lambda>info. info_adr info = Address utxo) ws of
             None \<Rightarrow> (Some Panic, tx)
           | Some info \<Rightarrow>
               (let script = P2WPKHpkScript lib (info_pub info) in
                case RawTxInWitnessSignature lib tx idx (Satoshi utxo) (Some script)
                       (info_pri info) of
                  Inl e \<Rightarrow> (Some e, tx)
                | Inr sign \<Rightarrow>
                    sign_txins lib list ws rest
                      (tx\<lparr>TxIn := (TxIn tx)
                          [idx := txin\<lparr>Witness :=
                             Some [sign, SerializeCompressed lib (info_pub info)]\<rparr>]\<rparr>))))"

definition WalletSignTx ::
  "'p Lib \<Rightarrow> error + Utxo list \<Rightarrow> 'p Wallet \<Rightarrow> MsgTx \<Rightarrow> error option \<times> MsgTx" where
  "WalletSignTx lib unspent w tx =
     (case unspent of
        Inl e \<Rightarrow> (Some e, tx)
      | Inr list \<Rightarrow> sign_txins lib list (infos w) [0..<length (TxIn tx)] tx)"

definition WalletSendTx :: "World \<Rightarrow> MsgTx \<Rightarrow> error + byte list" where
  "WalletSendTx world tx = SendRawTransaction world tx"

section \<open>usr.go: the user, the status and the blobs\<close>

record 'p User =
  name :: string
  wallet :: "'p Wallet"
  dlc :: "'p Dlc option"
  status :: int

definition StatusNone :: int where "StatusNone = 0"
definition StatusWaitForAccept :: int where "StatusWaitForAccept = 1"
definition StatusCanGetSign :: int where "StatusCanGetSign = 2"
definition StatusCanGetAccept :: int where "StatusCanGetAccept = 10"
definition StatusWaitForSign :: int where "StatusWaitForSign = 20"
definition StatusWaitSendTx :: int where "StatusWaitSendTx = 30"
definition StatusCanSendSettlementTx :: int where "StatusCanSendSettlementTx = 31"

text \<open>
  The three blobs of the handshake and the oracle's blob, as the structs that
  \<open>json.Marshal\<close> writes and \<open>json.Unmarshal\<close> reads: JSON itself is not embedded, and
  an operation that reads a blob takes the result of \<open>json.Unmarshal\<close>, an error or the
  struct. The fields are the strings of the code (hex, or the date in the oracle's
  layout).
\<close>

record OfferData =
  oHigh :: bool
  oAmount :: int64
  oFefee :: int64
  oSefee :: int64
  oDate :: string
  oLength :: int
  oPubkey :: string
  oInputs :: "string list"
  oOutput :: string

record AcceptData =
  aPubkey :: string
  aInputs :: "string list"
  aOutput :: string
  aSigns :: "string list"
  aRsign :: string

record SignData =
  sFtws :: "string list list"
  sSigns :: "string list"
  sRsign :: string

record OracleSignsData =
  vValue :: string
  vSigns :: "string list"

text \<open>
  \<open>half\<close> is \<open>int64(math.Ceil(float64(value) / float64(2)))\<close>. A value of at most
  \<open>2^53\<close> in absolute value is a float64, and the result is the ceiling of its half;
  a greater one is rounded by the conversion, and the result is left to the library.
\<close>

definition half :: "'p Lib \<Rightarrow> int64 \<Rightarrow> int64" where
  "half lib v =
     (if - (2 ^ 53) \<le> sint v \<and> sint v \<le> 2 ^ 53 then word_of_int (- ((- sint v) div 2))
      else CeilHalf lib v)"

section \<open>usr.go: serialization helpers\<close>

text \<open>The little-endian bytes of a number, and the number of little-endian bytes.\<close>

fun le_bytes :: "nat \<Rightarrow> nat \<Rightarrow> byte list" where
  "le_bytes 0 v = []"
| "le_bytes (Suc n) v = of_nat (v mod 256) # le_bytes n (v div 256)"

fun le_value :: "byte list \<Rightarrow> nat" where
  "le_value [] = 0"
| "le_value (b # bs) = unat b + 256 * le_value bs"

definition OpToBs :: "OutPoint \<Rightarrow> byte list" where
  "OpToBs op = Hash op @ le_bytes 4 (unat (Index op))"

definition BsToOp :: "byte list \<Rightarrow> error + OutPoint" where
  "BsToOp bs =
     (if length bs \<noteq> 36 then Inl (IllegalSize (length bs))
      else Inr (NewOutPoint (take 32 bs) (of_nat (le_value (drop 32 bs)))))"

definition TxOutToBs :: "'p Lib \<Rightarrow> TxOut \<Rightarrow> byte list" where
  "TxOutToBs lib txout =
     le_bytes 8 (unat (Value txout)) @ WriteVarInt lib (length (PkScript txout))
     @ PkScript txout"

definition BsToTxOut :: "'p Lib \<Rightarrow> byte list \<Rightarrow> error + TxOut" where
  "BsToTxOut lib bs =
     (if length bs \<le> 8 then Inl (IllegalSize (length bs))
      else case ReadVarInt lib (drop 8 bs) of
        Inl e \<Rightarrow> Inl e
      | Inr len \<Rightarrow>
          (let size = VarIntSerializeSize lib len in
           if length bs \<noteq> 8 + size + len then Inl (IllegalSize (length bs))
           else Inr (NewTxOut (of_nat (le_value (take 8 bs))) (drop (8 + size) bs))))"

definition TwsToSss :: "'p Lib \<Rightarrow> byte list list list \<Rightarrow> string list list" where
  "TwsToSss lib tws = map (map (EncodeToString lib)) tws"

text \<open>Decoding a list of strings stops at the first error.\<close>

fun decode_all :: "'p Lib \<Rightarrow> string list \<Rightarrow> error + byte list list" where
  "decode_all lib [] = Inr []"
| "decode_all lib (s # ss) =
     (case DecodeString lib s of
        Inl e \<Rightarrow> Inl e
      | Inr bs \<Rightarrow> (case decode_all lib ss of Inl e \<Rightarrow> Inl e | Inr bss \<Rightarrow> Inr (bs # bss)))"

fun SssToTws :: "'p Lib \<Rightarrow> string list list \<Rightarrow> error + byte list list list" where
  "SssToTws lib [] = Inr []"
| "SssToTws lib (ss # sss) =
     (case decode_all lib ss of
        Inl e \<Rightarrow> Inl e
      | Inr tw \<Rightarrow> (case SssToTws lib sss of Inl e \<Rightarrow> Inl e | Inr tws \<Rightarrow> Inr (tw # tws)))"

definition StrToPub :: "'p Lib \<Rightarrow> string \<Rightarrow> error + 'p" where
  "StrToPub lib str =
     (case DecodeString lib str of Inl e \<Rightarrow> Inl e | Inr bs \<Rightarrow> ParsePubKey lib bs)"

fun str_to_inputs :: "'p Lib \<Rightarrow> string list \<Rightarrow> error + TxIn list" where
  "str_to_inputs lib [] = Inr []"
| "str_to_inputs lib (input # inputs) =
     (case DecodeString lib input of
        Inl e \<Rightarrow> Inl e
      | Inr bs \<Rightarrow>
          (case BsToOp bs of
             Inl e \<Rightarrow> Inl e
           | Inr op \<Rightarrow>
               (case str_to_inputs lib inputs of
                  Inl e \<Rightarrow> Inl e
                | Inr txins \<Rightarrow> Inr (NewTxIn op # txins))))"

definition StrToInputsOutput ::
  "'p Lib \<Rightarrow> string list \<Rightarrow> string \<Rightarrow> error + (TxIn list \<times> TxOut option)" where
  "StrToInputsOutput lib inputs output =
     (case str_to_inputs lib inputs of
        Inl e \<Rightarrow> Inl e
      | Inr txins \<Rightarrow>
          if output \<noteq> []
          then (case DecodeString lib output of
                  Inl e \<Rightarrow> Inl e
                | Inr bs \<Rightarrow>
                    (case BsToTxOut lib bs of
                       Inl e \<Rightarrow> Inl e
                     | Inr txout \<Rightarrow> Inr (txins, Some txout)))
          else Inr (txins, None))"

section \<open>game.go as usr.go calls it\<close>

text \<open>
  usr.go is written against the game.go that keys the game by a date. There the
  contract itself carries the date, the length, the rate table, the fixed rate and the
  oracle's data; the model keeps them in the game record of the contract, the date in
  its \<open>height\<close> field, and a contract without a game record is one whose fields are
  still zero. This game.go builds a table of five rates, whatever the length, and its
  \<open>SetOracleSigns\<close> takes the oracle's value, a string of decimal numbers separated by
  commas, and makes one message of each number. The copy of the value string that it
  keeps is read by nothing and is left out.
\<close>

definition game_of :: "'p Dlc \<Rightarrow> 'p Game" where
  "game_of d = (case game d of None \<Rightarrow> NewGame 0 0 | Some g \<Rightarrow> g)"

definition GameDate :: "'p Dlc \<Rightarrow> int" where
  "GameDate d = height (game_of d)"

definition DlcGameLength :: "'p Dlc \<Rightarrow> int" where
  "DlcGameLength d = glength (game_of d)"

text \<open>The division of int64 by a positive constant, which truncates toward zero.\<close>

definition quot64 :: "int64 \<Rightarrow> int \<Rightarrow> int64" where
  "quot64 a b = word_of_int (sgn (sint a) * (\<bar>sint a\<bar> div b))"

text \<open>
  The table: \<open>big.NewInt(10).Bytes()\<close> is the one byte 10, and the shares are
  \<open>0\<close>, \<open>amount/4\<close>, \<open>amount/2\<close>, \<open>(amount/4)*3\<close> and \<open>amount\<close> for A, the
  same in the other order for B. \<open>Rates_date\<close> returns the cached table, or builds and
  caches it.
\<close>

definition five_rates :: "int64 \<Rightarrow> 'p Rate list" where
  "five_rates amount =
     [NewRate [Some [10]] 0 amount,
      NewRate [Some [20]] (quot64 amount 4) (quot64 amount 4 * 3),
      NewRate [Some [30]] (quot64 amount 2) (quot64 amount 2),
      NewRate [Some [40]] (quot64 amount 4 * 3) (quot64 amount 4),
      NewRate [Some [50]] amount 0]"

definition Rates_date :: "'p Dlc \<Rightarrow> 'p Rate list \<times> 'p Dlc" where
  "Rates_date d =
     (case rates (game_of d) of
        Some rs \<Rightarrow> (rs, d)
      | None \<Rightarrow>
          (let rs = five_rates (FundAmount d)
           in (rs, d\<lparr>game := Some ((game_of d)\<lparr>rates := Some rs\<rparr>)\<rparr>)))"

definition searchRate_date :: "byte list list \<Rightarrow> 'p Dlc \<Rightarrow> (error + nat option) \<times> 'p Dlc" where
  "searchRate_date ms d =
     (let (rs, d1) = Rates_date d in (search_loop (glength (game_of d)) ms rs 0, d1))"

text \<open>\<open>strings.Split(value, ",")\<close>; \<open>acc\<close> is the field read so far.\<close>

fun split_commas :: "string \<Rightarrow> string \<Rightarrow> string list" where
  "split_commas acc [] = [acc]"
| "split_commas acc (c # cs) =
     (if c = CHR '','' then acc # split_commas [] cs else split_commas (acc @ [c]) cs)"

text \<open>\<open>big.Int.Bytes\<close>: the big-endian bytes of the absolute value, none for 0.\<close>

fun be_bytes :: "nat \<Rightarrow> byte list" where
  "be_bytes n = (if n = 0 then [] else be_bytes (n div 256) @ [of_nat (n mod 256)])"

fun value_msgs :: "'p Lib \<Rightarrow> string list \<Rightarrow> error + byte list list" where
  "value_msgs lib [] = Inr []"
| "value_msgs lib (val # vals) =
     (case Atoi lib val of
        Inl e \<Rightarrow> Inl e
      | Inr i \<Rightarrow>
          (case value_msgs lib vals of
             Inl e \<Rightarrow> Inl e
           | Inr ms \<Rightarrow> Inr (be_bytes (nat \<bar>i\<bar>) # ms)))"

definition SetOracleSigns_date ::
  "'p Lib \<Rightarrow> string \<Rightarrow> int list \<Rightarrow> 'p Dlc \<Rightarrow> error option \<times> 'p Dlc" where
  "SetOracleSigns_date lib val signs d =
     (case value_msgs lib (split_commas [] val) of
        Inl e \<Rightarrow> (Some e, d)
      | Inr ms \<Rightarrow>
          if length ms \<noteq> length signs then (Some IllegalParameters, d)
          else case searchRate_date ms d of
            (Inl e, d1) \<Rightarrow> (Some e, d1)
          | (Inr None, d1) \<Rightarrow> (Some RateNotFound, d1)
          | (Inr (Some i), d1) \<Rightarrow>
              (let g1 = game_of d1;
                   rs = (case rates g1 of None \<Rightarrow> [] | Some rs0 \<Rightarrow> rs0);
                   rate = rs ! i
               in case sum_signs (CurveN lib) signs (msgs rate) 0 0 of
                    Inl e \<Rightarrow> (Some e, d1)
                  | Inr sign \<Rightarrow>
                      (let sG = CurveScalarBaseMult lib sign
                       in case key rate of
                            Some (Some k) \<Rightarrow>
                              if \<not> (k = sG) then (Some IllegalOracleSigns, d1)
                              else (None,
                                    d1\<lparr>game := Some (g1
                                      \<lparr>rates := Some (rs[i := rate\<lparr>msign := Some sign\<rparr>]),
                                       frate := Some i, omsgs := ms, osigns := signs\<rparr>)\<rparr>)
                          | _ \<Rightarrow> (Some Panic, d1))))"

section \<open>usr.go: what the operations share\<close>

text \<open>
  The rates are pointers into the table of the game and the inputs are pointers that
  the contract and the fund transaction share: a rate or an input that an operation
  changes is written back to the contract.
\<close>

definition set_rates :: "'p Rate list \<Rightarrow> 'p Dlc \<Rightarrow> 'p Dlc" where
  "set_rates rs d =
     (case game d of None \<Rightarrow> d | Some g \<Rightarrow> d\<lparr>game := Some (g\<lparr>rates := Some rs\<rparr>)\<rparr>)"

definition set_txins :: "TxIn list \<Rightarrow> bool \<Rightarrow> 'p Dlc \<Rightarrow> 'p Dlc" where
  "set_txins txins a d = (if a then d\<lparr>atxins := txins\<rparr> else d\<lparr>btxins := txins\<rparr>)"

definition set_fund_txins :: "MsgTx \<Rightarrow> 'p Dlc \<Rightarrow> 'p Dlc" where
  "set_fund_txins tx d =
     d\<lparr>atxins := take (length (atxins d)) (TxIn tx),
       btxins := drop (length (atxins d)) (TxIn tx)\<rparr>"

text \<open>
  The inputs and the output that \<open>GetOfferData\<close> and \<open>GetAcceptData\<close> read off the
  transaction that the wallet funded.
\<close>

definition tx_inputs :: "'p Lib \<Rightarrow> MsgTx \<Rightarrow> string list" where
  "tx_inputs lib tx = map (\<lambda>txin. EncodeToString lib (OpToBs (PreviousOutPoint txin))) (TxIn tx)"

definition tx_txout :: "MsgTx \<Rightarrow> TxOut option" where
  "tx_txout tx = (if 0 < length (TxOut tx) then Some (TxOut tx ! 0) else None)"

definition tx_output :: "'p Lib \<Rightarrow> MsgTx \<Rightarrow> string" where
  "tx_output lib tx =
     (case tx_txout tx of None \<Rightarrow> [] | Some txout \<Rightarrow> EncodeToString lib (TxOutToBs lib txout))"

text \<open>
  The loop of \<open>GetAcceptData\<close> and \<open>GetSignData\<close> over the rates: the signature of the
  settlement transaction of each rate, the empty string where there is none. The rates
  come back as \<open>SettlementTx\<close> left them.
\<close>

fun sign_rates ::
  "'p Lib \<Rightarrow> 'p Wallet \<Rightarrow> 'p Dlc \<Rightarrow> bool \<Rightarrow> int64 \<Rightarrow> byte list option \<Rightarrow> 'p option \<Rightarrow> 'p Rate list
     \<Rightarrow> (error + string list) \<times> 'p Rate list" where
  "sign_rates lib w d high amt script pub [] = (Inr [], [])"
| "sign_rates lib w d high amt script pub (rate # rs) =
     (case SettlementTx lib d rate high of
        Inl e \<Rightarrow> (Inl e, rate # rs)
      | Inr (None, rate1) \<Rightarrow>
          (case sign_rates lib w d high amt script pub rs of
             (Inl e, rs1) \<Rightarrow> (Inl e, rate1 # rs1)
           | (Inr signs, rs1) \<Rightarrow> (Inr ([] # signs), rate1 # rs1))
      | Inr (Some stx, rate1) \<Rightarrow>
          (case GetWitnessSignature lib w stx 0 amt script pub of
             Inl e \<Rightarrow> (Inl e, rate1 # rs)
           | Inr sign \<Rightarrow>
               (case sign_rates lib w d high amt script pub rs of
                  (Inl e, rs1) \<Rightarrow> (Inl e, rate1 # rs1)
                | (Inr signs, rs1) \<Rightarrow> (Inr (EncodeToString lib sign # signs), rate1 # rs1))))"

text \<open>
  The loop of \<open>VerifySettlementTxSigns\<close> over the signatures and the rates, which have
  the same length there; the rates come back as \<open>Verify\<close> left them.
\<close>

fun verify_signs ::
  "'p Lib \<Rightarrow> 'p Dlc \<Rightarrow> bool \<Rightarrow> 'p option \<Rightarrow> string list \<Rightarrow> 'p Rate list
     \<Rightarrow> error option \<times> 'p Rate list" where
  "verify_signs lib d high pub [] rs = (None, rs)"
| "verify_signs lib d high pub (sign # signs) [] = (Some Panic, [])"
| "verify_signs lib d high pub (sign # signs) (rate # rs) =
     (if sign = []
      then (if Amount rate high \<noteq> 0 then (Some NotFoundSign, rate # rs)
            else (case verify_signs lib d high pub signs rs of
                    (e, rs1) \<Rightarrow> (e, rate # rs1)))
      else case DecodeString lib sign of
        Inl e \<Rightarrow> (Some e, rate # rs)
      | Inr s \<Rightarrow>
          (case Verify lib d rate high s pub of
             (Some e, rate1) \<Rightarrow> (Some e, rate1 # rs)
           | (None, rate1) \<Rightarrow>
               (case verify_signs lib d high pub signs rs of
                  (e, rs1) \<Rightarrow> (e, rate1 # rs1))))"

definition VerifySettlementTxSigns ::
  "'p Lib \<Rightarrow> string list \<Rightarrow> 'p Dlc \<Rightarrow> error option \<times> 'p Dlc" where
  "VerifySettlementTxSigns lib signs d =
     (case Rates_date d of
        (rs, d1) \<Rightarrow>
          if length rs \<noteq> length signs
          then (Some (SizeError (length rs) (length signs)), d1)
          else
            (let high = IsA d1;
                 pub = PublicKey d1 (\<not> high)
             in case verify_signs lib d1 high pub signs rs of
                  (e, rs1) \<Rightarrow> (e, set_rates rs1 d1)))"

section \<open>usr.go: the operations of the handshake\<close>

text \<open>
  An operation returns what the Go method returns, the blob or the error, and the user
  as the call leaves it. A method that reads a blob takes the result of
  \<open>json.Unmarshal\<close>. \<open>u.dlc\<close> is dereferenced without a check: a user without a
  contract panics there.
\<close>

definition GetOfferData ::
  "'p Lib \<Rightarrow> World \<Rightarrow> 'p Dlc option \<Rightarrow> 'p User \<Rightarrow> (error + OfferData) \<times> 'p User" where
  "GetOfferData lib world dopt u =
     (if status u \<noteq> StatusNone then (Inl (IllegalStatus (status u)), u)
      else case dopt of
        None \<Rightarrow> (Inl ParameterIsNil, u)
      | Some d \<Rightarrow>
          (case GetPublicKey (wallet u) (RandomIndex world) of
             Inl e \<Rightarrow> (Inl e, u\<lparr>dlc := Some d\<rparr>)
           | Inr pub \<Rightarrow>
               (let d1 = SetPublicKey (Some pub) (IsA d) d;
                    amt = half lib (FundAmount d1) + half lib (SettlementFee d1)
                          + half lib (DlcFundTxBaseSize * FundEstimateFee d1)
                in case WalletFundTx lib (ListUnspent world)
                          (pick_key (wallet u) (RandomChangeIndex world))
                          (NewMsgTx 2) amt (FundEstimateFee d1) of
                     Inl e \<Rightarrow> (Inl e, u\<lparr>dlc := Some d1\<rparr>)
                   | Inr tx \<Rightarrow>
                       (let d2 = SetTxInsAndTxOut (TxIn tx) (tx_txout tx) (IsA d1) d1
                        in (Inr \<lparr>oHigh = IsA d2, oAmount = FundAmount d2,
                                 oFefee = FundEstimateFee d2,
                                 oSefee = SettlementEstimateFee d2,
                                 oDate = TimeFormat lib (GameDate d2),
                                 oLength = DlcGameLength d2,
                                 oPubkey = EncodeToString lib (SerializeCompressed lib pub),
                                 oInputs = tx_inputs lib tx, oOutput = tx_output lib tx\<rparr>,
                            u\<lparr>dlc := Some d2, status := StatusWaitForAccept\<rparr>)))))"

definition SetOfferData ::
  "'p Lib \<Rightarrow> error + OfferData \<Rightarrow> 'p User \<Rightarrow> error option \<times> 'p User" where
  "SetOfferData lib data u =
     (if status u \<noteq> StatusNone then (Some (IllegalStatus (status u)), u)
      else case data of
        Inl e \<Rightarrow> (Some e, u)
      | Inr odata \<Rightarrow>
          (case StrToPub lib (oPubkey odata) of
             Inl e \<Rightarrow> (Some e, u)
           | Inr pub \<Rightarrow>
               (case StrToInputsOutput lib (oInputs odata) (oOutput odata) of
                  Inl e \<Rightarrow> (Some e, u)
                | Inr (txins, txout) \<Rightarrow>
                    (let sfee = oSefee odata * DlcSettlementTxSize;
                         d0 = NewDlc (half lib (oAmount odata)) (half lib (oAmount odata))
                                (oFefee odata) (oSefee odata) (half lib sfee) (half lib sfee)
                                (\<not> oHigh odata);
                         d1 = SetTxInsAndTxOut txins txout (oHigh odata) d0
                     in case TimeParse lib (oDate odata) of
                          Inl e \<Rightarrow> (Some e, u\<lparr>dlc := Some d1\<rparr>)
                        | Inr date \<Rightarrow>
                            (let d2 = SetGameConditions date (oLength odata) d1;
                                 d3 = SetPublicKey (Some pub) (oHigh odata) d2
                             in (None, u\<lparr>dlc := Some d3, status := StatusCanGetAccept\<rparr>))))))"

text \<open>
  The second half of \<open>GetAcceptData\<close> and of \<open>GetSignData\<close>: the signature of the
  refund transaction under the own key, which the contract keeps.
\<close>

definition sign_refund ::
  "'p Lib \<Rightarrow> 'p Wallet \<Rightarrow> int64 \<Rightarrow> byte list option \<Rightarrow> 'p option \<Rightarrow> 'p Dlc
     \<Rightarrow> error + (byte list \<times> 'p Dlc)" where
  "sign_refund lib w amt script pub d =
     (case RefundTx lib d of
        Inl e \<Rightarrow> Inl e
      | Inr rtx \<Rightarrow>
          (case GetWitnessSignature lib w rtx 0 amt script pub of
             Inl e \<Rightarrow> Inl e
           | Inr rsign' \<Rightarrow> Inr (rsign', SetRefundSign (Some rsign') (IsA d) d)))"

definition GetAcceptData ::
  "'p Lib \<Rightarrow> World \<Rightarrow> 'p User \<Rightarrow> (error + AcceptData) \<times> 'p User" where
  "GetAcceptData lib world u =
     (if status u \<noteq> StatusCanGetAccept then (Inl (IllegalStatus (status u)), u)
      else case GetPublicKey (wallet u) (RandomIndex world) of
        Inl e \<Rightarrow> (Inl e, u)
      | Inr pub \<Rightarrow>
          (case dlc u of
             None \<Rightarrow> (Inl Panic, u)
           | Some d \<Rightarrow>
               (let d1 = SetPublicKey (Some pub) (IsA d) d;
                    amt = FundAmount d1 + SettlementFee d1;
                    fefee' = FundEstimateFee d1
                in case WalletFundTx lib (ListUnspent world)
                          (pick_key (wallet u) (RandomChangeIndex world)) (NewMsgTx 2)
                          (half lib amt + half lib (DlcFundTxBaseSize * FundEstimateFee d1))
                          fefee' of
                     Inl e \<Rightarrow> (Inl e, u\<lparr>dlc := Some d1\<rparr>)
                   | Inr tx \<Rightarrow>
                       (let txins = map (\<lambda>txin. NewTxIn (PreviousOutPoint txin)) (TxIn tx);
                            d2 = SetTxInsAndTxOut txins (tx_txout tx) (IsA d1) d1;
                            high = (\<not> IsA d2)
                        in case Rates_date d2 of
                             (rs, d3) \<Rightarrow>
                               (let script = FundScript lib d3 in
                                case sign_rates lib (wallet u) d3 high amt script (Some pub) rs of
                                  (Inl e, rs1) \<Rightarrow> (Inl e, u\<lparr>dlc := Some (set_rates rs1 d3)\<rparr>)
                                | (Inr signs, rs1) \<Rightarrow>
                                    (let d4 = set_rates rs1 d3 in
                                     case sign_refund lib (wallet u) amt script (Some pub) d4 of
                                       Inl e \<Rightarrow> (Inl e, u\<lparr>dlc := Some d4\<rparr>)
                                     | Inr (rsign', d5) \<Rightarrow>
                                         (Inr \<lparr>aPubkey = EncodeToString lib
                                                           (SerializeCompressed lib pub),
                                               aInputs = tx_inputs lib tx,
                                               aOutput = tx_output lib tx,
                                               aSigns = signs,
                                               aRsign = EncodeToString lib rsign'\<rparr>,
                                          u\<lparr>dlc := Some d5,
                                            status := StatusWaitForSign\<rparr>)))))))"

definition SetAcceptData ::
  "'p Lib \<Rightarrow> error + AcceptData \<Rightarrow> 'p User \<Rightarrow> error option \<times> 'p User" where
  "SetAcceptData lib data u =
     (if status u \<noteq> StatusWaitForAccept then (Some (IllegalStatus (status u)), u)
      else case data of
        Inl e \<Rightarrow> (Some e, u)
      | Inr adata \<Rightarrow>
          (case StrToPub lib (aPubkey adata) of
             Inl e \<Rightarrow> (Some e, u)
           | Inr pub \<Rightarrow>
               (case dlc u of
                  None \<Rightarrow> (Some Panic, u)
                | Some d \<Rightarrow>
                    (let d1 = SetPublicKey (Some pub) (\<not> IsA d) d in
                     case StrToInputsOutput lib (aInputs adata) (aOutput adata) of
                       Inl e \<Rightarrow> (Some e, u\<lparr>dlc := Some d1\<rparr>)
                     | Inr (txins, txout) \<Rightarrow>
                         (let d2 = SetTxInsAndTxOut txins txout (\<not> IsA d1) d1 in
                          case VerifySettlementTxSigns lib (aSigns adata) d2 of
                            (Some e, d3) \<Rightarrow> (Some e, u\<lparr>dlc := Some d3\<rparr>)
                          | (None, d3) \<Rightarrow>
                              (case DecodeString lib (aRsign adata) of
                                 Inl e \<Rightarrow> (Some e, u\<lparr>dlc := Some d3\<rparr>)
                               | Inr rsign' \<Rightarrow>
                                   (case VerifyRefundTx lib d3 rsign' (Some pub) of
                                      Some e \<Rightarrow> (Some e, u\<lparr>dlc := Some d3\<rparr>)
                                    | None \<Rightarrow>
                                        (None,
                                         u\<lparr>dlc := Some (SetRefundSign (Some rsign') (\<not> IsA d3) d3),
                                           status := StatusCanGetSign\<rparr>))))))))"

definition GetSignData ::
  "'p Lib \<Rightarrow> World \<Rightarrow> 'p User \<Rightarrow> (error + SignData) \<times> 'p User" where
  "GetSignData lib world u =
     (if status u \<noteq> StatusCanGetSign then (Inl (IllegalStatus (status u)), u)
      else case dlc u of
        None \<Rightarrow> (Inl Panic, u)
      | Some d \<Rightarrow>
          (let pub = PublicKey d (IsA d);
               high = (\<not> IsA d)
           in case Rates_date d of
                (rs, d1) \<Rightarrow>
                  (let amt = FundAmount d1 + SettlementFee d1;
                       script = FundScript lib d1
                   in case sign_rates lib (wallet u) d1 high amt script pub rs of
                        (Inl e, rs1) \<Rightarrow> (Inl e, u\<lparr>dlc := Some (set_rates rs1 d1)\<rparr>)
                      | (Inr signs, rs1) \<Rightarrow>
                          (let d2 = set_rates rs1 d1 in
                           case WalletSignTx lib (ListUnspent world) (wallet u) (FundTx lib d2) of
                             (Some e, tx) \<Rightarrow> (Inl e, u\<lparr>dlc := Some (set_fund_txins tx d2)\<rparr>)
                           | (None, tx) \<Rightarrow>
                               (let d3 = set_fund_txins tx d2;
                                    tws = map (\<lambda>txin. case Witness txin of None \<Rightarrow> [] | Some tw \<Rightarrow> tw)
                                            (filter (\<lambda>txin. Witness txin \<noteq> None) (TxIn tx))
                                in case sign_refund lib (wallet u) amt script pub d3 of
                                     Inl e \<Rightarrow> (Inl e, u\<lparr>dlc := Some d3\<rparr>)
                                   | Inr (rsign', d4) \<Rightarrow>
                                       (Inr \<lparr>sFtws = TwsToSss lib tws, sSigns = signs,
                                             sRsign = EncodeToString lib rsign'\<rparr>,
                                        u\<lparr>dlc := Some d4, status := StatusWaitSendTx\<rparr>))))))"

definition SetSignData ::
  "'p Lib \<Rightarrow> error + SignData \<Rightarrow> 'p User \<Rightarrow> error option \<times> 'p User" where
  "SetSignData lib data u =
     (if status u \<noteq> StatusWaitForSign then (Some (IllegalStatus (status u)), u)
      else case data of
        Inl e \<Rightarrow> (Some e, u)
      | Inr sdata \<Rightarrow>
          (case SssToTws lib (sFtws sdata) of
             Inl e \<Rightarrow> (Some e, u)
           | Inr tws \<Rightarrow>
               (case dlc u of
                  None \<Rightarrow> (Some Panic, u)
                | Some d \<Rightarrow>
                    (let txins = FundTxIns d (\<not> IsA d) in
                     if length tws \<noteq> length txins
                     then (Some (IllegalLength (length tws) (length txins)), u)
                     else
                       (let d1 = set_txins
                                   (map (\<lambda>(txin, tw). txin\<lparr>Witness := Some tw\<rparr>) (zip txins tws))
                                   (\<not> IsA d) d
                        in case VerifySettlementTxSigns lib (sSigns sdata) d1 of
                             (Some e, d2) \<Rightarrow> (Some e, u\<lparr>dlc := Some d2\<rparr>)
                           | (None, d2) \<Rightarrow>
                               (case DecodeString lib (sRsign sdata) of
                                  Inl e \<Rightarrow> (Some e, u\<lparr>dlc := Some d2\<rparr>)
                                | Inr rsign' \<Rightarrow>
                                    (case VerifyRefundTx lib d2 rsign' (PublicKey d2 (\<not> IsA d2)) of
                                       Some e \<Rightarrow> (Some e, u\<lparr>dlc := Some d2\<rparr>)
                                     | None \<Rightarrow>
                                         (None,
                                          u\<lparr>dlc := Some (SetRefundSign (Some rsign') (\<not> IsA d2) d2),
                                            status := StatusWaitSendTx\<rparr>))))))))"

section \<open>usr.go: sending the transactions and the oracle's signatures\<close>

text \<open>
  The two operations that send return, besides the error and the user, the transactions
  that the node took. \<open>SendFundTx\<close> prints the first output of the transaction it
  sent, which panics when there is none.
\<close>

definition SendFundTx ::
  "'p Lib \<Rightarrow> World \<Rightarrow> 'p User \<Rightarrow> error option \<times> MsgTx list \<times> 'p User" where
  "SendFundTx lib world u =
     (if status u \<noteq> StatusWaitSendTx then (Some (IllegalStatus (status u)), [], u)
      else case dlc u of
        None \<Rightarrow> (Some Panic, [], u)
      | Some d \<Rightarrow>
          (case WalletSignTx lib (ListUnspent world) (wallet u) (FundTx lib d) of
             (Some e, tx) \<Rightarrow> (Some e, [], u\<lparr>dlc := Some (set_fund_txins tx d)\<rparr>)
           | (None, tx) \<Rightarrow>
               (let u1 = u\<lparr>dlc := Some (set_fund_txins tx d)\<rparr> in
                case WalletSendTx world tx of
                  Inl e \<Rightarrow> (Some e, [], u1)
                | Inr txid' \<Rightarrow>
                    if TxOut tx = [] then (Some Panic, [tx], u1) else (None, [tx], u1))))"

text \<open>
  The oracle's blob is \<open>oracle.Signs\<close> as usr.go reads it, with the fields \<open>Value\<close>
  and \<open>Signs\<close> (the scalars in hex). After the contract has taken the scalars the
  method only prints who won.
\<close>

definition UserSetOracleSigns ::
  "'p Lib \<Rightarrow> error + OracleSignsData \<Rightarrow> 'p User \<Rightarrow> error option \<times> 'p User" where
  "UserSetOracleSigns lib data u =
     (if status u \<noteq> StatusWaitSendTx then (Some (IllegalStatus (status u)), u)
      else case data of
        Inl e \<Rightarrow> (Some e, u)
      | Inr osigs \<Rightarrow>
          (case decode_all lib (vSigns osigs) of
             Inl e \<Rightarrow> (Some e, u)
           | Inr bss \<Rightarrow>
               (case dlc u of
                  None \<Rightarrow> (Some Panic, u)
                | Some d \<Rightarrow>
                    (case SetOracleSigns_date lib (vValue osigs) (map SetBytes bss) d of
                       (Some e, d1) \<Rightarrow> (Some e, u\<lparr>dlc := Some d1\<rparr>)
                     | (None, d1) \<Rightarrow>
                         (case FixedRate d1 of
                            Inl e \<Rightarrow> (Some e, u\<lparr>dlc := Some d1\<rparr>)
                          | Inr _ \<Rightarrow> (None, u\<lparr>dlc := Some d1\<rparr>))))))"

text \<open>
  \<open>SendSettlementTx\<close> does not look at the status. The witness of the only input is
  the empty item, the two signatures and the fund script; a nil signature or script is
  an empty item.
\<close>

definition bytes_of :: "byte list option \<Rightarrow> byte list" where
  "bytes_of bs = (case bs of None \<Rightarrow> [] | Some b \<Rightarrow> b)"

definition SendSettlementTx ::
  "'p Lib \<Rightarrow> World \<Rightarrow> 'p User \<Rightarrow> error option \<times> MsgTx list \<times> 'p User" where
  "SendSettlementTx lib world u =
     (case dlc u of
        None \<Rightarrow> (Some Panic, [], u)
      | Some d \<Rightarrow>
          (case FixedRate d of
             Inl e \<Rightarrow> (Some e, [], u)
           | Inr None \<Rightarrow> (Some RateNoFix, [], u)
           | Inr (Some rate) \<Rightarrow>
               (let sign1 = ReceivedSign rate;
                    high = IsA d
                in case SettlementTx lib d rate high of
                     Inl e \<Rightarrow> (Some e, [], u)
                   | Inr (None, _) \<Rightarrow> (Some NoTransaction, [], u)
                   | Inr (Some tx, _) \<Rightarrow>
                       (let pub = PublicKey d high;
                            amt = FundAmount d + SettlementFee d;
                            script = FundScript lib d
                        in case GetWitnessSignature lib (wallet u) tx 0 amt script pub of
                             Inl e \<Rightarrow> (Some e, [], u)
                           | Inr sign2 \<Rightarrow>
                               (let witness =
                                      [[]] @ (if high then [sign2, bytes_of sign1]
                                              else [bytes_of sign1, sign2])
                                      @ [bytes_of script];
                                    tx1 = tx\<lparr>TxIn := (TxIn tx)
                                            [0 := (TxIn tx ! 0)\<lparr>Witness := Some witness\<rparr>]\<rparr>
                                in case WalletSendTx world tx1 of
                                     Inl e \<Rightarrow> (Some e, [], u)
                                   | Inr txid' \<Rightarrow> (None, [tx1], u))))))"

section \<open>Notions used to state the properties of the oracle's keys and scalars\<close>

text \<open>
  What the statements assume of the curve of the library record: its order is positive,
  and on the multiples of the base point by non-negative scalars the addition and the
  scalar multiplication are those of the scalars modulo the order. \<open>key_inv\<close> relates
  the key that \<open>SetOracleKeys\<close> collects for a rate to the scalar that
  \<open>SetOracleSigns\<close> adds up for it: none and 0, or the multiple of the base point by
  the scalar.
\<close>

definition curve_laws :: "'p Lib \<Rightarrow> bool" where
  "curve_laws lib =
     (0 < CurveN lib
      \<and> (\<forall>a b. 0 \<le> a \<and> 0 \<le> b \<longrightarrow>
            CurveAdd lib (CurveScalarBaseMult lib a) (CurveScalarBaseMult lib b)
              = CurveScalarBaseMult lib ((a + b) mod CurveN lib))
      \<and> (\<forall>a k. 0 \<le> a \<and> 0 \<le> k \<longrightarrow>
            CurveScalarMult lib (CurveScalarBaseMult lib a) k
              = CurveScalarBaseMult lib ((a * k) mod CurveN lib)))"

definition key_inv :: "'p Lib \<Rightarrow> 'p option \<Rightarrow> int \<Rightarrow> bool" where
  "key_inv lib k s =
     ((k = None \<and> s = 0) \<or> (k = Some (CurveScalarBaseMult lib s) \<and> 0 \<le> s \<and> s < CurveN lib))"

section \<open>Notions used to state the properties of the wallet's loop\<close>

text \<open>
  The outpoint of an unspent output; the total of the first \<open>n\<close> outputs of the list; the
  fee of \<open>n\<close> inputs; and whether the first \<open>n\<close> outputs cover the amount in the sense of
  the loop of \<open>FundTx\<close>: their total is at least the amount and the fee of the inputs, and
  either equal to it or at least that and the fee of a change output. \<open>gcov\<close> and
  \<open>gfee\<close> are the same notions for a loop that starts with \<open>c\<close> outpoints of total
  \<open>T\<close> already collected.
\<close>

definition UtxoOutPoint :: "Utxo \<Rightarrow> OutPoint" where
  "UtxoOutPoint u = NewOutPoint (TxID u) (Vout u)"

definition prefix_total :: "Utxo list \<Rightarrow> nat \<Rightarrow> int64" where
  "prefix_total list n = sum_list (map Satoshi (take n list))"

definition inputs_fee :: "int64 \<Rightarrow> nat \<Rightarrow> int64" where
  "inputs_fee efee n = of_nat n * DlcTxInSize * efee"

definition covers :: "int64 \<Rightarrow> int64 \<Rightarrow> Utxo list \<Rightarrow> nat \<Rightarrow> bool" where
  "covers amount efee list n =
     (amount + inputs_fee efee n \<le>s prefix_total list n
      \<and> (amount + inputs_fee efee n = prefix_total list n
         \<or> amount + (inputs_fee efee n + DlcTxOutSize * efee) \<le>s prefix_total list n))"

definition gcov :: "int64 \<Rightarrow> int64 \<Rightarrow> nat \<Rightarrow> int64 \<Rightarrow> Utxo list \<Rightarrow> nat \<Rightarrow> bool" where
  "gcov amount efee c T list n =
     (amount + inputs_fee efee (c + n) \<le>s T + prefix_total list n
      \<and> (amount + inputs_fee efee (c + n) = T + prefix_total list n
         \<or> amount + (inputs_fee efee (c + n) + DlcTxOutSize * efee) \<le>s T + prefix_total list n))"

definition gfee :: "int64 \<Rightarrow> int64 \<Rightarrow> nat \<Rightarrow> int64 \<Rightarrow> Utxo list \<Rightarrow> nat \<Rightarrow> int64" where
  "gfee amount efee c T list n =
     (if amount + inputs_fee efee (c + n) = T + prefix_total list n
      then inputs_fee efee (c + n)
      else inputs_fee efee (c + n) + DlcTxOutSize * efee)"

section \<open>Notions used to state the properties of the handshake\<close>

text \<open>
  The error of a result. \<open>handshake_step req nxt err u u'\<close> says of one call of an
  operation on the user \<open>u\<close>, with error \<open>err\<close> (\<open>None\<close> is success) and the user \<open>u'\<close>
  after it, that the operation requires the status \<open>req\<close> and moves it to \<open>nxt\<close>: in
  another status the error is the illegal status and the user is as before, a call that
  succeeds was made in the status \<open>req\<close> and leaves the status \<open>nxt\<close>, and a call
  that fails leaves the status as it was.
\<close>

definition err_of :: "error + 'a \<Rightarrow> error option" where
  "err_of r = (case r of Inl e \<Rightarrow> Some e | Inr _ \<Rightarrow> None)"

definition handshake_step :: "int \<Rightarrow> int \<Rightarrow> error option \<Rightarrow> 'p User \<Rightarrow> 'p User \<Rightarrow> bool" where
  "handshake_step req nxt err u u' =
     ((status u \<noteq> req \<longrightarrow> err = Some (IllegalStatus (status u)) \<and> u' = u)
      \<and> (err = None \<longrightarrow> status u = req \<and> status u' = nxt)
      \<and> (err \<noteq> None \<longrightarrow> status u' = status u))"

text \<open>
  The rate table and the contract against which \<open>SetAcceptData\<close> verifies the
  signatures of the blob: the contract of the user with the public key, the inputs and
  the output of the blob, and its table. There is none when the user has no contract,
  or the key, the inputs or the output of the blob do not parse.
\<close>

definition accept_contract ::
  "'p Lib \<Rightarrow> AcceptData \<Rightarrow> 'p User \<Rightarrow> ('p Rate list \<times> 'p Dlc) option" where
  "accept_contract lib adata u =
     (case (dlc u, StrToPub lib (aPubkey adata),
            StrToInputsOutput lib (aInputs adata) (aOutput adata)) of
        (Some d, Inr pub, Inr (txins, txout)) \<Rightarrow>
          Some (Rates_date (SetTxInsAndTxOut txins txout (\<not> IsA d)
                              (SetPublicKey (Some pub) (\<not> IsA d) d)))
      | _ \<Rightarrow> None)"

text \<open>
  A signature of the blob that the holder of the contract \<open>d\<close> must refuse for the rate:
  the empty string although its own share of the rate is not zero, or a string that is
  not hex, or bytes that are not a DER signature, or a signature that does not verify
  under the key of the other side for the settlement transaction that the contract
  gives for the rate and its own side.
\<close>

definition bad_sign :: "'p Lib \<Rightarrow> 'p Dlc \<Rightarrow> 'p Rate \<Rightarrow> string \<Rightarrow> bool" where
  "bad_sign lib d rate sign =
     (if sign = [] then Amount rate (IsA d) \<noteq> 0
      else case DecodeString lib sign of
        Inl e \<Rightarrow> True
      | Inr s \<Rightarrow>
          ParseDERSignature lib s \<noteq> None
          \<or> (case SettlementTx lib d rate (IsA d) of
                Inr (Some tx, rate1) \<Rightarrow>
                  (case (CalcWitnessSigHash lib (FundScript lib d) tx 0
                           (FundAmount d + SettlementFee d),
                         PublicKey d (\<not> IsA d)) of
                     (Inr h, Some p) \<Rightarrow> \<not> SignatureVerify lib s h p
                   | _ \<Rightarrow> False)
              | _ \<Rightarrow> False))"

text \<open>
  \<open>Panic\<close> stands for a run-time panic of the Go code. The library returns its errors:
  none of its functions that the verification of a signature calls gives \<open>Panic\<close>. A
  rate has a settlement transaction for the holder of the contract when
  \<open>SettlementTx\<close> gives one for the holder's side.
\<close>

definition lib_returns_errors :: "'p Lib \<Rightarrow> bool" where
  "lib_returns_errors lib =
     ((\<forall>s. DecodeString lib s \<noteq> Inl Panic)
      \<and> (\<forall>bs. ParseDERSignature lib bs \<noteq> Some Panic)
      \<and> (\<forall>script tx i amt. CalcWitnessSigHash lib script tx i amt \<noteq> Inl Panic))"

definition has_settlement_tx :: "'p Lib \<Rightarrow> 'p Dlc \<Rightarrow> 'p Rate \<Rightarrow> bool" where
  "has_settlement_tx lib d rate =
     (case SettlementTx lib d rate (IsA d) of Inr (Some tx, rate1) \<Rightarrow> True | _ \<Rightarrow> False)"

section \<open>A small instance of the libraries\<close>

text \<open>
  The concrete instances below run the model on this instance of the library record:
  the "curve" is the additive group of the integers modulo 11 with base point 1, and the
  hashes, encodings and signatures are simple functions of their arguments.
\<close>

definition toy_lib :: "int Lib" where
  "toy_lib =
     \<lparr>CurveAdd = (\<lambda>a b. (a + b) mod 11),
      CurveScalarMult = (\<lambda>p k. (p * k) mod 11),
      CurveScalarBaseMult = (\<lambda>k. k mod 11),
      CurveN = 11,
      SerializeCompressed = (\<lambda>p. [of_int p]),
      SerializeUncompressed = (\<lambda>p. [of_int p]),
      Sha256 = (\<lambda>bs. bs),
      Hash160 = (\<lambda>bs. bs),
      TxHash = (\<lambda>tx. [of_nat (length (TxIn tx)), of_nat (length (TxOut tx))]),
      AddData = (\<lambda>bs. of_nat (length bs) # bs),
      AddInt64 = (\<lambda>n. [of_int n]),
      ParseDERSignature = (\<lambda>bs. if bs = [] then Some (ExternalError ''malformed signature'') else None),
      CalcWitnessSigHash = (\<lambda>script tx idx amt. Inr [of_nat (length (TxOut tx))]),
      SignatureVerify = (\<lambda>sg h p. sg = of_int p # h),
      RawTxInWitnessSignature =
        (\<lambda>tx idx amt script pri. Inr [of_int (pri mod 11), of_nat (length (TxOut tx))]),
      DecodeString = (\<lambda>s. Inr (map (\<lambda>c. of_nat (of_char c)) s)),
      EncodeToString = (\<lambda>bs. map (\<lambda>b. char_of (unat b)) bs),
      ParsePubKey = (\<lambda>bs. case bs of [b] \<Rightarrow> Inr (uint b) | _ \<Rightarrow> Inl (ExternalError ''malformed public key'')),
      WriteVarInt = (\<lambda>n. [of_nat n]),
      ReadVarInt = (\<lambda>bs. case bs of [] \<Rightarrow> Inl (ExternalError ''EOF'') | b # _ \<Rightarrow> Inr (unat b)),
      VarIntSerializeSize = (\<lambda>n. 1),
      TimeParse = (\<lambda>s. Inr (int (length s))),
      TimeFormat = (\<lambda>t. replicate (nat t) (CHR ''d'')),
      Atoi = (\<lambda>s. if s \<noteq> [] \<and> list_all (\<lambda>c. 48 \<le> (of_char c :: nat) \<and> (of_char c :: nat) \<le> 57) s
                  then Inr (foldl (\<lambda>a c. a * 10 + (int (of_char c) - 48)) 0 s)
                  else Inl (ExternalError ''invalid syntax'')),
      CeilHalf = (\<lambda>v. 0),
      RoundLinear = (\<lambda>amount q x. 0)\<rparr>"


definition example_rate :: "int Rate" where
  "example_rate = (NewRate [Some [200]] 100000 0)\<lparr>key := Some (Some 5)\<rparr>"

definition example_dlc :: "int Dlc" where
  "example_dlc =
     SetPublicKey (Some 4) False
       (SetPublicKey (Some 3) True (NewDlc 50000 50000 10 10 1725 1725 True))"

definition example_nonce :: "nat \<Rightarrow> int" where
  "example_nonce i = int i + 1"

text \<open>
  A run of the handshake on this instance. Alice and Bob each have a wallet of one key
  and one unspent output. The game of the offered contract has a table of two rates that
  already carry their keys, and Bob's contract gets the same game once \<open>SetOfferData\<close>
  has made it. Alice offers, Bob accepts, Alice signs and Bob sends the fund
  transaction. Then the oracle attests the message of the second rate, which pays
  Alice, and Alice can send the settlement transaction; or it attests the message of the
  first rate, which pays Bob, and Bob can. The blobs and the contracts of the run are
  written out; that the operations produce them is proved below.
\<close>

definition alice_wallet :: "int Wallet" where
  "alice_wallet =
     \<lparr>infos = [\<lparr>info_idx = 0, info_pub = 3, info_adr = ''alice'', info_pri = 3\<rparr>]\<rparr>"

definition bob_wallet :: "int Wallet" where
  "bob_wallet = \<lparr>infos = [\<lparr>info_idx = 0, info_pub = 4, info_adr = ''bob'', info_pri = 4\<rparr>]\<rparr>"

definition example_rates :: "int Rate list" where
  "example_rates = [(NewRate [Some [1]] 0 100000)\<lparr>key := Some (Some 7)\<rparr>, example_rate]"

definition example_game :: "int Game" where
  "example_game = (NewGame 5 1)\<lparr>rates := Some example_rates\<rparr>"

definition with_rates :: "int Rate list \<Rightarrow> int Dlc \<Rightarrow> int Dlc" where
  "with_rates rs d = d\<lparr>game := Some (example_game\<lparr>rates := Some rs\<rparr>)\<rparr>"

definition alice_world :: World where
  "alice_world =
     \<lparr>RandomIndex = 0, RandomChangeIndex = 0,
      ListUnspent =
        Inr [\<lparr>TxID = replicate 32 1, Vout = 0, Address = ''alice'', Satoshi = 60000\<rparr>],
      SendRawTransaction = (\<lambda>tx. Inr (TxHash toy_lib tx))\<rparr>"

definition bob_world :: World where
  "bob_world =
     \<lparr>RandomIndex = 0, RandomChangeIndex = 0,
      ListUnspent =
        Inr [\<lparr>TxID = replicate 32 2, Vout = 1, Address = ''bob'', Satoshi = 53490\<rparr>],
      SendRawTransaction = (\<lambda>tx. Inr (TxHash toy_lib tx))\<rparr>"

definition alice_input :: TxIn where
  "alice_input = NewTxIn (NewOutPoint (replicate 32 1) 0)"

definition bob_input :: TxIn where
  "bob_input = NewTxIn (NewOutPoint (replicate 32 2) 1)"

definition offer_dlc :: "int Dlc" where
  "offer_dlc =
     (SetGameConditions 5 1 (NewDlc 50000 50000 10 10 1725 1725 True))
       \<lparr>game := Some example_game\<rparr>"

definition offer_data :: OfferData where
  "offer_data =
     \<lparr>oHigh = True, oAmount = 100000, oFefee = 10, oSefee = 10, oDate = ''ddddd'',
      oLength = 1, oPubkey = map char_of [3 :: nat],
      oInputs = [map char_of (replicate 32 1 @ [0, 0, 0, 0 :: nat])],
      oOutput = map char_of [56, 24, 0, 0, 0, 0, 0, 0, 3, 0, 1, 3 :: nat]\<rparr>"

definition alice_dlc1 :: "int Dlc" where
  "alice_dlc1 =
     offer_dlc\<lparr>puba := Some 3, atxins := [alice_input], txouta := Some (NewTxOut 6200 [0, 1, 3])\<rparr>"

definition bob_dlc1 :: "int Dlc" where
  "bob_dlc1 =
     (NewDlc 50000 50000 10 10 1725 1725 False)
       \<lparr>locktime := 145, puba := Some 3, atxins := [alice_input],
        txouta := Some (NewTxOut 6200 [0, 1, 3]), game := Some example_game\<rparr>"

definition accept_data :: AcceptData where
  "accept_data =
     \<lparr>aPubkey = map char_of [4 :: nat],
      aInputs = [map char_of (replicate 32 2 @ [1, 0, 0, 0 :: nat])],
      aOutput = [], aSigns = [[], map char_of [4, 1 :: nat]],
      aRsign = map char_of [4, 2 :: nat]\<rparr>"

definition bob_dlc2 :: "int Dlc" where
  "bob_dlc2 =
     with_rates [example_rates ! 0, (example_rates ! 1)\<lparr>txid := Some [1, 1]\<rparr>]
       (bob_dlc1\<lparr>pubb := Some 4, btxins := [bob_input], rsignb := Some [4, 2]\<rparr>)"

definition alice_dlc2 :: "int Dlc" where
  "alice_dlc2 =
     with_rates [example_rates ! 0, (example_rates ! 1)\<lparr>rsign := Some [4, 1]\<rparr>]
       (alice_dlc1\<lparr>pubb := Some 4, btxins := [bob_input], rsignb := Some [4, 2]\<rparr>)"

definition sign_data :: SignData where
  "sign_data =
     \<lparr>sFtws = [[map char_of [3, 2 :: nat], map char_of [3 :: nat]]],
      sSigns = [map char_of [3, 1 :: nat], []], sRsign = map char_of [3, 2 :: nat]\<rparr>"

definition alice_dlc3 :: "int Dlc" where
  "alice_dlc3 =
     with_rates [(example_rates ! 0)\<lparr>txid := Some [1, 1]\<rparr>,
                 (example_rates ! 1)\<lparr>rsign := Some [4, 1]\<rparr>]
       (alice_dlc2\<lparr>atxins := [alice_input\<lparr>Witness := Some [[3, 2], [3]]\<rparr>],
                  rsigna := Some [3, 2]\<rparr>)"

definition bob_dlc3 :: "int Dlc" where
  "bob_dlc3 =
     with_rates [(example_rates ! 0)\<lparr>rsign := Some [3, 1]\<rparr>,
                 (example_rates ! 1)\<lparr>txid := Some [1, 1]\<rparr>]
       (bob_dlc2\<lparr>atxins := [alice_input\<lparr>Witness := Some [[3, 2], [3]]\<rparr>],
                rsigna := Some [3, 2]\<rparr>)"

definition bob_dlc4 :: "int Dlc" where
  "bob_dlc4 = bob_dlc3\<lparr>btxins := [bob_input\<lparr>Witness := Some [[4, 2], [4]]\<rparr>]\<rparr>"

definition alice_oracle_blob :: "error + OracleSignsData" where
  "alice_oracle_blob = Inr \<lparr>vValue = ''200'', vSigns = [map char_of [5 :: nat]]\<rparr>"

definition bob_oracle_blob :: "error + OracleSignsData" where
  "bob_oracle_blob = Inr \<lparr>vValue = ''1'', vSigns = [map char_of [7 :: nat]]\<rparr>"

definition alice_rate :: "int Rate" where
  "alice_rate = (example_rates ! 1)\<lparr>rsign := Some [4, 1], msign := Some 5\<rparr>"

definition bob_rate :: "int Rate" where
  "bob_rate = (example_rates ! 0)\<lparr>rsign := Some [3, 1], msign := Some 7\<rparr>"

definition alice_contract :: "int Dlc" where
  "alice_contract =
     alice_dlc3\<lparr>game := Some (example_game
       \<lparr>omsgs := [[200]], osigns := [5],
        rates := Some [(example_rates ! 0)\<lparr>txid := Some [1, 1]\<rparr>, alice_rate],
        frate := Some 1\<rparr>)\<rparr>"

definition bob_contract :: "int Dlc" where
  "bob_contract =
     bob_dlc4\<lparr>game := Some (example_game
       \<lparr>omsgs := [[1]], osigns := [7],
        rates := Some [bob_rate, (example_rates ! 1)\<lparr>txid := Some [1, 1]\<rparr>],
        frate := Some 0\<rparr>)\<rparr>"

text \<open>The users of the run: Alice and Bob with a contract and a status.\<close>

definition alice0 :: "int User" where
  "alice0 = \<lparr>name = ''Alice'', wallet = alice_wallet, dlc = None, status = StatusNone\<rparr>"

definition bob0 :: "int User" where
  "bob0 = \<lparr>name = ''Bob'', wallet = bob_wallet, dlc = None, status = StatusNone\<rparr>"

definition at_status :: "int \<Rightarrow> int Dlc \<Rightarrow> int User \<Rightarrow> int User" where
  "at_status st d u = u\<lparr>dlc := Some d, status := st\<rparr>"

definition alice1 :: "int User" where
  "alice1 = at_status StatusWaitForAccept alice_dlc1 alice0"

definition alice2 :: "int User" where
  "alice2 = at_status StatusCanGetSign alice_dlc2 alice0"

definition alice3 :: "int User" where
  "alice3 = at_status StatusWaitSendTx alice_dlc3 alice0"

definition alice4 :: "int User" where
  "alice4 = at_status StatusWaitSendTx alice_contract alice0"

definition bob1 :: "int User" where
  "bob1 = at_status StatusCanGetAccept bob_dlc1 bob0"

definition bob2 :: "int User" where
  "bob2 = at_status StatusWaitForSign bob_dlc2 bob0"

definition bob3 :: "int User" where
  "bob3 = at_status StatusWaitSendTx bob_dlc3 bob0"

definition bob4 :: "int User" where
  "bob4 = at_status StatusWaitSendTx bob_dlc4 bob0"

definition bob5 :: "int User" where
  "bob5 = at_status StatusWaitSendTx bob_contract bob0"

text \<open>Bob's blob with the signature of the second rate changed.\<close>

definition forged_accept :: AcceptData where
  "forged_accept = accept_data\<lparr>aSigns := [[], map char_of [9, 1 :: nat]]\<rparr>"

text \<open>
  An offer of Alice on a contract whose table is not built yet, so that it is the table
  of five rates, and an accept blob for it with a signature for the first rate, which
  pays nothing to Alice, and no signature for the other four.
\<close>

definition plain_dlc :: "int Dlc" where
  "plain_dlc = SetGameConditions 5 1 (NewDlc 50000 50000 10 10 1725 1725 True)"

definition alice_plain :: "int User" where
  "alice_plain =
     at_status StatusWaitForAccept
       (plain_dlc\<lparr>puba := Some 3, atxins := [alice_input],
                  txouta := Some (NewTxOut 6200 [0, 1, 3])\<rparr>) alice0"

definition with_five :: "int Dlc \<Rightarrow> int Dlc" where
  "with_five d = d\<lparr>game := Some ((NewGame 5 1)\<lparr>rates := Some (five_rates (FundAmount d))\<rparr>)\<rparr>"

definition unsigned_accept :: AcceptData where
  "unsigned_accept = accept_data\<lparr>aSigns := [map char_of [4, 1 :: nat], [], [], [], []]\<rparr>"

chapter \<open>Properties\<close>

section \<open>The rate table\<close>

lemma bseq_eq: "bseq a b = (a = b)"
  by (induction a b rule: bseq.induct) auto

declare match_down.simps [simp del]

lemma quarter_1: "quarter 1 = 64" by (simp add: quarter_def)
lemma quarter_2: "quarter 2 = 16384" by (simp add: quarter_def)

lemma length_gen_rates: "length (gen_rates lib A l) = 4 * quarter l"
  by (simp add: gen_rates_def Let_def)

lemma sum_gen_rates: "r \<in> set (gen_rates lib A l) \<Longrightarrow> amta r + amtb r = A"
  by (auto simp: gen_rates_def Let_def NewRate_def)

lemma nth_gen_rates:
  "i < 4 * quarter l \<Longrightarrow> gen_rates lib A l ! i =
     (if i < quarter l then NewRate (tail_msgs l i) 0 A
      else if i < 3 * quarter l
           then NewRate (linear_msgs (nat l) i) (RoundLinear lib A (quarter l) i)
                  (A - RoundLinear lib A (quarter l) i)
           else NewRate (tail_msgs l i) A 0)"
  by (auto simp: gen_rates_def Let_def nth_append)

lemma Rates_fresh: "fst (Rates lib A (NewGame h l)) = gen_rates lib A l"
  by (simp add: Rates_def NewGame_def Let_def)

lemma tail_msgs_1: "tail_msgs 1 x = [Some [of_nat x]]"
  by (simp add: tail_msgs_def)

lemma tail_msgs_2: "tail_msgs 2 x = [None, Some [of_nat x]]"
  by (simp add: tail_msgs_def numeral_2_eq_2)

lemma linear_msgs_1: "linear_msgs (Suc 0) x = [Some [of_nat (x mod 256)]]"
  by simp

lemma linear_msgs_2: "linear_msgs 2 x = [Some [of_nat (x mod 256)], Some [of_nat ((x - x mod 256) div 256 mod 256)]]"
  by (simp add: numeral_2_eq_2)

lemma byte_eq_iff: "((of_nat x :: byte) = of_nat y) = (x mod 256 = y mod 256)"
  by (simp add: word_of_nat_eq_iff take_bit_eq_mod)

lemma msgs_rates_1:
  "i < 256 \<Longrightarrow> msgs (gen_rates lib A 1 ! i) = [Some [of_nat i]]"
  by (simp add: nth_gen_rates quarter_1 NewRate_def tail_msgs_1)

lemma msgs_rates_2:
  "i < 65536 \<Longrightarrow> msgs (gen_rates lib A 2 ! i) =
     (if 16384 \<le> i \<and> i < 49152
      then [Some [of_nat (i mod 256)], Some [of_nat ((i - i mod 256) div 256 mod 256)]]
      else [None, Some [of_nat i]])"
  by (simp add: nth_gen_rates quarter_2 NewRate_def tail_msgs_2 linear_msgs_2)

lemma two_bytes_inj:
  fixes x y :: nat
  assumes "x < 65536" "y < 65536" "x mod 256 = y mod 256"
    "(x - x mod 256) div 256 mod 256 = (y - y mod 256) div 256 mod 256"
  shows "x = y"
proof -
  have a: "(x - x mod 256) div 256 = x div 256" for x :: nat
    by (metis minus_mod_eq_mult_div nonzero_mult_div_cancel_left numeral_neq_zero)
  have "x div 256 < 256" "y div 256 < 256" using assms(1,2) by auto
  then have "x div 256 = y div 256" using assms(4) by (simp add: a)
  then show ?thesis using assms(3) by (metis div_mult_mod_eq)
qed

lemma distinct_rates_1:
  assumes "i < 256" "j < 256" "i \<noteq> j"
  shows "msgs (gen_rates lib A 1 ! i) \<noteq> msgs (gen_rates lib A 1 ! j)"
  using assms by (simp add: msgs_rates_1 byte_eq_iff)

lemma distinct_rates_2:
  assumes "i < 65536" "j < 65536" "i \<noteq> j"
    "None \<notin> set (msgs (gen_rates lib A 2 ! i))" "None \<notin> set (msgs (gen_rates lib A 2 ! j))"
  shows "msgs (gen_rates lib A 2 ! i) \<noteq> msgs (gen_rates lib A 2 ! j)"
proof -
  have i: "16384 \<le> i \<and> i < 49152" using assms(1,4) by (auto simp: msgs_rates_2 split: if_splits)
  have j: "16384 \<le> j \<and> j < 49152" using assms(2,5) by (auto simp: msgs_rates_2 split: if_splits)
  show ?thesis
    using assms(1,2,3) i j two_bytes_inj[of i j]
    by (auto simp: msgs_rates_2 byte_eq_iff)
qed

text \<open>
  Claim C4. For every fund amount \<open>A\<close> (positive or not) and message length 1 or 2, the
  table that \<open>Rates\<close> generates for a new game has \<open>256 ^ l\<close> entries, the two amounts
  of every entry add up to \<open>A\<close> in int64 arithmetic, and two different entries whose
  message vectors have no nil position have different message vectors.
\<close>

theorem C4_rate_table:
  assumes "l = 1 \<or> l = 2"
  shows "length (fst (Rates lib A (NewGame h l))) = 256 ^ nat l
       \<and> (\<forall>r \<in> set (fst (Rates lib A (NewGame h l))). amta r + amtb r = A)
       \<and> (\<forall>i j. i < length (fst (Rates lib A (NewGame h l)))
                \<and> j < length (fst (Rates lib A (NewGame h l))) \<and> i \<noteq> j
                \<and> None \<notin> set (msgs (fst (Rates lib A (NewGame h l)) ! i))
                \<and> None \<notin> set (msgs (fst (Rates lib A (NewGame h l)) ! j))
              \<longrightarrow> msgs (fst (Rates lib A (NewGame h l)) ! i)
                    \<noteq> msgs (fst (Rates lib A (NewGame h l)) ! j))"
proof -
  from assms show ?thesis
  proof
    assume l: "l = 1"
    show ?thesis
      unfolding Rates_fresh l
      using distinct_rates_1[of _ _ lib A] sum_gen_rates[of _ lib A 1]
      by (auto simp: length_gen_rates quarter_1)
  next
    assume l: "l = 2"
    show ?thesis
      unfolding Rates_fresh l
      using distinct_rates_2[of _ _ lib A] sum_gen_rates[of _ lib A 2]
      by (auto simp: length_gen_rates quarter_2)
  qed
qed


text \<open>
  The instance of C4 at length 1, amount 100: 256 entries, entry 100 adds up to 100, and
  the entries 3 and 200 differ.
\<close>

theorem C4_rate_table_witness:
  "length (fst (Rates toy_lib 100 (NewGame 500 1))) = 256
   \<and> amta (fst (Rates toy_lib 100 (NewGame 500 1)) ! 100)
       + amtb (fst (Rates toy_lib 100 (NewGame 500 1)) ! 100) = 100
   \<and> msgs (fst (Rates toy_lib 100 (NewGame 500 1)) ! 3)
       \<noteq> msgs (fst (Rates toy_lib 100 (NewGame 500 1)) ! 200)"
proof -
  let ?rs = "fst (Rates toy_lib 100 (NewGame 500 1))"
  have T: "length ?rs = 256 ^ nat 1
       \<and> (\<forall>r \<in> set ?rs. amta r + amtb r = 100)
       \<and> (\<forall>i j. i < length ?rs \<and> j < length ?rs \<and> i \<noteq> j
                \<and> None \<notin> set (msgs (?rs ! i)) \<and> None \<notin> set (msgs (?rs ! j))
              \<longrightarrow> msgs (?rs ! i) \<noteq> msgs (?rs ! j))"
    using C4_rate_table[of 1 toy_lib 100 500] by simp
  then have len: "length ?rs = 256" by simp
  have m: "?rs ! 100 \<in> set ?rs" using len by simp
  have s3: "None \<notin> set (msgs (?rs ! 3))" by (simp add: Rates_fresh msgs_rates_1)
  have s200: "None \<notin> set (msgs (?rs ! 200))" by (simp add: Rates_fresh msgs_rates_1)
  have d: "msgs (?rs ! 3) \<noteq> msgs (?rs ! 200)"
    using T [THEN conjunct2, THEN conjunct2, rule_format, of 3 200] len s3 s200 by simp
  show ?thesis using T len m d by blast
qed

lemma match_down_tail_2:
  "2 \<le> length ms \<Longrightarrow> match_down [None, Some bs] ms (Suc 0) = Inr (bs = ms ! Suc 0)"
  by (auto simp: match_down.simps bseq_eq)

lemma match_down_full_2:
  "2 \<le> length ms \<Longrightarrow>
   match_down [Some b0, Some b1] ms (Suc 0) = Inr (b1 = ms ! Suc 0 \<and> b0 = ms ! 0)"
  by (auto simp: match_down.simps bseq_eq)

lemma match_down_1:
  "1 \<le> length ms \<Longrightarrow> match_down [Some b0] ms 0 = Inr (b0 = ms ! 0)"
  by (auto simp: match_down.simps bseq_eq)

lemma search_loop_first:
  "0 < l \<Longrightarrow> k < length rs \<Longrightarrow> match_down (msgs (rs ! k)) ms (nat (l - 1)) = Inr True \<Longrightarrow>
   (\<And>j. j < k \<Longrightarrow> match_down (msgs (rs ! j)) ms (nat (l - 1)) = Inr False) \<Longrightarrow>
   search_loop l ms rs n = Inr (Some (n + k))"
proof (induction rs arbitrary: n k)
  case Nil
  then show ?case by simp
next
  case (Cons r rs)
  show ?case
  proof (cases k)
    case 0
    with Cons.prems show ?thesis by simp
  next
    case (Suc k')
    have a: "match_down (msgs r) ms (nat (l - 1)) = Inr False"
      using Cons.prems(4)[of 0] Suc by simp
    have b: "search_loop l ms rs (Suc n) = Inr (Some (Suc n + k'))"
    proof (rule Cons.IH)
      show "0 < l" by fact
      show "k' < length rs" using Cons.prems(2) Suc by simp
      show "match_down (msgs (rs ! k')) ms (nat (l - 1)) = Inr True"
        using Cons.prems(3) Suc by simp
      fix j assume "j < k'"
      then show "match_down (msgs (rs ! j)) ms (nat (l - 1)) = Inr False"
        using Cons.prems(4)[of "Suc j"] Suc by simp
    qed
    show ?thesis using a b Cons.prems(1) Suc by simp
  qed
qed

lemma searchRate_fresh:
  "fst (searchRate lib A ms (NewGame h l)) = search_loop l ms (gen_rates lib A l) 0"
  by (simp add: searchRate_def Rates_def NewGame_def Let_def)

text \<open>
  Claim C2, at message length 2. For a block hash that starts with the bytes 0x00 0x80
  (the counter 32768, the middle of the linear part) \<open>searchRate\<close> returns entry 128 of
  the table, \<open>[nil, 0x80]\<close> with the split \<open>(0, A)\<close>: the first quarter stores
  \<open>byte(x)\<close>, the low byte of its counter, at the position of the high byte, so its
  entries match every attestation. Entry 32768, \<open>[0x00, 0x80]\<close> of the linear part,
  matches the same attestation as well: the matching rate is not unique, and the one
  returned is not the linear one.
\<close>

theorem C2_search_two_byte_message:
  "fst (searchRate lib A ([0] # [128] # replicate 30 [0]) (NewGame h 2)) = Inr (Some 128)
   \<and> msgs (fst (Rates lib A (NewGame h 2)) ! 128) = [None, Some [128]]
   \<and> amta (fst (Rates lib A (NewGame h 2)) ! 128) = 0
   \<and> amtb (fst (Rates lib A (NewGame h 2)) ! 128) = A
   \<and> msgs (fst (Rates lib A (NewGame h 2)) ! 32768) = [Some [0], Some [128]]
   \<and> match_down (msgs (fst (Rates lib A (NewGame h 2)) ! 32768))
        ([0] # [128] # replicate 30 [0]) 1 = Inr True"
proof -
  let ?ms = "[0] # [128] # replicate 30 [0] :: byte list list"
  let ?rs = "gen_rates lib A 2"
  have len: "length ?rs = 65536" by (simp add: length_gen_rates quarter_2)
  have m128: "msgs (?rs ! 128) = [None, Some [128]]" by (simp add: msgs_rates_2)
  have m32768: "msgs (?rs ! 32768) = [Some [0], Some [128]]" by (simp add: msgs_rates_2)
  have low: "match_down (msgs (?rs ! j)) ?ms (nat (2 - 1)) = Inr False" if "j < 128" for j
  proof -
    have "msgs (?rs ! j) = [None, Some [of_nat j]]" using that by (simp add: msgs_rates_2)
    moreover have "(of_nat j :: byte) \<noteq> 128"
      using that byte_eq_iff[of j 128] by simp
    ultimately show ?thesis by (simp add: match_down_tail_2)
  qed
  have hit: "match_down (msgs (?rs ! 128)) ?ms (nat (2 - 1)) = Inr True"
    by (simp add: m128 match_down_tail_2)
  have "search_loop 2 ?ms ?rs 0 = Inr (Some (0 + 128))"
    by (rule search_loop_first) (use len hit low in simp_all)
  then have s: "fst (searchRate lib A ?ms (NewGame h 2)) = Inr (Some 128)"
    by (simp add: searchRate_fresh)
  have a: "amta (?rs ! 128) = 0" "amtb (?rs ! 128) = A"
    by (simp_all add: nth_gen_rates quarter_2 NewRate_def)
  have full: "match_down (msgs (?rs ! 32768)) ?ms 1 = Inr True"
    by (simp add: m32768 match_down_full_2)
  show ?thesis using s m128 a m32768 full by (simp add: Rates_fresh)
qed


section \<open>The fund and refund transactions\<close>

text \<open>
  Claim C10. On a contract where at most one of the two public keys is set,
  \<open>FundScript\<close> returns nil and \<open>FundTx\<close> (which has no error result) returns the
  version-2 transaction with the inputs of A followed by the inputs of B and with no
  output: neither the fund output nor a change output is added.
\<close>

theorem C10_fund_tx_without_both_keys:
  "puba d = None \<or> pubb d = None \<Longrightarrow>
   FundScript lib d = None
   \<and> FundTx lib d = \<lparr>Version = 2, TxIn = atxins d @ btxins d, TxOut = [], LockTime = 0\<rparr>"
  by (auto simp: FundScript_def FundTx_def NewMsgTx_def split: option.splits)

text \<open>
  The instance of C10 where A has set her key, an input and a change output and B has
  set nothing: the transaction has A's input and no output, A's change included.
\<close>

theorem C10_fund_tx_without_both_keys_witness:
  "(puba (SetTxInsAndTxOut [NewTxIn (NewOutPoint [1] 0)] (Some (NewTxOut 5 [7])) True
           (SetPublicKey (Some 3) True (NewDlc 50 50 10 10 1725 1725 True))) = None
    \<or> pubb (SetTxInsAndTxOut [NewTxIn (NewOutPoint [1] 0)] (Some (NewTxOut 5 [7])) True
           (SetPublicKey (Some 3) True (NewDlc 50 50 10 10 1725 1725 True))) = None)
   \<and> FundScript toy_lib
        (SetTxInsAndTxOut [NewTxIn (NewOutPoint [1] 0)] (Some (NewTxOut 5 [7])) True
           (SetPublicKey (Some 3) True (NewDlc 50 50 10 10 1725 1725 True))) = None
   \<and> FundTx toy_lib
        (SetTxInsAndTxOut [NewTxIn (NewOutPoint [1] 0)] (Some (NewTxOut 5 [7])) True
           (SetPublicKey (Some 3) True (NewDlc 50 50 10 10 1725 1725 True)))
       = \<lparr>Version = 2, TxIn = [NewTxIn (NewOutPoint [1] 0)], TxOut = [], LockTime = 0\<rparr>"
  using C10_fund_tx_without_both_keys
    [of "SetTxInsAndTxOut [NewTxIn (NewOutPoint [1] 0)] (Some (NewTxOut 5 [7])) True
           (SetPublicKey (Some 3) True (NewDlc 50 50 10 10 1725 1725 True))" toy_lib]
  by (simp add: SetTxInsAndTxOut_def SetPublicKey_def NewDlc_def)

lemma RefundTx_keys:
  "puba d = Some a \<Longrightarrow> pubb d = Some b \<Longrightarrow>
   RefundTx lib d =
     Inr \<lparr>Version = 2,
          TxIn = [\<lparr>PreviousOutPoint = \<lparr>Hash = TxHash lib (FundTx lib d), Index = 0\<rparr>,
                   SignatureScript = [],
                   Witness = (case (rsigna d, rsignb d) of
                                (Some sa, Some sb) \<Rightarrow>
                                  Some [[], sa, sb, (case FundScript lib d of None \<Rightarrow> [] | Some s \<Rightarrow> s)]
                              | _ \<Rightarrow> None),
                   Sequence = 0xFFFFFFFE\<rparr>],
          TxOut = [\<lparr>Value = famta d, PkScript = P2WPKHpkScript lib a\<rparr>,
                   \<lparr>Value = famtb d, PkScript = P2WPKHpkScript lib b\<rparr>],
          LockTime = locktime d\<rparr>"
  by (simp add: RefundTx_def Let_def NewMsgTx_def NewTxIn_def NewOutPoint_def NewTxOut_def
      AddTxIn_def AddTxOut_def MaxTxInSequenceNum_def split: option.splits)

lemma locktime_SetGame: "locktime (SetGame (NewGame h l) d) = word_of_int (h + 144)"
  by (simp add: SetGame_def NewGame_def GameHeight_def)

lemma locktime_SetGameConditions: "locktime (SetGameConditions h l d) = word_of_int (l + 144)"
  by (simp add: SetGameConditions_def Let_def)

lemma keys_SetGameConditions:
  "puba (SetGameConditions h l d) = puba d" "pubb (SetGameConditions h l d) = pubb d"
  by (simp_all add: SetGameConditions_def Let_def)

text \<open>
  Claim C3. \<open>RefundTx_keys\<close> above gives the shape of the refund transaction: version 2,
  one input spending output 0 of the fund transaction with sequence 0xFFFFFFFE, the two
  P2WPKH outputs valued \<open>famta\<close> and \<open>famtb\<close>, and the lock time of the contract. That
  lock time is \<open>height + 144\<close> after \<open>SetGame\<close> but \<open>length + 144\<close> after
  \<open>SetGameConditions\<close>: for the target height 500 and message length 1 the refund
  transaction is locked until 145 by the one and until 644 by the other.
\<close>

theorem C3_refund_locktime_is_length_plus_144:
  "map_sum id LockTime
     (RefundTx toy_lib
        (SetGameConditions 500 1
           (SetPublicKey (Some 4) False (SetPublicKey (Some 3) True
              (NewDlc 50 50 10 10 1725 1725 True))))) = Inr 145
   \<and> map_sum id LockTime
     (RefundTx toy_lib
        (SetGame (NewGame 500 1)
           (SetPublicKey (Some 4) False (SetPublicKey (Some 3) True
              (NewDlc 50 50 10 10 1725 1725 True))))) = Inr 644"
proof -
  let ?d = "SetPublicKey (Some 4) False (SetPublicKey (Some 3) True
              (NewDlc 50 50 10 10 1725 1725 True)) :: int Dlc"
  have k: "puba ?d = Some 3" "pubb ?d = Some 4"
    by (simp_all add: SetPublicKey_def NewDlc_def)
  have k1: "puba (SetGameConditions 500 1 ?d) = Some 3" "pubb (SetGameConditions 500 1 ?d) = Some 4"
    using k by (simp_all add: keys_SetGameConditions)
  have k2: "puba (SetGame (NewGame 500 1) ?d) = Some 3" "pubb (SetGame (NewGame 500 1) ?d) = Some 4"
    using k by (simp_all add: SetGame_def)
  show ?thesis
    by (simp add: RefundTx_keys[OF k1] RefundTx_keys[OF k2] locktime_SetGame
        locktime_SetGameConditions)
qed

section \<open>Forwarding the settlement\<close>

lemma SettlementTx_nil:
  "Amount rate a \<le>s 0 \<Longrightarrow> SettlementTx lib d rate a = Inr (None, rate)"
  by (simp add: SettlementTx_def Amount_def Let_def)

lemma SettlementTx_some:
  assumes "0 <s Amount rate a" "key rate = Some (Some k)" "puba d = Some pa" "pubb d = Some pb"
  shows "\<exists>stx rate1. SettlementTx lib d rate a = Inr (Some stx, rate1)
           \<and> key rate1 = key rate \<and> amta rate1 = amta rate \<and> amtb rate1 = amtb rate"
proof -
  have "\<not> Amount rate a \<le>s 0" using assms(1) by (simp add: word_sle_eq word_sless_alt)
  then show ?thesis using assms(2-4)
    by (auto simp: SettlementTx_def Amount_def Let_def split: if_splits)
qed

text \<open>
  Claim C9. On a contract with both public keys set and a rate whose key is set (without
  them the code dereferences nil), with \<open>share = Amount rate a\<close> and the fee
  \<open>int64(216 + len(pkScript)) * efee\<close> in int64 arithmetic: if the share is positive and
  the share less the fee is not negative, \<open>SettlementToTx\<close> returns the version-2
  transaction whose one input spends output 0 of the settlement transaction and whose one
  output pays the share less the fee to \<open>pkScript\<close>; if the share is positive and the
  difference is negative it returns the "val is minus" error; if the share is not positive
  it returns the "settlement transaction is nil" error.
\<close>

theorem C9_settlement_to_tx:
  assumes "key rate = Some (Some k)" and "puba d = Some pa" and "pubb d = Some pb"
  shows
   "(0 <s Amount rate a \<and> 0 \<le>s Amount rate a - of_nat (216 + length pkScript) * efee \<longrightarrow>
       (\<exists>stx rate1.
          SettlementTx lib d rate a = Inr (Some stx, rate1)
          \<and> fst (SettlementToTx lib d rate a pkScript efee) =
              Inr (\<lparr>Version = 2,
                    TxIn = [NewTxIn (NewOutPoint (TxHash lib stx) 0)],
                    TxOut = [NewTxOut (Amount rate a - of_nat (216 + length pkScript) * efee) pkScript],
                    LockTime = 0\<rparr>,
                   Amount rate a,
                   SettlementScript lib (CurveAdd lib k (if a then pa else pb))
                     (if a then pb else pa))))
    \<and> (0 <s Amount rate a \<and> Amount rate a - of_nat (216 + length pkScript) * efee <s 0 \<longrightarrow>
         fst (SettlementToTx lib d rate a pkScript efee) =
           Inl (ValIsMinus (Amount rate a - of_nat (216 + length pkScript) * efee)
                   (of_nat (216 + length pkScript) * efee)))
    \<and> (Amount rate a \<le>s 0 \<longrightarrow>
         fst (SettlementToTx lib d rate a pkScript efee) = Inl SettlementTxIsNil)"
proof (intro conjI impI)
  assume h: "0 <s Amount rate a \<and> 0 \<le>s Amount rate a - of_nat (216 + length pkScript) * efee"
  obtain stx rate1 where s: "SettlementTx lib d rate a = Inr (Some stx, rate1)"
    using SettlementTx_some[OF conjunct1[OF h] assms] by blast
  have nneg: "\<not> Amount rate a - of_nat (216 + length pkScript) * efee <s 0"
    using h by (simp add: signed.not_less)
  have "fst (SettlementToTx lib d rate a pkScript efee) =
              Inr (\<lparr>Version = 2,
                    TxIn = [NewTxIn (NewOutPoint (TxHash lib stx) 0)],
                    TxOut = [NewTxOut (Amount rate a - of_nat (216 + length pkScript) * efee) pkScript],
                    LockTime = 0\<rparr>,
                   Amount rate a,
                   SettlementScript lib (CurveAdd lib k (if a then pa else pb))
                     (if a then pb else pa))"
    using s nneg assms
    by (cases a) (simp_all add: SettlementToTx_def Let_def Amount_def AddTxIn_def AddTxOut_def NewMsgTx_def)
  then show "\<exists>stx rate1.
          SettlementTx lib d rate a = Inr (Some stx, rate1)
          \<and> fst (SettlementToTx lib d rate a pkScript efee) =
              Inr (\<lparr>Version = 2,
                    TxIn = [NewTxIn (NewOutPoint (TxHash lib stx) 0)],
                    TxOut = [NewTxOut (Amount rate a - of_nat (216 + length pkScript) * efee) pkScript],
                    LockTime = 0\<rparr>,
                   Amount rate a,
                   SettlementScript lib (CurveAdd lib k (if a then pa else pb))
                     (if a then pb else pa))"
    using s by blast
next
  assume h: "0 <s Amount rate a \<and> Amount rate a - of_nat (216 + length pkScript) * efee <s 0"
  obtain stx rate1 where s: "SettlementTx lib d rate a = Inr (Some stx, rate1)"
    using SettlementTx_some[OF conjunct1[OF h] assms] by blast
  show "fst (SettlementToTx lib d rate a pkScript efee) =
           Inl (ValIsMinus (Amount rate a - of_nat (216 + length pkScript) * efee)
                   (of_nat (216 + length pkScript) * efee))"
    using s h by (cases a) (simp_all add: SettlementToTx_def Let_def Amount_def)
next
  assume h: "Amount rate a \<le>s 0"
  show "fst (SettlementToTx lib d rate a pkScript efee) = Inl SettlementTxIsNil"
    using SettlementTx_nil[OF h] by (simp add: SettlementToTx_def Let_def)
qed

lemma example_rate_simps:
  "key example_rate = Some (Some 5)" "amta example_rate = 100000" "amtb example_rate = 0"
  "msgs example_rate = [Some [200]]"
  by (simp_all add: example_rate_def NewRate_def)

lemma example_dlc_simps:
  "puba example_dlc = Some 3" "pubb example_dlc = Some 4" "isA example_dlc"
  "famta example_dlc = 50000" "famtb example_dlc = 50000"
  "sfeea example_dlc = 1725" "sfeeb example_dlc = 1725"
  "atxins example_dlc = []" "btxins example_dlc = []"
  "txouta example_dlc = None" "txoutb example_dlc = None"
  "rsigna example_dlc = None" "rsignb example_dlc = None"
  by (simp_all add: example_dlc_def SetPublicKey_def NewDlc_def)

text \<open>
  Instances of C9 on the example contract and rate (share of A 100000, share of B 0, a
  script of 4 bytes): fee rate 10 gives the output 97800, fee rate 50000 the
  "val is minus" error, and the side with share 0 the "settlement transaction is nil"
  error.
\<close>

theorem C9_settlement_to_tx_witness:
  "key example_rate = Some (Some 5) \<and> puba example_dlc = Some 3 \<and> pubb example_dlc = Some 4
   \<and> 0 <s Amount example_rate True
   \<and> 0 \<le>s Amount example_rate True - of_nat (216 + length [0, 20, 1, 2 :: byte]) * 10
   \<and> (\<exists>stx rate1.
          SettlementTx toy_lib example_dlc example_rate True = Inr (Some stx, rate1)
          \<and> fst (SettlementToTx toy_lib example_dlc example_rate True [0, 20, 1, 2] 10) =
              Inr (\<lparr>Version = 2,
                    TxIn = [NewTxIn (NewOutPoint (TxHash toy_lib stx) 0)],
                    TxOut = [NewTxOut 97800 [0, 20, 1, 2]],
                    LockTime = 0\<rparr>,
                   100000,
                   SettlementScript toy_lib (CurveAdd toy_lib 5 3) 4))
   \<and> fst (SettlementToTx toy_lib example_dlc example_rate True [0, 20, 1, 2] 50000)
       = Inl (ValIsMinus (100000 - 220 * 50000) (220 * 50000))
   \<and> fst (SettlementToTx toy_lib example_dlc example_rate False [0, 20, 1, 2] 10)
       = Inl SettlementTxIsNil"
proof -
  note k = example_rate_simps(1) example_dlc_simps(1,2)
  have a: "Amount example_rate True = 100000" "Amount example_rate False = 0"
    by (simp_all add: Amount_def example_rate_simps)
  show ?thesis
    using C9_settlement_to_tx[OF k, of True "[0, 20, 1, 2]" 10 toy_lib]
      C9_settlement_to_tx[OF k, of True "[0, 20, 1, 2]" 50000 toy_lib]
      C9_settlement_to_tx[OF k, of False "[0, 20, 1, 2]" 10 toy_lib]
    by (simp add: a k word_sless_alt word_sle_eq)
qed

section \<open>Funding from the wallet\<close>

lemma gcov_Suc:
  "gcov amount efee (Suc c) (T + Satoshi u) us n = gcov amount efee c T (u # us) (Suc n)"
  by (simp add: gcov_def prefix_total_def add.assoc)

lemma gfee_Suc:
  "gfee amount efee (Suc c) (T + Satoshi u) us n = gfee amount efee c T (u # us) (Suc n)"
  by (simp add: gfee_def prefix_total_def add.assoc)

lemma fund_loop_step:
  "fund_loop amount efee (u # us) outs T addfee =
     (if gcov amount efee (length outs) T (u # us) 1
      then (outs @ [UtxoOutPoint u], T + Satoshi u, gfee amount efee (length outs) T (u # us) 1)
      else fund_loop amount efee us (outs @ [UtxoOutPoint u]) (T + Satoshi u)
             (if amount + inputs_fee efee (Suc (length outs)) \<le>s T + Satoshi u
              then inputs_fee efee (Suc (length outs)) + DlcTxOutSize * efee
              else inputs_fee efee (Suc (length outs))))"
  by (simp add: gcov_def gfee_def prefix_total_def inputs_fee_def Let_def UtxoOutPoint_def)

declare fund_loop.simps(2) [simp del]

lemma fund_loop_spec:
  "list \<noteq> [] \<Longrightarrow>
   (\<exists>n. 1 \<le> n \<and> n \<le> length list \<and> gcov amount efee (length outs) T list n
        \<and> (\<forall>j. 1 \<le> j \<and> j < n \<longrightarrow> \<not> gcov amount efee (length outs) T list j)
        \<and> fund_loop amount efee list outs T addfee =
            (outs @ map UtxoOutPoint (take n list), T + prefix_total list n,
             gfee amount efee (length outs) T list n))
   \<or> ((\<forall>j. 1 \<le> j \<and> j \<le> length list \<longrightarrow> \<not> gcov amount efee (length outs) T list j)
      \<and> (\<exists>a'. fund_loop amount efee list outs T addfee =
            (outs @ map UtxoOutPoint list, T + prefix_total list (length list), a')
          \<and> T + prefix_total list (length list) <s amount + a'))"
proof (induction list arbitrary: outs T addfee)
  case Nil
  then show ?case by simp
next
  case (Cons u us)
  let ?c = "length outs"
  show ?case
  proof (cases "gcov amount efee ?c T (u # us) 1")
    case True
    have "fund_loop amount efee (u # us) outs T addfee =
            (outs @ map UtxoOutPoint (take 1 (u # us)), T + prefix_total (u # us) 1,
             gfee amount efee ?c T (u # us) 1)"
      using True by (simp add: fund_loop_step prefix_total_def)
    then show ?thesis using True
      by (intro disjI1 exI[of _ 1]) auto
  next
    case False
    let ?a1 = "if amount + inputs_fee efee (Suc ?c) \<le>s T + Satoshi u
               then inputs_fee efee (Suc ?c) + DlcTxOutSize * efee
               else inputs_fee efee (Suc ?c)"
    have step: "fund_loop amount efee (u # us) outs T addfee =
                fund_loop amount efee us (outs @ [UtxoOutPoint u]) (T + Satoshi u) ?a1"
      using False by (simp add: fund_loop_step)
    show ?thesis
    proof (cases us)
      case Nil
      have short: "T + Satoshi u <s amount + ?a1"
        using False
        by (auto simp: gcov_def prefix_total_def signed.not_le add.assoc)
      have "\<forall>j. 1 \<le> j \<and> j \<le> length (u # us) \<longrightarrow> \<not> gcov amount efee ?c T (u # us) j"
        using False Nil by (auto simp: le_Suc_eq)
      then show ?thesis using step short Nil
        by (intro disjI2) (auto simp: prefix_total_def)
    next
      case (Cons v vs)
      then have ne: "us \<noteq> []" by simp
      note IH = Cons.IH[OF ne, of "outs @ [UtxoOutPoint u]" "T + Satoshi u" ?a1]
      from IH show ?thesis
      proof
        assume "\<exists>n. 1 \<le> n \<and> n \<le> length us
           \<and> gcov amount efee (length (outs @ [UtxoOutPoint u])) (T + Satoshi u) us n
           \<and> (\<forall>j. 1 \<le> j \<and> j < n \<longrightarrow>
                 \<not> gcov amount efee (length (outs @ [UtxoOutPoint u])) (T + Satoshi u) us j)
           \<and> fund_loop amount efee us (outs @ [UtxoOutPoint u]) (T + Satoshi u) ?a1 =
               ((outs @ [UtxoOutPoint u]) @ map UtxoOutPoint (take n us),
                T + Satoshi u + prefix_total us n,
                gfee amount efee (length (outs @ [UtxoOutPoint u])) (T + Satoshi u) us n)"
        then obtain n where n: "1 \<le> n" "n \<le> length us"
          "gcov amount efee (Suc ?c) (T + Satoshi u) us n"
          "\<forall>j. 1 \<le> j \<and> j < n \<longrightarrow> \<not> gcov amount efee (Suc ?c) (T + Satoshi u) us j"
          "fund_loop amount efee us (outs @ [UtxoOutPoint u]) (T + Satoshi u) ?a1 =
               ((outs @ [UtxoOutPoint u]) @ map UtxoOutPoint (take n us),
                T + Satoshi u + prefix_total us n,
                gfee amount efee (Suc ?c) (T + Satoshi u) us n)"
          by auto
        have low: "\<not> gcov amount efee ?c T (u # us) j" if "1 \<le> j \<and> j < Suc n" for j
        proof (cases "j = 1")
          case True
          then show ?thesis using False by simp
        next
          case False
          define j' where "j' = j - 1"
          have j': "j = Suc j'" "1 \<le> j'" "j' < n"
            using that False by (auto simp: j'_def)
          then show ?thesis using n(4) by (simp add: gcov_Suc)
        qed
        have res: "fund_loop amount efee (u # us) outs T addfee =
               (outs @ map UtxoOutPoint (take (Suc n) (u # us)),
                T + prefix_total (u # us) (Suc n),
                gfee amount efee ?c T (u # us) (Suc n))"
          using step n(5) by (simp add: gfee_Suc prefix_total_def add.assoc)
        show ?thesis
          apply (rule disjI1)
          apply (rule exI[of _ "Suc n"])
          using n(1,2,3) low res by (simp add: gcov_Suc)
      next
        assume "(\<forall>j. 1 \<le> j \<and> j \<le> length us \<longrightarrow>
                  \<not> gcov amount efee (length (outs @ [UtxoOutPoint u])) (T + Satoshi u) us j)
          \<and> (\<exists>a'. fund_loop amount efee us (outs @ [UtxoOutPoint u]) (T + Satoshi u) ?a1 =
                 ((outs @ [UtxoOutPoint u]) @ map UtxoOutPoint us,
                  T + Satoshi u + prefix_total us (length us), a')
               \<and> T + Satoshi u + prefix_total us (length us) <s amount + a')"
        then obtain a' where n:
          "\<forall>j. 1 \<le> j \<and> j \<le> length us \<longrightarrow> \<not> gcov amount efee (Suc ?c) (T + Satoshi u) us j"
          "fund_loop amount efee us (outs @ [UtxoOutPoint u]) (T + Satoshi u) ?a1 =
                 ((outs @ [UtxoOutPoint u]) @ map UtxoOutPoint us,
                  T + Satoshi u + prefix_total us (length us), a')"
          "T + Satoshi u + prefix_total us (length us) <s amount + a'"
          by auto
        have low: "\<not> gcov amount efee ?c T (u # us) j" if "1 \<le> j \<and> j \<le> length (u # us)" for j
        proof (cases "j = 1")
          case True
          then show ?thesis using False by simp
        next
          case False
          define j' where "j' = j - 1"
          have j': "j = Suc j'" "1 \<le> j'" "j' \<le> length us"
            using that False by (auto simp: j'_def)
          then show ?thesis using n(1) by (simp add: gcov_Suc)
        qed
        have res: "fund_loop amount efee (u # us) outs T addfee =
               (outs @ map UtxoOutPoint (u # us),
                T + prefix_total (u # us) (length (u # us)), a')"
          using step n(2) by (simp add: prefix_total_def add.assoc)
        have short: "T + prefix_total (u # us) (length (u # us)) <s amount + a'"
          using n(3) by (simp add: prefix_total_def add.assoc)
        show ?thesis
          apply (rule disjI2)
          using low res short by blast
      qed
    qed
  qed
qed

lemma gcov_covers: "gcov amount efee 0 0 list n = covers amount efee list n"
  by (simp add: gcov_def covers_def)

lemma covers_least_unique:
  assumes "covers amount efee list n" "\<forall>j. 1 \<le> j \<and> j < n \<longrightarrow> \<not> covers amount efee list j"
    "covers amount efee list m" "\<forall>j. 1 \<le> j \<and> j < m \<longrightarrow> \<not> covers amount efee list j"
    "1 \<le> n" "1 \<le> m"
  shows "n = m"
  using assms by (meson linorder_neqE_nat)

lemma WalletFundTx_break:
  assumes "fund_loop amount efee list [] 0 0 =
            (map UtxoOutPoint (take n list), prefix_total list n, gfee amount efee 0 0 list n)"
    and "covers amount efee list n"
  shows "WalletFundTx lib (Inr list) cpub tx amount efee =
     Inr (tx\<lparr>TxIn := TxIn tx @ map (\<lambda>u. NewTxIn (NewOutPoint (TxID u) (Vout u))) (take n list),
            TxOut := TxOut tx @
              (if amount + inputs_fee efee n = prefix_total list n
                  \<or> amount + (inputs_fee efee n + DlcTxOutSize * efee) = prefix_total list n
               then []
               else [NewTxOut (prefix_total list n - amount - inputs_fee efee n
                                 - DlcTxOutSize * efee) (P2WPKHpkScript lib cpub)])\<rparr>)"
proof -
  have le: "amount + gfee amount efee 0 0 list n \<le>s prefix_total list n"
    using assms(2) by (auto simp: covers_def gfee_def)
  then have nshort: "\<not> prefix_total list n <s amount + gfee amount efee 0 0 list n"
    by (simp add: signed.not_less)
  show ?thesis
    using nshort
    by (simp add: WalletFundTx_def assms(1) Let_def AddTxOut_def UtxoOutPoint_def comp_def
        gfee_def diff_diff_eq add.assoc)
qed

lemma WalletFundTx_some_utxo:
  assumes "list \<noteq> []"
  shows
   "((WalletFundTx lib (Inr list) cpub tx amount efee = Inl ShortOfBitcoin)
       = (\<forall>n. 1 \<le> n \<and> n \<le> length list \<longrightarrow> \<not> covers amount efee list n))
    \<and> (\<forall>n. 1 \<le> n \<and> n \<le> length list \<and> covers amount efee list n
            \<and> (\<forall>j. 1 \<le> j \<and> j < n \<longrightarrow> \<not> covers amount efee list j) \<longrightarrow>
          WalletFundTx lib (Inr list) cpub tx amount efee =
            Inr (tx\<lparr>TxIn := TxIn tx
                        @ map (\<lambda>u. NewTxIn (NewOutPoint (TxID u) (Vout u))) (take n list),
                   TxOut := TxOut tx @
                     (if amount + inputs_fee efee n = prefix_total list n
                         \<or> amount + (inputs_fee efee n + DlcTxOutSize * efee)
                             = prefix_total list n
                      then []
                      else [NewTxOut (prefix_total list n - amount - inputs_fee efee n
                                        - DlcTxOutSize * efee) (P2WPKHpkScript lib cpub)])\<rparr>))"
proof -
  note spec = fund_loop_spec[OF assms, of amount efee "[]" 0 0, simplified gcov_covers list.size]
  from spec show ?thesis
  proof
    assume "\<exists>n\<ge>1. n \<le> length list \<and> covers amount efee list n
        \<and> (\<forall>j. 1 \<le> j \<and> j < n \<longrightarrow> \<not> covers amount efee list j)
        \<and> fund_loop amount efee list [] 0 0 =
            ([] @ map UtxoOutPoint (take n list), 0 + prefix_total list n,
             gfee amount efee 0 0 list n)"
    then obtain n0 where n0: "1 \<le> n0" "n0 \<le> length list" "covers amount efee list n0"
      "\<forall>j. 1 \<le> j \<and> j < n0 \<longrightarrow> \<not> covers amount efee list j"
      "fund_loop amount efee list [] 0 0 =
            (map UtxoOutPoint (take n0 list), prefix_total list n0, gfee amount efee 0 0 list n0)"
      by auto
    note res = WalletFundTx_break[OF n0(5) n0(3), of lib cpub tx]
    have a: "WalletFundTx lib (Inr list) cpub tx amount efee \<noteq> Inl ShortOfBitcoin"
      by (simp add: res)
    have b: "\<not> (\<forall>n. 1 \<le> n \<and> n \<le> length list \<longrightarrow> \<not> covers amount efee list n)"
      using n0(1,2,3) by blast
    have c: "n = n0" if "1 \<le> n \<and> n \<le> length list \<and> covers amount efee list n
            \<and> (\<forall>j. 1 \<le> j \<and> j < n \<longrightarrow> \<not> covers amount efee list j)" for n
      using covers_least_unique[of amount efee list n n0] that n0 by blast
    show ?thesis using a b c res by blast
  next
    assume "(\<forall>j. 1 \<le> j \<and> j \<le> length list \<longrightarrow> \<not> covers amount efee list j)
      \<and> (\<exists>a'. fund_loop amount efee list [] 0 0 =
              ([] @ map UtxoOutPoint list, 0 + prefix_total list (length list), a')
            \<and> 0 + prefix_total list (length list) <s amount + a')"
    then obtain a' where n: "\<forall>j. 1 \<le> j \<and> j \<le> length list \<longrightarrow> \<not> covers amount efee list j"
      "fund_loop amount efee list [] 0 0 =
              (map UtxoOutPoint list, prefix_total list (length list), a')"
      "prefix_total list (length list) <s amount + a'"
      by auto
    have a: "WalletFundTx lib (Inr list) cpub tx amount efee = Inl ShortOfBitcoin"
      using n(3) by (simp add: WalletFundTx_def n(2))
    show ?thesis using a n(1) by blast
  qed
qed

lemma WalletFundTx_no_utxo:
  "WalletFundTx lib (Inr []) cpub tx amount efee =
     (if 0 <s amount then Inl ShortOfBitcoin
      else if amount = 0 then Inr tx
      else Inr (AddTxOut (NewTxOut (0 - amount) (P2WPKHpkScript lib cpub)) tx))"
  by (simp add: WalletFundTx_def)

lemma WalletFundTx_rpc_error: "WalletFundTx lib (Inl e) cpub tx amount efee = Inl e"
  by (simp add: WalletFundTx_def)

text \<open>
  Claim C7, as amended. All arithmetic is in int64 and the comparisons are signed. The
  first \<open>n\<close> unspent outputs cover the amount (\<open>covers\<close>) when their total is at least
  the amount plus \<open>n * 149 * efee\<close>, and either equal to it or at least that plus
  \<open>31 * efee\<close>. \<open>FundTx\<close> fails with "short of bitcoin" exactly when the list is not
  empty and no count \<open>n\<close> from 1 to its length covers the amount, or the list is empty
  and the amount is positive. When some count covers, it adds the first \<open>n\<close> outputs of
  the list as inputs, for the least such \<open>n\<close>; it adds no output when their total
  is exactly the amount plus the fee of the inputs, or exactly that plus \<open>31 * efee\<close>,
  and else one P2WPKH change output of value total less amount less \<open>n * 149 * efee\<close>
  less \<open>31 * efee\<close>. On an empty list with an amount that is not positive it adds no
  input, and one change output of the negated amount unless the amount is 0. An error of
  \<open>ListUnspent\<close> is returned as it is.
\<close>

theorem C7_wallet_fund_tx:
  "((WalletFundTx lib (Inr list) cpub tx amount efee = Inl ShortOfBitcoin)
       = (if list = [] then 0 <s amount
          else \<forall>n. 1 \<le> n \<and> n \<le> length list \<longrightarrow> \<not> covers amount efee list n))
   \<and> (\<forall>n. 1 \<le> n \<and> n \<le> length list \<and> covers amount efee list n
           \<and> (\<forall>j. 1 \<le> j \<and> j < n \<longrightarrow> \<not> covers amount efee list j) \<longrightarrow>
         WalletFundTx lib (Inr list) cpub tx amount efee =
           Inr (tx\<lparr>TxIn := TxIn tx
                       @ map (\<lambda>u. NewTxIn (NewOutPoint (TxID u) (Vout u))) (take n list),
                  TxOut := TxOut tx @
                    (if amount + inputs_fee efee n = prefix_total list n
                        \<or> amount + (inputs_fee efee n + DlcTxOutSize * efee)
                            = prefix_total list n
                     then []
                     else [NewTxOut (prefix_total list n - amount - inputs_fee efee n
                                       - DlcTxOutSize * efee) (P2WPKHpkScript lib cpub)])\<rparr>))
   \<and> (list = [] \<and> \<not> 0 <s amount \<longrightarrow>
         WalletFundTx lib (Inr list) cpub tx amount efee =
           Inr (tx\<lparr>TxOut := TxOut tx @
                    (if amount = 0 then []
                     else [NewTxOut (0 - amount) (P2WPKHpkScript lib cpub)])\<rparr>))
   \<and> WalletFundTx lib (Inl e) cpub tx amount efee = Inl e"
proof (cases "list = []")
  case True
  then show ?thesis
    by (simp add: WalletFundTx_no_utxo WalletFundTx_rpc_error AddTxOut_def)
next
  case False
  from WalletFundTx_some_utxo[OF False, of lib cpub tx amount efee] False
  show ?thesis by (simp add: WalletFundTx_rpc_error)
qed

text \<open>
  Claim C7 as stated fails twice at amount 1000 and fee rate 1. With one unspent output
  of 1180 the call succeeds with no change output although the total is not
  \<open>1000 + 1 * 149\<close>. With one unspent output of 1160 the call fails although the output
  covers \<open>1000 + 1 * 149\<close>.
\<close>

theorem C7_wallet_fund_tx_counterexample:
  "WalletFundTx toy_lib (Inr [\<lparr>TxID = [1], Vout = 0, Address = [], Satoshi = 1180\<rparr>]) 5 (NewMsgTx 2) 1000 1
     = Inr \<lparr>Version = 2, TxIn = [NewTxIn (NewOutPoint [1] 0)], TxOut = [], LockTime = 0\<rparr>
   \<and> (1180 :: int64) \<noteq> 1000 + 1 * 149 * 1
   \<and> WalletFundTx toy_lib (Inr [\<lparr>TxID = [1], Vout = 0, Address = [], Satoshi = 1160\<rparr>]) 5 (NewMsgTx 2) 1000 1
       = Inl ShortOfBitcoin
   \<and> (1000 :: int64) + 1 * 149 * 1 \<le>s 1160"
  by (simp add: WalletFundTx_def fund_loop.simps Let_def DlcTxInSize_def DlcTxOutSize_def
      NewMsgTx_def)

text \<open>
  The instance of C7 for the outputs 600 and 2000, amount 1000 and fee rate 1: one output
  does not cover, two do, and the change is \<open>2600 - 1000 - 298 - 31 = 1271\<close>. On the
  empty list the amount 0 gives the transaction as it was.
\<close>

theorem C7_wallet_fund_tx_witness:
  "WalletFundTx toy_lib
     (Inr [\<lparr>TxID = [1], Vout = 0, Address = [], Satoshi = 600\<rparr>, \<lparr>TxID = [2], Vout = 1, Address = [], Satoshi = 2000\<rparr>])
     5 (NewMsgTx 2) 1000 1
   = Inr \<lparr>Version = 2,
          TxIn = [NewTxIn (NewOutPoint [1] 0), NewTxIn (NewOutPoint [2] 1)],
          TxOut = [NewTxOut 1271 (P2WPKHpkScript toy_lib 5)], LockTime = 0\<rparr>
   \<and> WalletFundTx toy_lib
     (Inr [\<lparr>TxID = [1], Vout = 0, Address = [], Satoshi = 600\<rparr>, \<lparr>TxID = [2], Vout = 1, Address = [], Satoshi = 2000\<rparr>])
     5 (NewMsgTx 2) 1000 1 \<noteq> Inl ShortOfBitcoin
   \<and> WalletFundTx toy_lib (Inr []) 5 (NewMsgTx 2) 0 1 = Inr (NewMsgTx 2)"
proof -
  let ?list = "[\<lparr>TxID = [1], Vout = 0, Address = [], Satoshi = 600\<rparr>, \<lparr>TxID = [2], Vout = 1, Address = [], Satoshi = 2000\<rparr>]"
  note T = C7_wallet_fund_tx[where lib = toy_lib and list = ?list and cpub = 5
      and tx = "NewMsgTx 2" and amount = 1000 and efee = 1]
  note E = C7_wallet_fund_tx[where lib = toy_lib and list = "[]" and cpub = 5
      and tx = "NewMsgTx 2" and amount = 0 and efee = 1]
  have c1: "\<not> covers 1000 1 ?list 1"
    by (simp add: covers_def inputs_fee_def prefix_total_def DlcTxInSize_def DlcTxOutSize_def)
  have c2: "covers 1000 1 ?list 2"
    by (simp add: covers_def inputs_fee_def prefix_total_def DlcTxInSize_def DlcTxOutSize_def)
  have least: "\<forall>j. 1 \<le> j \<and> j < 2 \<longrightarrow> \<not> covers 1000 1 ?list j"
  proof (intro allI impI)
    fix j :: nat assume "1 \<le> j \<and> j < 2"
    then have "j = 1" by simp
    then show "\<not> covers 1000 1 ?list j" using c1 by simp
  qed
  have r: "WalletFundTx toy_lib (Inr ?list) 5 (NewMsgTx 2) 1000 1 =
            Inr ((NewMsgTx 2)\<lparr>TxIn := TxIn (NewMsgTx 2)
                        @ map (\<lambda>u. NewTxIn (NewOutPoint (TxID u) (Vout u))) (take 2 ?list),
                   TxOut := TxOut (NewMsgTx 2) @
                     (if 1000 + inputs_fee 1 2 = prefix_total ?list 2
                         \<or> 1000 + (inputs_fee 1 2 + DlcTxOutSize * 1) = prefix_total ?list 2
                      then []
                      else [NewTxOut (prefix_total ?list 2 - 1000 - inputs_fee 1 2
                                        - DlcTxOutSize * 1) (P2WPKHpkScript toy_lib 5)])\<rparr>)"
    using T [THEN conjunct2, THEN conjunct1, rule_format, of 2] c2 least by simp
  have s: "WalletFundTx toy_lib (Inr ?list) 5 (NewMsgTx 2) 1000 1 \<noteq> Inl ShortOfBitcoin"
    using T [THEN conjunct1] c2 by auto
  have e: "WalletFundTx toy_lib (Inr []) 5 (NewMsgTx 2) 0 1 = Inr (NewMsgTx 2)"
    using E [THEN conjunct2, THEN conjunct2, THEN conjunct1] by simp
  show ?thesis
    using r s e
    by (simp add: inputs_fee_def prefix_total_def DlcTxInSize_def DlcTxOutSize_def NewMsgTx_def)
qed

section \<open>Oracle keys and oracle signatures\<close>

lemma toy_lib_laws: "curve_laws toy_lib"
  by (simp add: curve_laws_def toy_lib_def mod_simps)

lemma OracleSign_range:
  "0 < CurveN lib \<Longrightarrow> 0 \<le> OracleSign lib o' r m \<and> OracleSign lib o' r m < CurveN lib"
  by (simp add: OracleSign_def Let_def)

lemma Commit_is_sign:
  assumes "curve_laws lib" "0 \<le> o'" "0 \<le> r"
  shows "Commit lib (CurveScalarBaseMult lib r) (CurveScalarBaseMult lib o') m
           = CurveScalarBaseMult lib (OracleSign lib o' r m)"
proof -
  let ?N = "CurveN lib"
  let ?h = "H lib (CurveScalarBaseMult lib r) m"
  have N: "0 < ?N" using assms(1) by (simp add: curve_laws_def)
  have h1: "0 \<le> (- ?h) mod ?N" using N by simp
  have m: "CurveScalarMult lib (CurveScalarBaseMult lib o') ((- ?h) mod ?N)
             = CurveScalarBaseMult lib ((o' * ((- ?h) mod ?N)) mod ?N)"
    using assms(1,2) h1 by (simp add: curve_laws_def)
  have h2: "0 \<le> (o' * ((- ?h) mod ?N)) mod ?N" using N by simp
  have a: "CurveAdd lib (CurveScalarBaseMult lib r)
             (CurveScalarBaseMult lib ((o' * ((- ?h) mod ?N)) mod ?N))
           = CurveScalarBaseMult lib ((r + (o' * ((- ?h) mod ?N)) mod ?N) mod ?N)"
    using assms(1,3) h2 by (simp add: curve_laws_def)
  have e: "(r + (o' * ((- ?h) mod ?N)) mod ?N) mod ?N = (r - ?h * o') mod ?N"
    by (simp add: mod_simps algebra_simps)
  show ?thesis
    by (simp add: Commit_def Let_def m a e OracleSign_def)
qed

lemma commit_keys_sum_signs:
  assumes laws: "curve_laws lib" and o: "0 \<le> o'" and r: "\<And>i. 0 \<le> r i"
    and keys: "\<And>i. i < length keys \<Longrightarrow> keys ! i = CurveScalarBaseMult lib (r i)"
  shows "idx + length rm \<le> length keys \<Longrightarrow> idx + length rm \<le> length signs \<Longrightarrow>
    (\<And>j bs. j < length rm \<Longrightarrow> rm ! j = Some bs \<Longrightarrow> bs \<noteq> [] \<Longrightarrow>
        signs ! (idx + j) = OracleSign lib o' (r (idx + j)) bs) \<Longrightarrow>
    key_inv lib k s \<Longrightarrow>
    \<exists>k1 s1. commit_keys lib (CurveScalarBaseMult lib o') keys rm idx k = Inr k1
          \<and> sum_signs (CurveN lib) signs rm idx s = Inr s1
          \<and> key_inv lib k1 s1
          \<and> ((k \<noteq> None \<or> (\<exists>j<length rm. 0 < msg_len (rm ! j))) \<longrightarrow> k1 \<noteq> None)"
proof (induction rm arbitrary: idx k s)
  case Nil
  then show ?case by simp
next
  case (Cons m rm)
  have N: "0 < CurveN lib" using laws by (simp add: curve_laws_def)
  have tl: "\<And>j bs. j < length rm \<Longrightarrow> rm ! j = Some bs \<Longrightarrow> bs \<noteq> [] \<Longrightarrow>
        signs ! (Suc idx + j) = OracleSign lib o' (r (Suc idx + j)) bs"
    using Cons.prems(3)[of "Suc _"] by simp
  have len: "Suc idx + length rm \<le> length keys" "Suc idx + length rm \<le> length signs"
    using Cons.prems(1,2) by simp_all
  show ?case
  proof (cases "msg_len m = 0")
    case True
    from Cons.IH[OF len tl Cons.prems(4)]
    obtain k1 s1 where IH: "commit_keys lib (CurveScalarBaseMult lib o') keys rm (Suc idx) k = Inr k1"
      "sum_signs (CurveN lib) signs rm (Suc idx) s = Inr s1" "key_inv lib k1 s1"
      "(k \<noteq> None \<or> (\<exists>j<length rm. 0 < msg_len (rm ! j))) \<longrightarrow> k1 \<noteq> None"
      by blast
    have ex: "(\<exists>j<length (m # rm). 0 < msg_len ((m # rm) ! j)) \<Longrightarrow> (\<exists>j<length rm. 0 < msg_len (rm ! j))"
    proof -
      assume "\<exists>j<length (m # rm). 0 < msg_len ((m # rm) ! j)"
      then obtain j where j: "j < length (m # rm)" "0 < msg_len ((m # rm) ! j)" by blast
      then have "j \<noteq> 0" using True by (cases j) auto
      then obtain j' where "j = Suc j'" by (cases j) auto
      then show ?thesis using j by auto
    qed
    show ?thesis using True IH ex by auto
  next
    case False
    then obtain bs where m: "m = Some bs" "bs \<noteq> []"
      by (cases m) (auto simp: msg_len_def)
    have i1: "idx < length keys" "idx < length signs" using Cons.prems(1,2) by simp_all
    have sg: "signs ! idx = OracleSign lib o' (r idx) bs"
      using Cons.prems(3)[of 0 bs] m by simp
    let ?p = "Commit lib (keys ! idx) (CurveScalarBaseMult lib o') bs"
    have p: "?p = CurveScalarBaseMult lib (signs ! idx)"
      using Commit_is_sign[OF laws o r[of idx], of bs] keys[OF i1(1)] sg by simp
    have rng: "0 \<le> signs ! idx" "signs ! idx < CurveN lib"
      using OracleSign_range[OF N, of o' "r idx" bs] sg by simp_all
    let ?k' = "(case k of None \<Rightarrow> Some ?p | Some k0 \<Rightarrow> Some (CurveAdd lib k0 ?p))"
    let ?s' = "(s + signs ! idx) mod CurveN lib"
    have inv': "key_inv lib ?k' ?s'"
    proof (cases k)
      case None
      then have "s = 0" using Cons.prems(4) by (simp add: key_inv_def)
      then show ?thesis using None p rng N by (simp add: key_inv_def)
    next
      case (Some k0)
      then have k0: "k0 = CurveScalarBaseMult lib s" "0 \<le> s"
        using Cons.prems(4) by (simp_all add: key_inv_def)
      have "CurveAdd lib k0 ?p = CurveScalarBaseMult lib ?s'"
        using laws k0 rng(1) p by (simp add: curve_laws_def)
      then show ?thesis using Some N by (simp add: key_inv_def)
    qed
    have kn: "?k' \<noteq> None" by (cases k) auto
    from Cons.IH[OF len tl inv']
    obtain k1 s1 where IH: "commit_keys lib (CurveScalarBaseMult lib o') keys rm (Suc idx) ?k' = Inr k1"
      "sum_signs (CurveN lib) signs rm (Suc idx) ?s' = Inr s1" "key_inv lib k1 s1"
      "(?k' \<noteq> None \<or> (\<exists>j<length rm. 0 < msg_len (rm ! j))) \<longrightarrow> k1 \<noteq> None"
      by blast
    have c: "commit_keys lib (CurveScalarBaseMult lib o') keys (m # rm) idx k = Inr k1"
      using IH(1) m i1 by (simp add: msg_len_def Let_def)
    have d: "sum_signs (CurveN lib) signs (m # rm) idx s = Inr s1"
      using IH(2) m i1 by (simp add: msg_len_def)
    show ?thesis using c d IH(3,4) kn by blast
  qed
qed

lemma length_linear_msgs: "length (linear_msgs n x) = n"
  by (induction n arbitrary: x) simp_all

lemma linear_msgs_nth: "j < n \<Longrightarrow> \<exists>b. linear_msgs n x ! j = Some [b]"
proof (induction n arbitrary: x j)
  case 0
  then show ?case by simp
next
  case (Suc n)
  then show ?case by (cases j) auto
qed

lemma gen_rates_cases:
  assumes "r \<in> set (gen_rates lib A l)"
  shows "(\<exists>x. msgs r = tail_msgs l x) \<or> (\<exists>x. msgs r = linear_msgs (nat l) x)"
  using assms by (auto simp: gen_rates_def Let_def NewRate_def)

lemma gen_rates_msgs_length:
  "r \<in> set (gen_rates lib A l) \<Longrightarrow> length (msgs r) = nat l"
  using gen_rates_cases[of r lib A l] by (auto simp: tail_msgs_def length_linear_msgs)

lemma gen_rates_last_specified:
  assumes "1 \<le> l" "r \<in> set (gen_rates lib A l)"
  shows "0 < msg_len (msgs r ! (nat l - 1))"
proof -
  have n: "nat l - 1 < nat l" using assms(1) by simp
  from gen_rates_cases[OF assms(2)] show ?thesis
  proof
    assume "\<exists>x. msgs r = tail_msgs l x"
    then obtain x where "msgs r = tail_msgs l x" by blast
    moreover have "int (nat l - 1) = l - 1" using assms(1) by simp
    ultimately show ?thesis using n by (simp add: tail_msgs_def msg_len_def)
  next
    assume "\<exists>x. msgs r = linear_msgs (nat l) x"
    then obtain x where x: "msgs r = linear_msgs (nat l) x" by blast
    obtain b where "linear_msgs (nat l) x ! (nat l - 1) = Some [b]"
      using linear_msgs_nth[OF n] by blast
    then show ?thesis using x by (simp add: msg_len_def)
  qed
qed

lemma gen_rates_specified_nonempty:
  assumes "r \<in> set (gen_rates lib A l)" "j < length (msgs r)" "msgs r ! j = Some bs"
  shows "bs \<noteq> []"
proof -
  from gen_rates_cases[OF assms(1)] show ?thesis
  proof
    assume "\<exists>x. msgs r = tail_msgs l x"
    then show ?thesis using assms(2,3) by (auto simp: tail_msgs_def split: if_splits)
  next
    assume "\<exists>x. msgs r = linear_msgs (nat l) x"
    then obtain x where x: "msgs r = linear_msgs (nat l) x" by blast
    then have "j < nat l" using assms(2) by (simp add: length_linear_msgs)
    from linear_msgs_nth[OF this, of x] show ?thesis using x assms(3) by auto
  qed
qed

lemma set_rate_keys_nth:
  assumes "\<And>r. r \<in> set rs \<Longrightarrow> \<exists>k. commit_keys lib pub keys (msgs r) 0 None = Inr k"
  shows "\<exists>rs1. set_rate_keys lib pub keys rs = Inr rs1 \<and> length rs1 = length rs
           \<and> (\<forall>i<length rs. \<exists>k. commit_keys lib pub keys (msgs (rs ! i)) 0 None = Inr k
                  \<and> rs1 ! i = (rs ! i)\<lparr>key := Some k\<rparr>)"
  using assms
proof (induction rs)
  case Nil
  then show ?case by simp
next
  case (Cons r rs)
  obtain k where k: "commit_keys lib pub keys (msgs r) 0 None = Inr k"
    using Cons.prems[of r] by auto
  obtain rs1 where rs1: "set_rate_keys lib pub keys rs = Inr rs1" "length rs1 = length rs"
    "\<forall>i<length rs. \<exists>k. commit_keys lib pub keys (msgs (rs ! i)) 0 None = Inr k
                  \<and> rs1 ! i = (rs ! i)\<lparr>key := Some k\<rparr>"
    using Cons.IH Cons.prems by auto
  have "\<forall>i<length (r # rs). \<exists>k'. commit_keys lib pub keys (msgs ((r # rs) ! i)) 0 None = Inr k'
                  \<and> (r\<lparr>key := Some k\<rparr> # rs1) ! i = ((r # rs) ! i)\<lparr>key := Some k'\<rparr>"
  proof (intro allI impI)
    fix i assume "i < length (r # rs)"
    then show "\<exists>k'. commit_keys lib pub keys (msgs ((r # rs) ! i)) 0 None = Inr k'
                  \<and> (r\<lparr>key := Some k\<rparr> # rs1) ! i = ((r # rs) ! i)\<lparr>key := Some k'\<rparr>"
      using k rs1(3) by (cases i) auto
  qed
  then show ?case using k rs1(1,2) by simp
qed

lemma match_down_total:
  "i < length rm \<Longrightarrow> i < length ms \<Longrightarrow> \<exists>b. match_down rm ms i = Inr b"
proof (induction i)
  case 0
  then show ?case by (auto simp: match_down.simps split: option.splits)
next
  case (Suc i)
  then have "\<exists>b. match_down rm ms i = Inr b" by simp
  then show ?case using Suc.prems
    by (subst match_down.simps) (auto split: option.splits)
qed

lemma match_down_True:
  "match_down rm ms i = Inr True \<Longrightarrow> j \<le> i \<Longrightarrow> rm ! j = Some bs \<Longrightarrow> bs = ms ! j"
proof (induction i)
  case 0
  then show ?case
    by (simp add: match_down.simps bseq_eq split: if_splits option.splits)
next
  case (Suc i)
  show ?case
  proof (cases "j = Suc i")
    case True
    then show ?thesis using Suc.prems
      by (subst (asm) match_down.simps) (simp add: bseq_eq split: if_splits option.splits)
  next
    case False
    then have j: "j \<le> i" using Suc.prems(2) by simp
    have "match_down rm ms i = Inr True" using Suc.prems(1)
      by (subst (asm) match_down.simps) (simp split: if_splits option.splits)
    then show ?thesis using Suc.IH j Suc.prems(3) by simp
  qed
qed

lemma search_loop_msgs:
  "map msgs rs = map msgs rs' \<Longrightarrow> search_loop l ms rs n = search_loop l ms rs' n"
proof (induction rs arbitrary: rs' n)
  case Nil
  then show ?case by simp
next
  case (Cons r rs)
  then obtain r' rs'' where r': "rs' = r' # rs''" "msgs r = msgs r'" "map msgs rs = map msgs rs''"
    by (cases rs') auto
  then show ?case using Cons.IH[of rs'' "Suc n"]
    by (auto split: sum.splits bool.splits)
qed

lemma search_loop_finds:
  assumes "0 < l" "\<And>r. r \<in> set rs \<Longrightarrow> length (msgs r) = nat l" "nat l \<le> length ms"
    "k < length rs" "match_down (msgs (rs ! k)) ms (nat (l - 1)) = Inr True"
  shows "\<exists>i\<le>k. search_loop l ms rs 0 = Inr (Some i)
            \<and> match_down (msgs (rs ! i)) ms (nat (l - 1)) = Inr True
            \<and> (\<forall>j<i. match_down (msgs (rs ! j)) ms (nat (l - 1)) \<noteq> Inr True)"
proof -
  define P where "P i = (match_down (msgs (rs ! i)) ms (nat (l - 1)) = Inr True)" for i
  define i where "i = (LEAST i. P i)"
  have Pk: "P k" using assms(5) by (simp add: P_def)
  have Pi: "P i" unfolding i_def using Pk by (rule LeastI)
  have ik: "i \<le> k" unfolding i_def using Pk by (rule Least_le)
  have least: "\<not> P j" if "j < i" for j using that not_less_Least i_def by blast
  have tot: "match_down (msgs (rs ! j)) ms (nat (l - 1)) = Inr False" if "j < i" for j
  proof -
    have "j < length rs" using that ik assms(4) by simp
    then have "length (msgs (rs ! j)) = nat l" using assms(2) by simp
    then have "nat (l - 1) < length (msgs (rs ! j))" "nat (l - 1) < length ms"
      using assms(1,3) by simp_all
    then obtain b where "match_down (msgs (rs ! j)) ms (nat (l - 1)) = Inr b"
      using match_down_total by blast
    then show ?thesis using least[OF that] by (cases b) (auto simp: P_def)
  qed
  have "search_loop l ms rs 0 = Inr (Some (0 + i))"
    by (rule search_loop_first) (use assms(1,4) ik Pi tot in \<open>auto simp: P_def\<close>)
  then show ?thesis using ik Pi least by (auto simp: P_def)
qed

lemma commit_keys_total:
  "idx + length rm \<le> length keys \<Longrightarrow> \<exists>k1. commit_keys lib pub keys rm idx k = Inr k1"
proof (induction rm arbitrary: idx k)
  case Nil
  then show ?case by simp
next
  case (Cons m rm)
  have "Suc idx + length rm \<le> length keys" using Cons.prems by simp
  from Cons.IH[OF this] show ?case using Cons.prems by (simp add: Let_def)
qed

lemma OracleKeys_nth:
  assumes "OracleKeys lib o' r = (pub, keys)"
  shows "pub = CurveScalarBaseMult lib o'" "length keys = HashSize"
    "i < HashSize \<Longrightarrow> keys ! i = CurveScalarBaseMult lib (r i)"
  using assms by (auto simp: OracleKeys_def)

lemma OracleSigns_nth:
  assumes "OracleSigns lib o' r h = (ms, signs)"
  shows "length ms = HashSize" "length signs = HashSize"
    "i < HashSize \<Longrightarrow> ms ! i = [h ! i]"
    "i < HashSize \<Longrightarrow> signs ! i = OracleSign lib o' (r i) (ms ! i)"
  using assms by (auto simp: OracleSigns_def)

lemma matching_rate_key:
  assumes laws: "curve_laws lib" and o: "0 \<le> o'" and r: "\<And>i. 0 \<le> r i"
    and l: "1 \<le> l" "nat l \<le> HashSize"
    and K: "OracleKeys lib o' r = (pub, keys)" and S: "OracleSigns lib o' r h = (ms, signs)"
    and r0: "r0 \<in> set (gen_rates lib A l)"
    and m: "match_down (msgs r0) ms (nat (l - 1)) = Inr True"
  shows "\<exists>s. commit_keys lib pub keys (msgs r0) 0 None = Inr (Some (CurveScalarBaseMult lib s))
            \<and> sum_signs (CurveN lib) signs (msgs r0) 0 0 = Inr s \<and> 0 \<le> s \<and> s < CurveN lib"
proof -
  have len: "length (msgs r0) = nat l" using r0 by (rule gen_rates_msgs_length)
  have keys: "\<And>i. i < length keys \<Longrightarrow> keys ! i = CurveScalarBaseMult lib (r i)"
    using OracleKeys_nth[OF K] by simp
  have a: "0 + length (msgs r0) \<le> length keys" "0 + length (msgs r0) \<le> length signs"
    using len l(2) OracleKeys_nth(2)[OF K] OracleSigns_nth(2)[OF S] by simp_all
  have sg: "signs ! (0 + j) = OracleSign lib o' (r (0 + j)) bs"
    if "j < length (msgs r0)" "msgs r0 ! j = Some bs" "bs \<noteq> []" for j bs
  proof -
    have j: "j \<le> nat (l - 1)" "j < HashSize" using that(1) len l by simp_all
    have "bs = ms ! j" using match_down_True[OF m j(1) that(2)] .
    then show ?thesis using OracleSigns_nth(4)[OF S j(2)] by simp
  qed
  have inv: "key_inv lib None 0" by (simp add: key_inv_def)
  obtain k1 s1 where ks:
    "commit_keys lib (CurveScalarBaseMult lib o') keys (msgs r0) 0 None = Inr k1"
    "sum_signs (CurveN lib) signs (msgs r0) 0 0 = Inr s1" "key_inv lib k1 s1"
    "(None \<noteq> (None :: 'a option) \<or> (\<exists>j<length (msgs r0). 0 < msg_len (msgs r0 ! j))) \<longrightarrow> k1 \<noteq> None"
    using commit_keys_sum_signs[OF laws o r keys a sg inv] by blast
  have "nat l - 1 < length (msgs r0)" using len l(1) by simp
  then have "\<exists>j<length (msgs r0). 0 < msg_len (msgs r0 ! j)"
    using gen_rates_last_specified[OF l(1) r0] by blast
  then have "k1 \<noteq> None" using ks(4) by simp
  then have "k1 = Some (CurveScalarBaseMult lib s1)" "0 \<le> s1" "s1 < CurveN lib"
    using ks(3) by (auto simp: key_inv_def)
  then show ?thesis using ks(1,2) OracleKeys_nth(1)[OF K] by auto
qed

lemma SetOracleKeys_new_game:
  assumes l: "nat l \<le> length keys"
  shows "\<exists>rs1. SetOracleKeys lib A pub keys (NewGame ht l)
             = Inr ((NewGame ht l)\<lparr>rates := Some rs1, pubo := Some pub, okeys := keys\<rparr>)
          \<and> length rs1 = length (gen_rates lib A l)
          \<and> (\<forall>i<length rs1. \<exists>k. commit_keys lib pub keys (msgs (gen_rates lib A l ! i)) 0 None = Inr k
                \<and> rs1 ! i = (gen_rates lib A l ! i)\<lparr>key := Some k\<rparr>)"
proof -
  have tot: "\<exists>k. commit_keys lib pub keys (msgs r) 0 None = Inr k"
    if "r \<in> set (gen_rates lib A l)" for r
    using commit_keys_total[of 0 "msgs r" keys] gen_rates_msgs_length[OF that] l by simp
  obtain rs1 where rs1: "set_rate_keys lib pub keys (gen_rates lib A l) = Inr rs1"
    "length rs1 = length (gen_rates lib A l)"
    "\<forall>i<length (gen_rates lib A l).
        \<exists>k. commit_keys lib pub keys (msgs (gen_rates lib A l ! i)) 0 None = Inr k
           \<and> rs1 ! i = (gen_rates lib A l ! i)\<lparr>key := Some k\<rparr>"
    using set_rate_keys_nth[of "gen_rates lib A l" lib pub keys] tot by blast
  have "SetOracleKeys lib A pub keys (NewGame ht l)
          = Inr ((NewGame ht l)\<lparr>rates := Some rs1, pubo := Some pub, okeys := keys\<rparr>)"
    by (simp add: SetOracleKeys_def Rates_def NewGame_def Let_def rs1(1))
  then show ?thesis using rs1(2,3) by auto
qed

lemma searchRate_cached:
  "rates g = Some rs \<Longrightarrow> searchRate lib A ms g = (search_loop (glength g) ms rs 0, g)"
  by (simp add: searchRate_def Rates_def)

lemma match_down_err: "match_down rm ms i = Inl e \<Longrightarrow> e = Panic"
proof (induction i)
  case 0
  then show ?case by (simp add: match_down.simps split: if_splits option.splits)
next
  case (Suc i)
  from Suc.prems show ?case
    by (subst (asm) match_down.simps) (use Suc.IH in \<open>auto split: if_splits option.splits\<close>)
qed

lemma search_loop_err: "search_loop l ms rs n = Inl e \<Longrightarrow> e = Panic"
proof (induction rs arbitrary: n)
  case Nil
  then show ?case by simp
next
  case (Cons r rs)
  then show ?case
    by (auto split: if_splits sum.splits bool.splits dest: match_down_err)
qed

lemma searchRate_err: "searchRate lib A ms g = (Inl e, g1) \<Longrightarrow> e = Panic"
  by (auto simp: searchRate_def split: prod.splits dest: search_loop_err)

lemma sum_signs_err: "sum_signs n signs rm i s = Inl e \<Longrightarrow> e = Panic"
  by (induction rm arbitrary: i s) (auto split: if_splits)

lemma SetOracleSigns_illegal_iff:
  "(fst (SetOracleSigns lib A ms signs g) = Some IllegalOracleSigns)
     = (\<exists>i g1 s k. searchRate lib A ms g = (Inr (Some i), g1)
          \<and> sum_signs (CurveN lib) signs
               (msgs ((case rates g1 of None \<Rightarrow> [] | Some rs0 \<Rightarrow> rs0) ! i)) 0 0 = Inr s
          \<and> key ((case rates g1 of None \<Rightarrow> [] | Some rs0 \<Rightarrow> rs0) ! i) = Some (Some k)
          \<and> k \<noteq> CurveScalarBaseMult lib s)"
  by (auto simp: SetOracleSigns_def Let_def split: prod.splits sum.splits option.splits if_splits
      dest: searchRate_err sum_signs_err)

lemma SetOracleSigns_found:
  assumes "rates g = Some rs" "search_loop (glength g) ms rs 0 = Inr (Some i)"
    "sum_signs (CurveN lib) signs (msgs (rs ! i)) 0 0 = Inr s"
    "key (rs ! i) = Some (Some (CurveScalarBaseMult lib s))"
  shows "SetOracleSigns lib A ms signs g =
           (None, g\<lparr>rates := Some (rs[i := (rs ! i)\<lparr>msign := Some s\<rparr>]), frate := Some i,
                     omsgs := ms, osigns := signs\<rparr>)"
  using assms by (simp add: SetOracleSigns_def searchRate_cached Let_def)

lemma sum_signs_none:
  "(\<forall>j<length rm. msg_len (rm ! j) = 0) \<Longrightarrow> sum_signs n signs rm idx s = Inr s"
proof (induction rm arbitrary: idx)
  case Nil
  then show ?case by simp
next
  case (Cons m rm)
  have "msg_len m = 0" using Cons.prems by auto
  moreover have "\<forall>j<length rm. msg_len (rm ! j) = 0" using Cons.prems by auto
  ultimately show ?case using Cons.IH by simp
qed

lemma sum_list_upt_Suc_shift:
  "(\<Sum>j\<leftarrow>[0..<Suc n]. f j) = f 0 + (\<Sum>j\<leftarrow>[0..<n]. f (Suc j))" for f :: "nat \<Rightarrow> int"
proof -
  have "[0..<Suc n] = 0 # map Suc [0..<n]"
    by (simp add: upt_conv_Cons map_Suc_upt del: upt_Suc)
  then show ?thesis by (simp add: comp_def del: upt_Suc)
qed

lemma sum_signs_eq:
  "sum_signs n signs rm idx s = Inr s1 \<Longrightarrow>
   s1 mod n =
     (s + (\<Sum>j\<leftarrow>[0..<length rm]. if 0 < msg_len (rm ! j) then signs ! (idx + j) else 0)) mod n"
proof (induction rm arbitrary: idx s)
  case Nil
  then show ?case by simp
next
  case (Cons m rm)
  show ?case
  proof (cases "0 < msg_len m")
    case True
    then have "sum_signs n signs rm (Suc idx) ((s + signs ! idx) mod n) = Inr s1"
      using Cons.prems by (simp split: if_splits)
    from Cons.IH[OF this] show ?thesis using True
      by (simp add: sum_list_upt_Suc_shift mod_simps add.assoc del: upt_Suc cong: if_cong)
  next
    case False
    then have "sum_signs n signs rm (Suc idx) s = Inr s1"
      using Cons.prems by simp
    from Cons.IH[OF this] show ?thesis using False
      by (simp add: sum_list_upt_Suc_shift del: upt_Suc cong: if_cong)
  qed
qed

lemma oracle_keys_fit:
  assumes laws: "curve_laws lib" and o: "0 \<le> o'" and r: "\<forall>i. 0 \<le> r i"
    and l: "1 \<le> l" "nat l \<le> HashSize"
    and K: "OracleKeys lib o' r = (pub, keys)" and S: "OracleSigns lib o' r h = (ms, signs)"
  shows "\<exists>rs1.
      SetOracleKeys lib A pub keys (NewGame ht l)
        = Inr ((NewGame ht l)\<lparr>rates := Some rs1, pubo := Some pub, okeys := keys\<rparr>)
    \<and> map msgs rs1 = map msgs (gen_rates lib A l)
    \<and> length rs1 = length (gen_rates lib A l)
    \<and> (\<forall>i<length rs1. rs1 ! i = (gen_rates lib A l ! i)\<lparr>key := key (rs1 ! i)\<rparr>)
    \<and> (\<forall>k<length rs1. match_down (msgs (rs1 ! k)) ms (nat (l - 1)) = Inr True \<longrightarrow>
         (\<exists>s. sum_signs (CurveN lib) signs (msgs (rs1 ! k)) 0 0 = Inr s
            \<and> s = (\<Sum>j\<leftarrow>[0..<length (msgs (rs1 ! k))].
                      if 0 < msg_len (msgs (rs1 ! k) ! j) then signs ! j else 0) mod CurveN lib
            \<and> key (rs1 ! k) = Some (Some (CurveScalarBaseMult lib s))))"
proof -
  let ?gen = "gen_rates lib A l"
  have r': "\<And>i. 0 \<le> r i" using r by simp
  have lk: "nat l \<le> length keys" using l(2) OracleKeys_nth(2)[OF K] by simp
  obtain rs1 where rs1:
    "SetOracleKeys lib A pub keys (NewGame ht l)
       = Inr ((NewGame ht l)\<lparr>rates := Some rs1, pubo := Some pub, okeys := keys\<rparr>)"
    "length rs1 = length ?gen"
    "\<forall>i<length rs1. \<exists>k. commit_keys lib pub keys (msgs (?gen ! i)) 0 None = Inr k
                \<and> rs1 ! i = (?gen ! i)\<lparr>key := Some k\<rparr>"
    using SetOracleKeys_new_game[OF lk, of lib A pub ht] by blast
  have msgs1: "msgs (rs1 ! i) = msgs (?gen ! i)" if "i < length rs1" for i
    using rs1(3) that by auto
  have mm: "map msgs rs1 = map msgs ?gen"
    by (rule nth_equalityI) (simp_all add: rs1(2) msgs1)
  have keyk: "\<exists>s. sum_signs (CurveN lib) signs (msgs (rs1 ! k)) 0 0 = Inr s
            \<and> s = (\<Sum>j\<leftarrow>[0..<length (msgs (rs1 ! k))].
                      if 0 < msg_len (msgs (rs1 ! k) ! j) then signs ! j else 0) mod CurveN lib
            \<and> key (rs1 ! k) = Some (Some (CurveScalarBaseMult lib s))"
    if k: "k < length rs1" and m: "match_down (msgs (rs1 ! k)) ms (nat (l - 1)) = Inr True" for k
  proof -
    have r0: "?gen ! k \<in> set ?gen" using k rs1(2) by simp
    have m0: "match_down (msgs (?gen ! k)) ms (nat (l - 1)) = Inr True"
      using m msgs1[OF k] by simp
    obtain s where s:
      "commit_keys lib pub keys (msgs (?gen ! k)) 0 None = Inr (Some (CurveScalarBaseMult lib s))"
      "sum_signs (CurveN lib) signs (msgs (?gen ! k)) 0 0 = Inr s" "0 \<le> s" "s < CurveN lib"
      using matching_rate_key[OF laws o r' l K S r0 m0] by blast
    obtain k' where k': "commit_keys lib pub keys (msgs (?gen ! k)) 0 None = Inr k'"
      "rs1 ! k = (?gen ! k)\<lparr>key := Some k'\<rparr>"
      using rs1(3) k by blast
    have "s mod CurveN lib = s" using s(3,4) by simp
    then have "s = (\<Sum>j\<leftarrow>[0..<length (msgs (?gen ! k))].
                      if 0 < msg_len (msgs (?gen ! k) ! j) then signs ! j else 0) mod CurveN lib"
      using sum_signs_eq[OF s(2)] by (simp cong: if_cong)
    then show ?thesis using s(1,2) k' msgs1[OF k] by auto
  qed
  have same: "\<forall>i<length rs1. rs1 ! i = (?gen ! i)\<lparr>key := key (rs1 ! i)\<rparr>"
    using rs1(3) by auto
  show ?thesis using rs1(1,2) mm same keyk by blast
qed

text \<open>
  What holds for every message length from 1 to 7. Let the curve satisfy \<open>curve_laws\<close>,
  let the oracle's key \<open>o\<close> and nonces \<open>r i\<close> be non-negative, and let the oracle's keys
  and scalars be those of \<open>OracleKeys\<close> and \<open>OracleSigns\<close> for a block hash. Then
  \<open>SetOracleKeys\<close> succeeds on a new game and changes nothing of the table but the
  keys; and for every rate \<open>k\<close> of the table that matches the attested messages at all
  its positions with a message: the scalars of these positions add up (modulo the order)
  to a scalar \<open>s\<close> whose multiple of the base point is the key of the rate;
  \<open>SetOracleSigns\<close> succeeds; and if no rate before \<open>k\<close> matches, \<open>SetOracleSigns\<close>
  stores \<open>s\<close> in that rate and fixes it. For arbitrary scalars, \<open>SetOracleSigns\<close>
  returns the "illegal oracle sings" error exactly when the rate that \<open>searchRate\<close>
  selects has a key different from the multiple of the base point by the sum of the
  scalars of its positions with a message.
\<close>

lemma oracle_signs_first_match:
  assumes laws: "curve_laws lib" and o: "0 \<le> o'" and r: "\<forall>i. 0 \<le> r i"
    and l: "1 \<le> l" "l \<le> 7"
    and K: "OracleKeys lib o' r = (pub, keys)" and S: "OracleSigns lib o' r h = (ms, signs)"
  shows "\<exists>g1 rs1.
      SetOracleKeys lib A pub keys (NewGame ht l) = Inr g1 \<and> rates g1 = Some rs1
    \<and> map msgs rs1 = map msgs (fst (Rates lib A (NewGame ht l)))
    \<and> (\<forall>k<length rs1. match_down (msgs (rs1 ! k)) ms (nat (l - 1)) = Inr True \<longrightarrow>
         (\<exists>s. sum_signs (CurveN lib) signs (msgs (rs1 ! k)) 0 0 = Inr s
            \<and> s = (\<Sum>j\<leftarrow>[0..<length (msgs (rs1 ! k))].
                      if 0 < msg_len (msgs (rs1 ! k) ! j) then signs ! j else 0) mod CurveN lib
            \<and> key (rs1 ! k) = Some (Some (CurveScalarBaseMult lib s))
            \<and> fst (SetOracleSigns lib A ms signs g1) = None
            \<and> ((\<forall>j<k. match_down (msgs (rs1 ! j)) ms (nat (l - 1)) \<noteq> Inr True) \<longrightarrow>
                 snd (SetOracleSigns lib A ms signs g1)
                   = g1\<lparr>rates := Some (rs1[k := (rs1 ! k)\<lparr>msign := Some s\<rparr>]),
                        frate := Some k, omsgs := ms, osigns := signs\<rparr>)))
    \<and> (\<forall>signs'. (fst (SetOracleSigns lib A ms signs' g1) = Some IllegalOracleSigns)
         = (\<exists>i s k. fst (searchRate lib A ms g1) = Inr (Some i)
               \<and> sum_signs (CurveN lib) signs' (msgs (rs1 ! i)) 0 0 = Inr s
               \<and> key (rs1 ! i) = Some (Some k) \<and> k \<noteq> CurveScalarBaseMult lib s))"
proof -
  let ?gen = "gen_rates lib A l"
  have l32: "nat l \<le> HashSize" using l by (simp add: HashSize_def)
  obtain rs1 where rs1:
    "SetOracleKeys lib A pub keys (NewGame ht l)
       = Inr ((NewGame ht l)\<lparr>rates := Some rs1, pubo := Some pub, okeys := keys\<rparr>)"
    "map msgs rs1 = map msgs ?gen" "length rs1 = length ?gen"
    "\<forall>i<length rs1. rs1 ! i = (?gen ! i)\<lparr>key := key (rs1 ! i)\<rparr>"
    "\<forall>k<length rs1. match_down (msgs (rs1 ! k)) ms (nat (l - 1)) = Inr True \<longrightarrow>
         (\<exists>s. sum_signs (CurveN lib) signs (msgs (rs1 ! k)) 0 0 = Inr s
            \<and> s = (\<Sum>j\<leftarrow>[0..<length (msgs (rs1 ! k))].
                      if 0 < msg_len (msgs (rs1 ! k) ! j) then signs ! j else 0) mod CurveN lib
            \<and> key (rs1 ! k) = Some (Some (CurveScalarBaseMult lib s)))"
    using oracle_keys_fit[OF laws o r l(1) l32 K S, of A ht] by blast
  define g1 where "g1 = (NewGame ht l)\<lparr>rates := Some rs1, pubo := Some pub, okeys := keys\<rparr>"
  have g1: "rates g1 = Some rs1" "glength g1 = l" by (simp_all add: g1_def NewGame_def)
  have msgs1: "msgs (rs1 ! i) = msgs (?gen ! i)" if "i < length rs1" for i
    using rs1(2,3) that by (metis nth_map)
  have lens: "\<And>r. r \<in> set rs1 \<Longrightarrow> length (msgs r) = nat l"
  proof -
    fix r assume "r \<in> set rs1"
    then obtain i where i: "i < length rs1" "r = rs1 ! i" by (auto simp: in_set_conv_nth)
    then have "?gen ! i \<in> set ?gen" using rs1(3) by simp
    then show "length (msgs r) = nat l" using i msgs1 gen_rates_msgs_length by metis
  qed
  have lms: "nat l \<le> length ms" using l32 OracleSigns_nth(1)[OF S] by simp
  have main: "\<exists>s. sum_signs (CurveN lib) signs (msgs (rs1 ! k)) 0 0 = Inr s
            \<and> s = (\<Sum>j\<leftarrow>[0..<length (msgs (rs1 ! k))].
                      if 0 < msg_len (msgs (rs1 ! k) ! j) then signs ! j else 0) mod CurveN lib
            \<and> key (rs1 ! k) = Some (Some (CurveScalarBaseMult lib s))
            \<and> fst (SetOracleSigns lib A ms signs g1) = None
            \<and> ((\<forall>j<k. match_down (msgs (rs1 ! j)) ms (nat (l - 1)) \<noteq> Inr True) \<longrightarrow>
                 snd (SetOracleSigns lib A ms signs g1)
                   = g1\<lparr>rates := Some (rs1[k := (rs1 ! k)\<lparr>msign := Some s\<rparr>]),
                        frate := Some k, omsgs := ms, osigns := signs\<rparr>)"
    if k: "k < length rs1" and m: "match_down (msgs (rs1 ! k)) ms (nat (l - 1)) = Inr True" for k
  proof -
    obtain s where s: "sum_signs (CurveN lib) signs (msgs (rs1 ! k)) 0 0 = Inr s"
      "s = (\<Sum>j\<leftarrow>[0..<length (msgs (rs1 ! k))].
                      if 0 < msg_len (msgs (rs1 ! k) ! j) then signs ! j else 0) mod CurveN lib"
      "key (rs1 ! k) = Some (Some (CurveScalarBaseMult lib s))"
      using rs1(5) k m by blast
    have l0: "0 < l" using l(1) by simp
    obtain i where i: "i \<le> k" "search_loop l ms rs1 0 = Inr (Some i)"
      "match_down (msgs (rs1 ! i)) ms (nat (l - 1)) = Inr True"
      using search_loop_finds[OF l0 lens lms k m] by blast
    have il: "i < length rs1" using i(1) k by simp
    obtain si where si: "sum_signs (CurveN lib) signs (msgs (rs1 ! i)) 0 0 = Inr si"
      "key (rs1 ! i) = Some (Some (CurveScalarBaseMult lib si))"
      using rs1(5) il i(3) by blast
    have res: "SetOracleSigns lib A ms signs g1 =
           (None, g1\<lparr>rates := Some (rs1[i := (rs1 ! i)\<lparr>msign := Some si\<rparr>]), frate := Some i,
                     omsgs := ms, osigns := signs\<rparr>)"
      using SetOracleSigns_found[OF g1(1) _ si, of ms A] i(2) g1(2) by simp
    have first: "i = k \<and> si = s" if "\<forall>j<k. match_down (msgs (rs1 ! j)) ms (nat (l - 1)) \<noteq> Inr True"
    proof -
      have "i = k" using that i(1,3) by (cases "i < k") auto
      then show ?thesis using s(1) si(1) by simp
    qed
    show ?thesis using s res first by auto
  qed
  have ill: "(fst (SetOracleSigns lib A ms signs' g1) = Some IllegalOracleSigns)
         = (\<exists>i s k. fst (searchRate lib A ms g1) = Inr (Some i)
               \<and> sum_signs (CurveN lib) signs' (msgs (rs1 ! i)) 0 0 = Inr s
               \<and> key (rs1 ! i) = Some (Some k) \<and> k \<noteq> CurveScalarBaseMult lib s)" for signs'
    unfolding SetOracleSigns_illegal_iff searchRate_cached[OF g1(1)] using g1(1) by auto
  show ?thesis
    apply (rule exI[of _ g1])
    apply (rule exI[of _ rs1])
    using rs1(1,2) g1(1) main ill
    by (simp add: g1_def[symmetric] Rates_fresh)
qed

lemma search_loop_two_bytes:
  assumes "2 \<le> length ms" "ms ! 1 = [b]"
  shows "search_loop 2 ms (gen_rates lib A 2) 0 = Inr (Some (unat b))"
proof -
  let ?rs = "gen_rates lib A 2"
  have ub: "unat b < 256" using unsigned_less[of b] by simp
  have len: "length ?rs = 65536" by (simp add: length_gen_rates quarter_2)
  have low: "match_down (msgs (?rs ! j)) ms (nat (2 - 1)) = Inr False" if "j < unat b" for j
  proof -
    have j: "j < 256" using that ub by simp
    then have "msgs (?rs ! j) = [None, Some [of_nat j]]" by (simp add: msgs_rates_2)
    moreover have "unat (of_nat j :: byte) = j" using j by (simp add: unat_of_nat)
    then have "(of_nat j :: byte) \<noteq> b" using that by auto
    ultimately show ?thesis using assms by (simp add: match_down_tail_2)
  qed
  have hit: "match_down (msgs (?rs ! unat b)) ms (nat (2 - 1)) = Inr True"
    using ub assms by (simp add: msgs_rates_2 match_down_tail_2)
  have "search_loop 2 ms ?rs 0 = Inr (Some (0 + unat b))"
    by (rule search_loop_first) (use len hit low ub in simp_all)
  then show ?thesis by simp
qed

lemma toy_sign_values:
  "OracleSign toy_lib 2 1 [200] = 2"
  "OracleSign toy_lib 2 1 [0] = 6"
  "OracleSign toy_lib 2 2 [128] = 9"
  by (simp_all add: OracleSign_def H_def SetBytes_def toy_lib_def Let_def)

lemma toy_base_mult: "CurveScalarBaseMult toy_lib s = s mod 11" "CurveN toy_lib = 11"
  by (simp_all add: toy_lib_def)

text \<open>
  On the small curve, for message length 1 and a block hash that starts with the byte
  200: rate 200 matches, its key is the point 2, and \<open>SetOracleSigns\<close> stores the
  scalar 2 in it and fixes it.
\<close>

lemma oracle_signs_first_match_example:
  "curve_laws toy_lib
   \<and> (\<exists>g1 rs1.
        SetOracleKeys toy_lib 100 (fst (OracleKeys toy_lib 2 example_nonce))
            (snd (OracleKeys toy_lib 2 example_nonce)) (NewGame 500 1) = Inr g1
      \<and> rates g1 = Some rs1
      \<and> match_down (msgs (rs1 ! 200))
           (fst (OracleSigns toy_lib 2 example_nonce (200 # replicate 31 0))) 0 = Inr True
      \<and> key (rs1 ! 200) = Some (Some 2)
      \<and> SetOracleSigns toy_lib 100
           (fst (OracleSigns toy_lib 2 example_nonce (200 # replicate 31 0)))
           (snd (OracleSigns toy_lib 2 example_nonce (200 # replicate 31 0))) g1
         = (None, g1\<lparr>rates := Some (rs1[200 := (rs1 ! 200)\<lparr>msign := Some 2\<rparr>]),
                      frate := Some 200,
                      omsgs := fst (OracleSigns toy_lib 2 example_nonce (200 # replicate 31 0)),
                      osigns := snd (OracleSigns toy_lib 2 example_nonce (200 # replicate 31 0))\<rparr>))"
proof -
  let ?K = "OracleKeys toy_lib 2 example_nonce"
  let ?S = "OracleSigns toy_lib 2 example_nonce (200 # replicate 31 0)"
  let ?ms = "fst ?S" and ?signs = "snd ?S"
  have K: "?K = (fst ?K, snd ?K)" by simp
  have S: "?S = (?ms, ?signs)" by simp
  have r: "\<forall>i. 0 \<le> example_nonce i" by (simp add: example_nonce_def)
  obtain g1 rs1 where g:
    "SetOracleKeys toy_lib 100 (fst ?K) (snd ?K) (NewGame 500 1) = Inr g1" "rates g1 = Some rs1"
    "map msgs rs1 = map msgs (fst (Rates toy_lib 100 (NewGame 500 1)))"
    "\<forall>k<length rs1. match_down (msgs (rs1 ! k)) ?ms (nat (1 - 1)) = Inr True \<longrightarrow>
         (\<exists>s. sum_signs (CurveN toy_lib) ?signs (msgs (rs1 ! k)) 0 0 = Inr s
            \<and> s = (\<Sum>j\<leftarrow>[0..<length (msgs (rs1 ! k))].
                      if 0 < msg_len (msgs (rs1 ! k) ! j) then ?signs ! j else 0) mod CurveN toy_lib
            \<and> key (rs1 ! k) = Some (Some (CurveScalarBaseMult toy_lib s))
            \<and> fst (SetOracleSigns toy_lib 100 ?ms ?signs g1) = None
            \<and> ((\<forall>j<k. match_down (msgs (rs1 ! j)) ?ms (nat (1 - 1)) \<noteq> Inr True) \<longrightarrow>
                 snd (SetOracleSigns toy_lib 100 ?ms ?signs g1)
                   = g1\<lparr>rates := Some (rs1[k := (rs1 ! k)\<lparr>msign := Some s\<rparr>]),
                        frate := Some k, omsgs := ?ms, osigns := ?signs\<rparr>))"
    using oracle_signs_first_match[OF toy_lib_laws _ r _ _ K S, of 1 100 500] by auto
  have len: "length rs1 = 256"
    using arg_cong[OF g(3), of length] by (simp add: Rates_fresh length_gen_rates quarter_1)
  have m1: "msgs (rs1 ! j) = [Some [of_nat j]]" if "j < 256" for j
  proof -
    have "msgs (rs1 ! j) = map msgs rs1 ! j" using that len by simp
    also have "\<dots> = msgs (gen_rates toy_lib 100 1 ! j)"
      using that by (simp add: g(3) Rates_fresh length_gen_rates quarter_1)
    finally show ?thesis using that by (simp add: msgs_rates_1)
  qed
  have ms: "length ?ms = HashSize" "?ms ! 0 = [200]" "?signs ! 0 = 2"
    using OracleSigns_nth[OF S] by (simp_all add: HashSize_def example_nonce_def toy_sign_values)
  have md: "match_down (msgs (rs1 ! j)) ?ms 0 = Inr ((of_nat j :: byte) = 200)" if "j < 256" for j
    using ms(1,2) by (simp add: m1[OF that] match_down_1 HashSize_def)
  have hit: "match_down (msgs (rs1 ! 200)) ?ms 0 = Inr True" by (simp add: md)
  have first: "\<forall>j<200. match_down (msgs (rs1 ! j)) ?ms 0 \<noteq> Inr True"
  proof (intro allI impI)
    fix j :: nat assume j: "j < 200"
    then have "(of_nat j :: byte) \<noteq> 200" using byte_eq_iff[of j 200] by simp
    then show "match_down (msgs (rs1 ! j)) ?ms 0 \<noteq> Inr True" using j by (simp add: md)
  qed
  obtain s where s: "sum_signs (CurveN toy_lib) ?signs (msgs (rs1 ! 200)) 0 0 = Inr s"
    "key (rs1 ! 200) = Some (Some (CurveScalarBaseMult toy_lib s))"
    "fst (SetOracleSigns toy_lib 100 ?ms ?signs g1) = None"
    "snd (SetOracleSigns toy_lib 100 ?ms ?signs g1)
        = g1\<lparr>rates := Some (rs1[200 := (rs1 ! 200)\<lparr>msign := Some s\<rparr>]),
             frate := Some 200, omsgs := ?ms, osigns := ?signs\<rparr>"
    using g(4)[rule_format, of 200] len hit first by auto
  have ne: "?signs \<noteq> []" using OracleSigns_nth(2)[OF S] by (auto simp: HashSize_def)
  have s2: "s = 2" using s(1) ms(3) ne by (simp add: m1 msg_len_def toy_base_mult)
  have "SetOracleSigns toy_lib 100 ?ms ?signs g1
         = (None, g1\<lparr>rates := Some (rs1[200 := (rs1 ! 200)\<lparr>msign := Some 2\<rparr>]),
                      frate := Some 200, omsgs := ?ms, osigns := ?signs\<rparr>)"
    using s(3,4) s2 by (simp add: prod_eq_iff)
  then show ?thesis
    using toy_lib_laws g(1,2) hit s(2) s2 by (auto simp: toy_base_mult)
qed

text \<open>
  At message length 1 the table has one rate for each byte, so that at most one rate
  matches, and the matching rate gets its scalar and is fixed.
\<close>

lemma oracle_signs_length_1:
  assumes laws: "curve_laws lib" and o: "0 \<le> o'" and r: "\<forall>i. 0 \<le> r i"
    and K: "OracleKeys lib o' r = (pub, keys)" and S: "OracleSigns lib o' r h = (ms, signs)"
  shows "\<exists>g1 rs1.
      SetOracleKeys lib A pub keys (NewGame ht 1) = Inr g1 \<and> rates g1 = Some rs1
    \<and> (\<forall>k<length rs1. match_down (msgs (rs1 ! k)) ms 0 = Inr True \<longrightarrow>
         (\<exists>s. sum_signs (CurveN lib) signs (msgs (rs1 ! k)) 0 0 = Inr s
            \<and> key (rs1 ! k) = Some (Some (CurveScalarBaseMult lib s))
            \<and> SetOracleSigns lib A ms signs g1
                = (None, g1\<lparr>rates := Some (rs1[k := (rs1 ! k)\<lparr>msign := Some s\<rparr>]),
                           frate := Some k, omsgs := ms, osigns := signs\<rparr>)))"
proof -
  obtain g1 rs1 where g:
    "SetOracleKeys lib A pub keys (NewGame ht 1) = Inr g1" "rates g1 = Some rs1"
    "map msgs rs1 = map msgs (fst (Rates lib A (NewGame ht 1)))"
    "\<forall>k<length rs1. match_down (msgs (rs1 ! k)) ms (nat (1 - 1)) = Inr True \<longrightarrow>
         (\<exists>s. sum_signs (CurveN lib) signs (msgs (rs1 ! k)) 0 0 = Inr s
            \<and> s = (\<Sum>j\<leftarrow>[0..<length (msgs (rs1 ! k))].
                      if 0 < msg_len (msgs (rs1 ! k) ! j) then signs ! j else 0) mod CurveN lib
            \<and> key (rs1 ! k) = Some (Some (CurveScalarBaseMult lib s))
            \<and> fst (SetOracleSigns lib A ms signs g1) = None
            \<and> ((\<forall>j<k. match_down (msgs (rs1 ! j)) ms (nat (1 - 1)) \<noteq> Inr True) \<longrightarrow>
                 snd (SetOracleSigns lib A ms signs g1)
                   = g1\<lparr>rates := Some (rs1[k := (rs1 ! k)\<lparr>msign := Some s\<rparr>]),
                        frate := Some k, omsgs := ms, osigns := signs\<rparr>))"
    using oracle_signs_first_match[OF laws o r _ _ K S, of 1 A ht] by auto
  have len: "length rs1 = 256"
    using arg_cong[OF g(3), of length] by (simp add: Rates_fresh length_gen_rates quarter_1)
  have m1: "msgs (rs1 ! j) = [Some [of_nat j]]" if "j < 256" for j
  proof -
    have "msgs (rs1 ! j) = map msgs rs1 ! j" using that len by simp
    also have "\<dots> = msgs (gen_rates lib A 1 ! j)"
      using that by (simp add: g(3) Rates_fresh length_gen_rates quarter_1)
    finally show ?thesis using that by (simp add: msgs_rates_1)
  qed
  have lms: "1 \<le> length ms" using OracleSigns_nth(1)[OF S] by (simp add: HashSize_def)
  have md: "match_down (msgs (rs1 ! j)) ms 0 = Inr ([of_nat j :: byte] = ms ! 0)"
    if "j < 256" for j
    using lms by (simp add: m1[OF that] match_down_1)
  have main: "\<exists>s. sum_signs (CurveN lib) signs (msgs (rs1 ! k)) 0 0 = Inr s
            \<and> key (rs1 ! k) = Some (Some (CurveScalarBaseMult lib s))
            \<and> SetOracleSigns lib A ms signs g1
                = (None, g1\<lparr>rates := Some (rs1[k := (rs1 ! k)\<lparr>msign := Some s\<rparr>]),
                           frate := Some k, omsgs := ms, osigns := signs\<rparr>)"
    if k: "k < length rs1" and m: "match_down (msgs (rs1 ! k)) ms 0 = Inr True" for k
  proof -
    have k256: "k < 256" using k len by simp
    have hk: "[of_nat k :: byte] = ms ! 0" using m md[OF k256] by simp
    have first: "\<forall>j<k. match_down (msgs (rs1 ! j)) ms 0 \<noteq> Inr True"
    proof (intro allI impI)
      fix j assume j: "j < k"
      then have j256: "j < 256" using k256 by simp
      have "(of_nat j :: byte) \<noteq> of_nat k"
        using j j256 k256 by (simp add: byte_eq_iff)
      then have "[of_nat j :: byte] \<noteq> ms ! 0" using hk[symmetric] by simp
      then show "match_down (msgs (rs1 ! j)) ms 0 \<noteq> Inr True"
        by (simp add: md[OF j256])
    qed
    from g(4)[rule_format, OF k] m first
    obtain s where s: "sum_signs (CurveN lib) signs (msgs (rs1 ! k)) 0 0 = Inr s"
      "key (rs1 ! k) = Some (Some (CurveScalarBaseMult lib s))"
      "fst (SetOracleSigns lib A ms signs g1) = None"
      "snd (SetOracleSigns lib A ms signs g1)
         = g1\<lparr>rates := Some (rs1[k := (rs1 ! k)\<lparr>msign := Some s\<rparr>]),
              frate := Some k, omsgs := ms, osigns := signs\<rparr>"
      by auto
    from s(3,4) have "SetOracleSigns lib A ms signs g1
         = (None, g1\<lparr>rates := Some (rs1[k := (rs1 ! k)\<lparr>msign := Some s\<rparr>]),
                    frate := Some k, omsgs := ms, osigns := signs\<rparr>)"
      by (simp add: prod_eq_iff)
    with s(1,2) show ?thesis by blast
  qed
  show ?thesis using g(1,2) main by blast
qed

text \<open>
  Claim C1, at message length 2. For a block hash that starts with 0x00 0x80, entry
  32768 of the table matches the attested messages at both positions, its scalars add up
  to 4 and its key is the point 4, so that the claim promises that \<open>SetOracleSigns\<close>
  stores the scalar 4 for it. But \<open>SetOracleSigns\<close> fixes entry 128, which the first
  quarter of the table puts before it with the low byte of its counter in the place of
  the high byte; it stores the scalar 9 there and leaves entry 32768 without a scalar,
  and the multiple of the base point by 9 is not the key of entry 32768.
\<close>

theorem C1_oracle_signs_two_byte_message:
  "\<exists>g1 rs1.
      SetOracleKeys toy_lib 100 (fst (OracleKeys toy_lib 2 example_nonce))
          (snd (OracleKeys toy_lib 2 example_nonce)) (NewGame 500 2) = Inr g1
    \<and> rates g1 = Some rs1
    \<and> match_down (msgs (rs1 ! 32768))
         (fst (OracleSigns toy_lib 2 example_nonce (0 # 128 # replicate 30 0))) 1 = Inr True
    \<and> key (rs1 ! 32768) = Some (Some 4)
    \<and> sum_signs (CurveN toy_lib)
         (snd (OracleSigns toy_lib 2 example_nonce (0 # 128 # replicate 30 0)))
         (msgs (rs1 ! 32768)) 0 0 = Inr 4
    \<and> SetOracleSigns toy_lib 100
         (fst (OracleSigns toy_lib 2 example_nonce (0 # 128 # replicate 30 0)))
         (snd (OracleSigns toy_lib 2 example_nonce (0 # 128 # replicate 30 0))) g1
       = (None, g1\<lparr>rates := Some (rs1[128 := (rs1 ! 128)\<lparr>msign := Some 9\<rparr>]),
                    frate := Some 128,
                    omsgs := fst (OracleSigns toy_lib 2 example_nonce (0 # 128 # replicate 30 0)),
                    osigns := snd (OracleSigns toy_lib 2 example_nonce (0 # 128 # replicate 30 0))\<rparr>)
    \<and> msign (rs1[128 := (rs1 ! 128)\<lparr>msign := Some 9\<rparr>] ! 32768) = None
    \<and> CurveScalarBaseMult toy_lib 9 \<noteq> 4"
proof -
  let ?K = "OracleKeys toy_lib 2 example_nonce"
  let ?S = "OracleSigns toy_lib 2 example_nonce (0 # 128 # replicate 30 0)"
  let ?ms = "fst ?S" and ?signs = "snd ?S"
  let ?gen = "gen_rates toy_lib 100 2 :: int Rate list"
  have K: "?K = (fst ?K, snd ?K)" by simp
  have S: "?S = (?ms, ?signs)" by simp
  have r: "\<forall>i. 0 \<le> example_nonce i" by (simp add: example_nonce_def)
  have l: "(1::int) \<le> 2" "nat 2 \<le> HashSize" by (simp_all add: HashSize_def)
  obtain rs1 where rs1:
    "SetOracleKeys toy_lib 100 (fst ?K) (snd ?K) (NewGame 500 2)
       = Inr ((NewGame 500 2)\<lparr>rates := Some rs1, pubo := Some (fst ?K), okeys := snd ?K\<rparr>)"
    "map msgs rs1 = map msgs ?gen" "length rs1 = length ?gen"
    "\<forall>i<length rs1. rs1 ! i = (?gen ! i)\<lparr>key := key (rs1 ! i)\<rparr>"
    "\<forall>k<length rs1. match_down (msgs (rs1 ! k)) ?ms (nat (2 - 1)) = Inr True \<longrightarrow>
         (\<exists>s. sum_signs (CurveN toy_lib) ?signs (msgs (rs1 ! k)) 0 0 = Inr s
            \<and> s = (\<Sum>j\<leftarrow>[0..<length (msgs (rs1 ! k))].
                      if 0 < msg_len (msgs (rs1 ! k) ! j) then ?signs ! j else 0) mod CurveN toy_lib
            \<and> key (rs1 ! k) = Some (Some (CurveScalarBaseMult toy_lib s)))"
    using oracle_keys_fit[OF toy_lib_laws _ r l K S, of 100 500] by auto
  define g1 where "g1 = (NewGame 500 2)\<lparr>rates := Some rs1, pubo := Some (fst ?K), okeys := snd ?K\<rparr>"
  have g1: "rates g1 = Some rs1" "glength g1 = 2" by (simp_all add: g1_def NewGame_def)
  have len: "length rs1 = 65536" using rs1(3) by (simp add: length_gen_rates quarter_2)
  have m1: "msgs (rs1 ! j) = msgs (?gen ! j)" if "j < 65536" for j
  proof -
    have "map msgs rs1 ! j = map msgs ?gen ! j" by (simp only: rs1(2))
    then show ?thesis using that len rs1(3) by simp
  qed
  have ms: "length ?ms = HashSize" "?ms ! 0 = [0]" "?ms ! 1 = [128]"
    "?signs ! 0 = 6" "?signs ! 1 = 9" "length ?signs = HashSize"
    using OracleSigns_nth[OF S] by (simp_all add: HashSize_def example_nonce_def toy_sign_values)
  have ne: "2 \<le> length ?ms" "2 \<le> length ?signs" using ms(1,6) by (simp_all add: HashSize_def)
  have mr: "msgs (rs1 ! 32768) = [Some [0], Some [128]]" "msgs (rs1 ! 128) = [None, Some [128]]"
    by (simp_all add: m1 msgs_rates_2)
  have hit: "match_down (msgs (rs1 ! 32768)) ?ms 1 = Inr True"
    using ne ms(2,3) by (simp add: mr match_down_full_2)
  have hit128: "match_down (msgs (rs1 ! 128)) ?ms 1 = Inr True"
    using ne ms(3) by (simp add: mr match_down_tail_2)
  obtain s where s: "sum_signs (CurveN toy_lib) ?signs (msgs (rs1 ! 32768)) 0 0 = Inr s"
    "key (rs1 ! 32768) = Some (Some (CurveScalarBaseMult toy_lib s))"
    using rs1(5)[rule_format, of 32768] len hit by auto
  have s4: "s = 4" using s(1) ms(4,5) ne(2)
    by (simp add: mr msg_len_def toy_base_mult split: if_splits)
  obtain s' where s': "sum_signs (CurveN toy_lib) ?signs (msgs (rs1 ! 128)) 0 0 = Inr s'"
    "key (rs1 ! 128) = Some (Some (CurveScalarBaseMult toy_lib s'))"
    using rs1(5)[rule_format, of 128] len hit128 by auto
  have s9: "s' = 9" using s'(1) ms(4,5) ne(2)
    by (simp add: mr msg_len_def toy_base_mult split: if_splits)
  have "search_loop 2 ?ms rs1 0 = search_loop 2 ?ms ?gen 0"
    using rs1(2) by (rule search_loop_msgs)
  also have "\<dots> = Inr (Some (unat (128 :: byte)))"
    using ne(1) ms(3) by (rule search_loop_two_bytes)
  finally have found: "search_loop (glength g1) ?ms rs1 0 = Inr (Some 128)"
    by (simp add: g1(2))
  have res: "SetOracleSigns toy_lib 100 ?ms ?signs g1 =
           (None, g1\<lparr>rates := Some (rs1[128 := (rs1 ! 128)\<lparr>msign := Some 9\<rparr>]), frate := Some 128,
                     omsgs := ?ms, osigns := ?signs\<rparr>)"
    using SetOracleSigns_found[OF g1(1) found, of toy_lib ?signs s' 100] s' s9 by simp
  have "rs1 ! 32768 = (?gen ! 32768)\<lparr>key := key (rs1 ! 32768)\<rparr>"
    using rs1(4) len by simp
  from arg_cong[OF this, of msign] have "msign (rs1 ! 32768) = None"
    by (simp add: nth_gen_rates quarter_2 NewRate_def)
  then have none: "msign (rs1[128 := (rs1 ! 128)\<lparr>msign := Some 9\<rparr>] ! 32768) = None"
    by simp
  show ?thesis
    apply (rule exI[of _ g1])
    apply (rule exI[of _ rs1])
    using rs1(1) g1(1) hit s s4 res none
    by (simp add: g1_def[symmetric] toy_base_mult)
qed

section \<open>The status of the handshake\<close>

lemma GetOfferData_step:
  "handshake_step StatusNone StatusWaitForAccept
     (err_of (fst (GetOfferData lib world dopt u))) u (snd (GetOfferData lib world dopt u))"
  by (auto simp: handshake_step_def err_of_def GetOfferData_def Let_def
           split: option.splits sum.splits prod.splits)

lemma SetOfferData_step:
  "handshake_step StatusNone StatusCanGetAccept
     (fst (SetOfferData lib data u)) u (snd (SetOfferData lib data u))"
  by (auto simp: handshake_step_def SetOfferData_def Let_def
           split: option.splits sum.splits prod.splits)

lemma GetAcceptData_step:
  "handshake_step StatusCanGetAccept StatusWaitForSign
     (err_of (fst (GetAcceptData lib world u))) u (snd (GetAcceptData lib world u))"
  by (auto simp: handshake_step_def err_of_def GetAcceptData_def Let_def
           split: option.splits sum.splits prod.splits)

lemma SetAcceptData_step:
  "handshake_step StatusWaitForAccept StatusCanGetSign
     (fst (SetAcceptData lib data u)) u (snd (SetAcceptData lib data u))"
  by (auto simp: handshake_step_def SetAcceptData_def Let_def
           split: option.splits sum.splits prod.splits)

lemma GetSignData_step:
  "handshake_step StatusCanGetSign StatusWaitSendTx
     (err_of (fst (GetSignData lib world u))) u (snd (GetSignData lib world u))"
  by (auto simp: handshake_step_def err_of_def GetSignData_def Let_def
           split: option.splits sum.splits prod.splits)

lemma SetSignData_step:
  "handshake_step StatusWaitForSign StatusWaitSendTx
     (fst (SetSignData lib data u)) u (snd (SetSignData lib data u))"
  by (auto simp: handshake_step_def SetSignData_def Let_def
           split: option.splits sum.splits prod.splits)

lemma SendFundTx_step:
  "handshake_step StatusWaitSendTx StatusWaitSendTx
     (fst (SendFundTx lib world u)) u (snd (snd (SendFundTx lib world u)))"
  by (auto simp: handshake_step_def SendFundTx_def Let_def
           split: option.splits sum.splits prod.splits)

lemma UserSetOracleSigns_step:
  "handshake_step StatusWaitSendTx StatusWaitSendTx
     (fst (UserSetOracleSigns lib data u)) u (snd (UserSetOracleSigns lib data u))"
  by (auto simp: handshake_step_def UserSetOracleSigns_def Let_def
           split: option.splits sum.splits prod.splits)

lemma status_order:
  "StatusNone < StatusWaitForAccept \<and> StatusWaitForAccept < StatusCanGetSign
   \<and> StatusCanGetSign < StatusWaitSendTx \<and> StatusNone < StatusCanGetAccept
   \<and> StatusCanGetAccept < StatusWaitForSign \<and> StatusWaitForSign < StatusWaitSendTx"
  by (simp add: StatusNone_def StatusWaitForAccept_def StatusCanGetSign_def
        StatusWaitSendTx_def StatusCanGetAccept_def StatusWaitForSign_def)

text \<open>
  Claim C5. Each of the eight operations requires one status: \<open>GetOfferData\<close> and
  \<open>SetOfferData\<close> the status None, \<open>GetAcceptData\<close> CanGetAccept, \<open>SetAcceptData\<close>
  WaitForAccept, \<open>GetSignData\<close> CanGetSign, \<open>SetSignData\<close> WaitForSign, \<open>SendFundTx\<close>
  and \<open>SetOracleSigns\<close> WaitSendTx. Called in another status it returns the illegal
  status error and leaves the user as it was. A call that succeeds moves the status one
  step along the offerer's path None, WaitForAccept, CanGetSign, WaitSendTx or the
  acceptor's path None, CanGetAccept, WaitForSign, WaitSendTx, each step to a greater
  status; \<open>SendFundTx\<close> and \<open>SetOracleSigns\<close> leave it at WaitSendTx, the end of both
  paths. A call that fails, with whatever error, leaves the status as it was.
\<close>

theorem C5_handshake_status:
  "handshake_step StatusNone StatusWaitForAccept
     (err_of (fst (GetOfferData lib world dopt u))) u (snd (GetOfferData lib world dopt u))
   \<and> handshake_step StatusNone StatusCanGetAccept
       (fst (SetOfferData lib odata u)) u (snd (SetOfferData lib odata u))
   \<and> handshake_step StatusCanGetAccept StatusWaitForSign
       (err_of (fst (GetAcceptData lib world u))) u (snd (GetAcceptData lib world u))
   \<and> handshake_step StatusWaitForAccept StatusCanGetSign
       (fst (SetAcceptData lib adata u)) u (snd (SetAcceptData lib adata u))
   \<and> handshake_step StatusCanGetSign StatusWaitSendTx
       (err_of (fst (GetSignData lib world u))) u (snd (GetSignData lib world u))
   \<and> handshake_step StatusWaitForSign StatusWaitSendTx
       (fst (SetSignData lib sdata u)) u (snd (SetSignData lib sdata u))
   \<and> handshake_step StatusWaitSendTx StatusWaitSendTx
       (fst (SendFundTx lib world u)) u (snd (snd (SendFundTx lib world u)))
   \<and> handshake_step StatusWaitSendTx StatusWaitSendTx
       (fst (UserSetOracleSigns lib vdata u)) u (snd (UserSetOracleSigns lib vdata u))
   \<and> StatusNone < StatusWaitForAccept \<and> StatusWaitForAccept < StatusCanGetSign
   \<and> StatusCanGetSign < StatusWaitSendTx \<and> StatusNone < StatusCanGetAccept
   \<and> StatusCanGetAccept < StatusWaitForSign \<and> StatusWaitForSign < StatusWaitSendTx"
  using GetOfferData_step [of lib world dopt u] SetOfferData_step [of lib odata u]
    GetAcceptData_step [of lib world u] SetAcceptData_step [of lib adata u]
    GetSignData_step [of lib world u] SetSignData_step [of lib sdata u]
    SendFundTx_step [of lib world u] UserSetOracleSigns_step [of lib vdata u] status_order
  by simp

text \<open>The run of Alice and Bob, one operation at a time.\<close>

lemma run_offer:
  "GetOfferData toy_lib alice_world (Some offer_dlc) alice0 = (Inr offer_data, alice1)"
  by code_simp

lemma run_set_offer:
  "SetOfferData toy_lib (Inr offer_data) bob0
     = (None, at_status StatusCanGetAccept (bob_dlc1\<lparr>game := Some (NewGame 5 1)\<rparr>) bob0)"
  by code_simp

lemma run_accept: "GetAcceptData toy_lib bob_world bob1 = (Inr accept_data, bob2)"
  by code_simp

lemma run_set_accept: "SetAcceptData toy_lib (Inr accept_data) alice1 = (None, alice2)"
  by code_simp

lemma run_sign: "GetSignData toy_lib alice_world alice2 = (Inr sign_data, alice3)"
  by code_simp

lemma run_set_sign: "SetSignData toy_lib (Inr sign_data) bob2 = (None, bob3)"
  by code_simp

lemma run_fund: "SendFundTx toy_lib bob_world bob3 = (None, [FundTx toy_lib bob_dlc4], bob4)"
  by code_simp

lemma run_oracle_alice: "UserSetOracleSigns toy_lib alice_oracle_blob alice3 = (None, alice4)"
  by code_simp

lemma run_oracle_bob: "UserSetOracleSigns toy_lib bob_oracle_blob bob4 = (None, bob5)"
  by code_simp

text \<open>
  Claim C5, on the run of Alice and Bob: every operation of the run succeeds, so that
  it leaves the next status of its path, and a second offer of Alice is refused in the
  status WaitForAccept.
\<close>

theorem C5_handshake_status_witness:
  "fst (GetOfferData toy_lib alice_world (Some offer_dlc) alice0) = Inr offer_data
   \<and> status (snd (GetOfferData toy_lib alice_world (Some offer_dlc) alice0))
       = StatusWaitForAccept
   \<and> fst (SetOfferData toy_lib (Inr offer_data) bob0) = None
   \<and> status (snd (SetOfferData toy_lib (Inr offer_data) bob0)) = StatusCanGetAccept
   \<and> fst (GetAcceptData toy_lib bob_world bob1) = Inr accept_data
   \<and> status (snd (GetAcceptData toy_lib bob_world bob1)) = StatusWaitForSign
   \<and> fst (SetAcceptData toy_lib (Inr accept_data) alice1) = None
   \<and> status (snd (SetAcceptData toy_lib (Inr accept_data) alice1)) = StatusCanGetSign
   \<and> fst (GetSignData toy_lib alice_world alice2) = Inr sign_data
   \<and> status (snd (GetSignData toy_lib alice_world alice2)) = StatusWaitSendTx
   \<and> fst (SetSignData toy_lib (Inr sign_data) bob2) = None
   \<and> status (snd (SetSignData toy_lib (Inr sign_data) bob2)) = StatusWaitSendTx
   \<and> fst (SendFundTx toy_lib bob_world bob3) = None
   \<and> status (snd (snd (SendFundTx toy_lib bob_world bob3))) = StatusWaitSendTx
   \<and> fst (UserSetOracleSigns toy_lib alice_oracle_blob alice3) = None
   \<and> status (snd (UserSetOracleSigns toy_lib alice_oracle_blob alice3)) = StatusWaitSendTx
   \<and> GetOfferData toy_lib alice_world (Some offer_dlc) alice1
       = (Inl (IllegalStatus StatusWaitForAccept), alice1)"
proof -
  have s1: "status (snd (GetOfferData toy_lib alice_world (Some offer_dlc) alice0))
              = StatusWaitForAccept"
    using C5_handshake_status [where lib = toy_lib and world = alice_world
        and dopt = "Some offer_dlc" and u = alice0, THEN conjunct1]
    by (simp add: handshake_step_def run_offer err_of_def)
  have s2: "status (snd (SetOfferData toy_lib (Inr offer_data) bob0)) = StatusCanGetAccept"
    using C5_handshake_status [where lib = toy_lib and odata = "Inr offer_data" and u = bob0,
        THEN conjunct2, THEN conjunct1]
    by (simp add: handshake_step_def run_set_offer)
  have s3: "status (snd (GetAcceptData toy_lib bob_world bob1)) = StatusWaitForSign"
    using C5_handshake_status [where lib = toy_lib and world = bob_world and u = bob1,
        THEN conjunct2, THEN conjunct2, THEN conjunct1]
    by (simp add: handshake_step_def run_accept err_of_def)
  have s4: "status (snd (SetAcceptData toy_lib (Inr accept_data) alice1)) = StatusCanGetSign"
    using C5_handshake_status [where lib = toy_lib and adata = "Inr accept_data"
        and u = alice1, THEN conjunct2, THEN conjunct2, THEN conjunct2, THEN conjunct1]
    by (simp add: handshake_step_def run_set_accept)
  have s5: "status (snd (GetSignData toy_lib alice_world alice2)) = StatusWaitSendTx"
    using C5_handshake_status [where lib = toy_lib and world = alice_world and u = alice2,
        THEN conjunct2, THEN conjunct2, THEN conjunct2, THEN conjunct2, THEN conjunct1]
    by (simp add: handshake_step_def run_sign err_of_def)
  have s6: "status (snd (SetSignData toy_lib (Inr sign_data) bob2)) = StatusWaitSendTx"
    using C5_handshake_status [where lib = toy_lib and sdata = "Inr sign_data" and u = bob2,
        THEN conjunct2, THEN conjunct2, THEN conjunct2, THEN conjunct2, THEN conjunct2,
        THEN conjunct1]
    by (simp add: handshake_step_def run_set_sign)
  have s7: "status (snd (snd (SendFundTx toy_lib bob_world bob3))) = StatusWaitSendTx"
    using C5_handshake_status [where lib = toy_lib and world = bob_world and u = bob3,
        THEN conjunct2, THEN conjunct2, THEN conjunct2, THEN conjunct2, THEN conjunct2,
        THEN conjunct2, THEN conjunct1]
    by (simp add: handshake_step_def run_fund)
  have s8: "status (snd (UserSetOracleSigns toy_lib alice_oracle_blob alice3))
              = StatusWaitSendTx"
    using C5_handshake_status [where lib = toy_lib and vdata = alice_oracle_blob
        and u = alice3, THEN conjunct2, THEN conjunct2, THEN conjunct2, THEN conjunct2,
        THEN conjunct2, THEN conjunct2, THEN conjunct2, THEN conjunct1]
    by (simp add: handshake_step_def run_oracle_alice)
  have a1: "status alice1 = StatusWaitForAccept"
    by (simp add: alice1_def at_status_def)
  have "err_of (fst (GetOfferData toy_lib alice_world (Some offer_dlc) alice1))
          = Some (IllegalStatus StatusWaitForAccept)
        \<and> snd (GetOfferData toy_lib alice_world (Some offer_dlc) alice1) = alice1"
    using C5_handshake_status [where lib = toy_lib and world = alice_world
        and dopt = "Some offer_dlc" and u = alice1, THEN conjunct1] a1
    by (simp add: handshake_step_def StatusWaitForAccept_def StatusNone_def)
  then have r: "GetOfferData toy_lib alice_world (Some offer_dlc) alice1
                  = (Inl (IllegalStatus StatusWaitForAccept), alice1)"
    by (cases "GetOfferData toy_lib alice_world (Some offer_dlc) alice1")
       (auto simp: err_of_def split: sum.splits)
  from s1 s2 s3 s4 s5 s6 s7 s8 r show ?thesis
    by (simp add: run_offer run_set_offer run_accept run_set_accept run_sign run_set_sign
          run_fund run_oracle_alice)
qed

section \<open>The signatures of the accept\<close>

lemma Verify_bad:
  assumes "sign \<noteq> []" "DecodeString lib sign = Inr s" "bad_sign lib d rate sign"
  shows "fst (Verify lib d rate (IsA d) s (PublicKey d (\<not> IsA d))) \<noteq> None"
  using assms
  by (auto simp: bad_sign_def Verify_def Let_def split: option.splits sum.splits prod.splits)

lemma verify_signs_bad:
  assumes "length signs = length rs" "i < length rs" "bad_sign lib d (rs ! i) (signs ! i)"
  shows "fst (verify_signs lib d (IsA d) (PublicKey d (\<not> IsA d)) signs rs) \<noteq> None"
  using assms
proof (induction signs rs arbitrary: i rule: list_induct2)
  case Nil
  then show ?case by simp
next
  case (Cons sign signs rate rs)
  show ?case
  proof (cases i)
    case 0
    with Cons.prems have bad: "bad_sign lib d rate sign" by simp
    show ?thesis
    proof (cases "sign = []")
      case True
      with bad show ?thesis by (simp add: bad_sign_def)
    next
      case False
      show ?thesis
      proof (cases "DecodeString lib sign")
        case (Inl e)
        with False show ?thesis by simp
      next
        case (Inr s)
        from Verify_bad[OF False Inr bad] False Inr show ?thesis
          by (auto split: prod.splits option.splits)
      qed
    qed
  next
    case (Suc j)
    with Cons.prems have "j < length rs" "bad_sign lib d (rs ! j) (signs ! j)" by simp_all
    from Cons.IH[OF this] show ?thesis
      by (auto split: prod.splits option.splits sum.splits)
  qed
qed

lemma VerifySettlementTxSigns_bad:
  assumes "Rates_date d = (rs, d1)"
    and "length signs \<noteq> length rs \<or> (\<exists>i<length rs. bad_sign lib d1 (rs ! i) (signs ! i))"
  shows "fst (VerifySettlementTxSigns lib signs d) \<noteq> None"
proof (cases "length rs = length signs")
  case False
  with assms(1) show ?thesis by (simp add: VerifySettlementTxSigns_def)
next
  case True
  with assms(2) obtain i where i: "i < length rs" "bad_sign lib d1 (rs ! i) (signs ! i)" by auto
  from verify_signs_bad[OF True[symmetric] i]
  show ?thesis using assms(1) True
    by (auto simp: VerifySettlementTxSigns_def Let_def split: prod.splits)
qed

lemma SetAcceptData_error_status:
  "fst (SetAcceptData lib data u) \<noteq> None \<Longrightarrow> status (snd (SetAcceptData lib data u)) = status u"
  by (auto simp: SetAcceptData_def Let_def split: option.splits sum.splits prod.splits if_splits)

lemma Verify_returns:
  assumes "lib_returns_errors lib" "has_settlement_tx lib d rate"
  shows "fst (Verify lib d rate (IsA d) s (Some p)) \<noteq> Some Panic"
  using assms
  by (auto simp: lib_returns_errors_def has_settlement_tx_def Verify_def Let_def
           split: option.splits sum.splits prod.splits)

lemma verify_signs_returns:
  assumes "lib_returns_errors lib" "length signs = length rs"
    "\<forall>i<length rs. signs ! i \<noteq> [] \<longrightarrow> has_settlement_tx lib d (rs ! i)"
  shows "fst (verify_signs lib d (IsA d) (Some p) signs rs) \<noteq> Some Panic"
  using assms(2,3)
proof (induction signs rs rule: list_induct2)
  case Nil
  then show ?case by simp
next
  case (Cons sign signs rate rs)
  from Cons.prems have hd: "sign \<noteq> [] \<longrightarrow> has_settlement_tx lib d rate" by auto
  from Cons.prems have "\<forall>i<length rs. signs ! i \<noteq> [] \<longrightarrow> has_settlement_tx lib d (rs ! i)"
    by auto
  from Cons.IH[OF this]
  have tl: "fst (verify_signs lib d (IsA d) (Some p) signs rs) \<noteq> Some Panic" .
  show ?case
  proof (cases "sign = []")
    case True
    with tl show ?thesis by (auto split: prod.splits)
  next
    case False
    with hd have tx: "has_settlement_tx lib d rate" by simp
    show ?thesis
    proof (cases "DecodeString lib sign")
      case (Inl e)
      with assms(1) have "e \<noteq> Panic" by (auto simp: lib_returns_errors_def)
      with False Inl show ?thesis by simp
    next
      case (Inr s)
      from Verify_returns[OF assms(1) tx, of s p] tl False Inr show ?thesis
        by (auto split: prod.splits option.splits)
    qed
  qed
qed

lemma Rates_date_keeps:
  "Rates_date d = (rs, d1) \<Longrightarrow> IsA d1 = IsA d \<and> PublicKey d1 a = PublicKey d a"
  by (auto simp: Rates_date_def IsA_def PublicKey_def Let_def split: option.splits)

lemma VerifySettlementTxSigns_returns:
  assumes "lib_returns_errors lib" "Rates_date d = (rs, d1)"
    "PublicKey d (\<not> IsA d) = Some p"
    "\<forall>i<length rs. i < length signs \<and> signs ! i \<noteq> [] \<longrightarrow> has_settlement_tx lib d1 (rs ! i)"
  shows "fst (VerifySettlementTxSigns lib signs d) \<noteq> Some Panic"
proof (cases "length rs = length signs")
  case False
  with assms(2) show ?thesis by (simp add: VerifySettlementTxSigns_def)
next
  case True
  from Rates_date_keeps[OF assms(2)] assms(3)
  have k: "PublicKey d1 (\<not> IsA d1) = Some p" by simp
  from assms(4) True
  have "\<forall>i<length rs. signs ! i \<noteq> [] \<longrightarrow> has_settlement_tx lib d1 (rs ! i)" by simp
  from verify_signs_returns[OF assms(1) True[symmetric] this, of p]
  show ?thesis using assms(2) True k
    by (auto simp: VerifySettlementTxSigns_def Let_def split: prod.splits)
qed

text \<open>
  What \<open>SetAcceptData\<close> does with a bad list of signatures. When the list has not the
  length of the rate table, or one of its signatures is bad for its rate, the call fails
  and the status is what it was. The failure is an error that the call returns, not a
  panic, when the library returns its errors and every signature of the list that is not
  empty stands at a rate with a settlement transaction.
\<close>

lemma SetAcceptData_rejects_bad_signs:
  assumes "accept_contract lib adata u = Some (rs, d)"
    and "length (aSigns adata) \<noteq> length rs
         \<or> (\<exists>i<length rs. bad_sign lib d (rs ! i) (aSigns adata ! i))"
  shows "fst (SetAcceptData lib (Inr adata) u) \<noteq> None
         \<and> status (snd (SetAcceptData lib (Inr adata) u)) = status u
         \<and> (lib_returns_errors lib
              \<and> (\<forall>i<length rs. i < length (aSigns adata) \<and> aSigns adata ! i \<noteq> []
                     \<longrightarrow> has_settlement_tx lib d (rs ! i))
            \<longrightarrow> fst (SetAcceptData lib (Inr adata) u) \<noteq> Some Panic)"
proof -
  from assms(1) obtain d0 pub txins txout where
    d0: "dlc u = Some d0" and pub: "StrToPub lib (aPubkey adata) = Inr pub"
    and ins: "StrToInputsOutput lib (aInputs adata) (aOutput adata) = Inr (txins, txout)"
    and rs: "Rates_date (SetTxInsAndTxOut txins txout (\<not> IsA d0)
                           (SetPublicKey (Some pub) (\<not> IsA d0) d0)) = (rs, d)"
    by (auto simp: accept_contract_def split: option.splits sum.splits prod.splits)
  let ?d2 = "SetTxInsAndTxOut txins txout (\<not> IsA d0) (SetPublicKey (Some pub) (\<not> IsA d0) d0)"
  have isa: "IsA (SetPublicKey (Some pub) (\<not> IsA d0) d0) = IsA d0"
    by (simp add: SetPublicKey_def IsA_def)
  have key: "PublicKey ?d2 (\<not> IsA ?d2) = Some pub"
    by (simp add: SetPublicKey_def SetTxInsAndTxOut_def IsA_def PublicKey_def)
  have bad: "fst (VerifySettlementTxSigns lib (aSigns adata) ?d2) \<noteq> None"
    by (rule VerifySettlementTxSigns_bad[OF rs assms(2)])
  have err: "fst (SetAcceptData lib (Inr adata) u) \<noteq> None"
    using bad d0 pub ins isa
    by (auto simp: SetAcceptData_def Let_def split: option.splits sum.splits prod.splits)
  have st: "status (snd (SetAcceptData lib (Inr adata) u)) = status u"
    by (rule SetAcceptData_error_status[OF err])
  have "fst (SetAcceptData lib (Inr adata) u) \<noteq> Some Panic"
    if l: "lib_returns_errors lib"
      and t: "\<forall>i<length rs. i < length (aSigns adata) \<and> aSigns adata ! i \<noteq> []
                  \<longrightarrow> has_settlement_tx lib d (rs ! i)"
  proof -
    from VerifySettlementTxSigns_returns[OF l rs key t]
    have "fst (VerifySettlementTxSigns lib (aSigns adata) ?d2) \<noteq> Some Panic" .
    with bad show ?thesis using d0 pub ins isa
      by (auto simp: SetAcceptData_def Let_def split: option.splits sum.splits prod.splits)
  qed
  with err st show ?thesis by blast
qed

text \<open>
  The forged blob against Alice's contract: the table and the contract of the
  verification, the bad signature and the error of the call.
\<close>

lemma forged_contract:
  "accept_contract toy_lib forged_accept alice1
     = Some (example_rates, alice_dlc1\<lparr>pubb := Some 4, btxins := [bob_input]\<rparr>)"
  by code_simp

lemma forged_bad:
  "bad_sign toy_lib (alice_dlc1\<lparr>pubb := Some 4, btxins := [bob_input]\<rparr>)
     (example_rates ! 1) (aSigns forged_accept ! 1)"
  by code_simp

lemma forged_has_tx:
  "has_settlement_tx toy_lib (alice_dlc1\<lparr>pubb := Some 4, btxins := [bob_input]\<rparr>)
     (example_rates ! 1)"
  by code_simp

lemma forged_error:
  "fst (SetAcceptData toy_lib (Inr forged_accept) alice1) = Some VerifyFail"
  by code_simp

lemma toy_lib_returns_errors: "lib_returns_errors toy_lib"
  by (simp add: lib_returns_errors_def toy_lib_def)

text \<open>
  On the run: Alice, waiting for the accept, receives Bob's blob with the signature of
  the second rate changed. The signature does not verify, the call returns the error of
  the verification and Alice still waits for the accept.
\<close>

lemma forged_accept_rejected:
  "accept_contract toy_lib forged_accept alice1
     = Some (example_rates, alice_dlc1\<lparr>pubb := Some 4, btxins := [bob_input]\<rparr>)
   \<and> bad_sign toy_lib (alice_dlc1\<lparr>pubb := Some 4, btxins := [bob_input]\<rparr>)
         (example_rates ! 1) (aSigns forged_accept ! 1)
   \<and> lib_returns_errors toy_lib
   \<and> aSigns forged_accept ! 0 = []
   \<and> has_settlement_tx toy_lib (alice_dlc1\<lparr>pubb := Some 4, btxins := [bob_input]\<rparr>)
         (example_rates ! 1)
   \<and> fst (SetAcceptData toy_lib (Inr forged_accept) alice1) = Some VerifyFail
   \<and> fst (SetAcceptData toy_lib (Inr forged_accept) alice1) \<noteq> Some Panic
   \<and> status (snd (SetAcceptData toy_lib (Inr forged_accept) alice1)) = StatusWaitForAccept"
proof -
  let ?d = "alice_dlc1\<lparr>pubb := Some 4, btxins := [bob_input]\<rparr>"
  have len: "length example_rates = 2" "length (aSigns forged_accept) = 2"
    and nil: "aSigns forged_accept ! 0 = []"
    by (simp_all add: example_rates_def forged_accept_def)
  have b: "length (aSigns forged_accept) \<noteq> length example_rates
           \<or> (\<exists>i<length example_rates.
                 bad_sign toy_lib ?d (example_rates ! i) (aSigns forged_accept ! i))"
    using forged_bad len by (intro disjI2 exI [of _ 1]) simp
  have t: "\<forall>i<length example_rates.
              i < length (aSigns forged_accept) \<and> aSigns forged_accept ! i \<noteq> []
              \<longrightarrow> has_settlement_tx toy_lib ?d (example_rates ! i)"
    using forged_has_tx len nil by (auto simp: less_Suc_eq numeral_2_eq_2)
  from SetAcceptData_rejects_bad_signs [OF forged_contract b] t toy_lib_returns_errors
  have "status (snd (SetAcceptData toy_lib (Inr forged_accept) alice1)) = StatusWaitForAccept
        \<and> fst (SetAcceptData toy_lib (Inr forged_accept) alice1) \<noteq> Some Panic"
    by (simp add: alice1_def at_status_def)
  with forged_contract forged_bad forged_error forged_has_tx toy_lib_returns_errors nil
  show ?thesis by simp
qed

lemma Verify_without_settlement_tx:
  assumes "ParseDERSignature lib s = None" "Amount rate a \<le>s 0"
  shows "Verify lib d rate a s pub = (Some Panic, rate)"
  using assms by (simp add: Verify_def SettlementTx_nil)

text \<open>
  Claim C6, where the code fails it. The user waits for the accept and the blob has as
  many signatures as the table has rates, one of them bad, so that the claim promises an
  error. When the first signature of the list is a well-formed DER signature and the
  first rate pays nothing to the receiver, \<open>SettlementTx\<close> gives nil for that rate,
  \<open>Verify\<close> hands it to \<open>NewTxSigHashes\<close> unchecked, and the call panics instead of
  returning an error. The status is what it was.
\<close>

theorem C6_accept_signature_without_settlement_tx:
  assumes "status u = StatusWaitForAccept"
    and "accept_contract lib adata u = Some (rs, d)"
    and "length (aSigns adata) = length rs"
    and "\<exists>i<length rs. bad_sign lib d (rs ! i) (aSigns adata ! i)"
    and "aSigns adata ! 0 \<noteq> []"
    and "DecodeString lib (aSigns adata ! 0) = Inr s"
    and "ParseDERSignature lib s = None"
    and "Amount (rs ! 0) (IsA d) \<le>s 0"
  shows "fst (SetAcceptData lib (Inr adata) u) = Some Panic
         \<and> status (snd (SetAcceptData lib (Inr adata) u)) = StatusWaitForAccept"
proof -
  from assms(2) obtain d0 pub txins txout where
    d0: "dlc u = Some d0" and pub: "StrToPub lib (aPubkey adata) = Inr pub"
    and ins: "StrToInputsOutput lib (aInputs adata) (aOutput adata) = Inr (txins, txout)"
    and rs: "Rates_date (SetTxInsAndTxOut txins txout (\<not> IsA d0)
                           (SetPublicKey (Some pub) (\<not> IsA d0) d0)) = (rs, d)"
    by (auto simp: accept_contract_def split: option.splits sum.splits prod.splits)
  have isa: "IsA (SetPublicKey (Some pub) (\<not> IsA d0) d0) = IsA d0"
    by (simp add: SetPublicKey_def IsA_def)
  from assms(4) obtain rate rest where r: "rs = rate # rest" by (cases rs) auto
  with assms(3) obtain sign signs where sg: "aSigns adata = sign # signs"
    by (cases "aSigns adata") auto
  from r sg assms(5,6,8) have h: "sign \<noteq> []" "DecodeString lib sign = Inr s"
    "Amount rate (IsA d) \<le>s 0" by simp_all
  have v: "fst (verify_signs lib d (IsA d) (PublicKey d (\<not> IsA d)) (aSigns adata) rs)
             = Some Panic"
    using h by (simp add: r sg Verify_without_settlement_tx[OF assms(7) h(3)])
  have "fst (VerifySettlementTxSigns lib (aSigns adata)
               (SetTxInsAndTxOut txins txout (\<not> IsA d0)
                  (SetPublicKey (Some pub) (\<not> IsA d0) d0))) = Some Panic"
    using v assms(3)
    by (cases "verify_signs lib d (IsA d) (PublicKey d (\<not> IsA d)) (aSigns adata) rs")
       (simp add: VerifySettlementTxSigns_def rs Let_def)
  then have err: "fst (SetAcceptData lib (Inr adata) u) = Some Panic"
    using assms(1) d0 pub ins isa
    by (auto simp: SetAcceptData_def Let_def split: option.splits sum.splits prod.splits)
  then have "fst (SetAcceptData lib (Inr adata) u) \<noteq> None" by simp
  from SetAcceptData_error_status[OF this] err assms(1) show ?thesis by simp
qed

text \<open>
  The unsigned blob against the contract that Alice offered without a table: the offer,
  the table of five rates and the contract of the verification, the missing signature of
  the last rate, and the first signature.
\<close>

lemma run_plain_offer:
  "GetOfferData toy_lib alice_world (Some plain_dlc) alice0 = (Inr offer_data, alice_plain)"
  by code_simp

lemma unsigned_contract:
  "accept_contract toy_lib unsigned_accept alice_plain
     = Some (five_rates 100000,
             with_five (alice_dlc1\<lparr>pubb := Some 4, btxins := [bob_input]\<rparr>))"
  by code_simp

lemma unsigned_bad:
  "bad_sign toy_lib (with_five (alice_dlc1\<lparr>pubb := Some 4, btxins := [bob_input]\<rparr>))
     (five_rates 100000 ! 4) (aSigns unsigned_accept ! 4)"
  by code_simp

lemma unsigned_first:
  "aSigns unsigned_accept ! 0 = map char_of [4, 1 :: nat]
   \<and> DecodeString toy_lib (aSigns unsigned_accept ! 0) = Inr [4, 1]
   \<and> ParseDERSignature toy_lib [4, 1] = None
   \<and> Amount (five_rates 100000 ! 0 :: int Rate) True = 0"
  by code_simp

text \<open>
  Claim C6, on the instance: Alice has offered a contract of 100000 and waits for the
  accept. The blob has five signatures for the five rates. The last is empty although
  the last rate pays Alice 100000, so that the claim promises an error; the first is a
  well-formed signature for the rate that pays Alice nothing, and the call panics.
\<close>

theorem C6_accept_signature_without_settlement_tx_witness:
  "status alice_plain = StatusWaitForAccept
   \<and> accept_contract toy_lib unsigned_accept alice_plain
       = Some (five_rates 100000,
               with_five (alice_dlc1\<lparr>pubb := Some 4, btxins := [bob_input]\<rparr>))
   \<and> length (aSigns unsigned_accept) = length (five_rates 100000 :: int Rate list)
   \<and> bad_sign toy_lib (with_five (alice_dlc1\<lparr>pubb := Some 4, btxins := [bob_input]\<rparr>))
         (five_rates 100000 ! 4) (aSigns unsigned_accept ! 4)
   \<and> aSigns unsigned_accept ! 4 = []
   \<and> Amount (five_rates 100000 ! 4 :: int Rate) True = 100000
   \<and> aSigns unsigned_accept ! 0 = map char_of [4, 1 :: nat]
   \<and> DecodeString toy_lib (aSigns unsigned_accept ! 0) = Inr [4, 1]
   \<and> ParseDERSignature toy_lib [4, 1] = None
   \<and> Amount (five_rates 100000 ! 0 :: int Rate) True = 0
   \<and> fst (SetAcceptData toy_lib (Inr unsigned_accept) alice_plain) = Some Panic
   \<and> status (snd (SetAcceptData toy_lib (Inr unsigned_accept) alice_plain))
       = StatusWaitForAccept"
proof -
  let ?d = "with_five (alice_dlc1\<lparr>pubb := Some 4, btxins := [bob_input]\<rparr>)"
  have st: "status alice_plain = StatusWaitForAccept"
    by (simp add: alice_plain_def at_status_def)
  have len: "length (aSigns unsigned_accept) = length (five_rates 100000 :: int Rate list)"
    and e4: "aSigns unsigned_accept ! 4 = []"
    and a4: "Amount (five_rates 100000 ! 4 :: int Rate) True = 100000"
    by (simp_all add: unsigned_accept_def five_rates_def Amount_def NewRate_def)
  have isa: "IsA ?d" by code_simp
  have bad: "\<exists>i<length (five_rates 100000 :: int Rate list).
               bad_sign toy_lib ?d (five_rates 100000 ! i) (aSigns unsigned_accept ! i)"
    using unsigned_bad by (intro exI [of _ 4]) (simp add: five_rates_def)
  have ne: "aSigns unsigned_accept ! 0 \<noteq> []" using unsigned_first by simp
  have dec: "DecodeString toy_lib (aSigns unsigned_accept ! 0) = Inr [4, 1]"
    and der: "ParseDERSignature toy_lib [4, 1] = None"
    using unsigned_first by blast+
  have a0: "Amount (five_rates 100000 ! 0 :: int Rate) (IsA ?d) \<le>s 0"
    using unsigned_first isa by simp
  note panic = C6_accept_signature_without_settlement_tx
    [OF st unsigned_contract len bad ne dec der a0]
  from panic st unsigned_contract len unsigned_bad e4 a4 unsigned_first show ?thesis
    by blast
qed

section \<open>The witness of the settlement transaction\<close>

lemma SettlementTx_one_input:
  "SettlementTx lib d rate a = Inr (Some tx, rate1) \<Longrightarrow> length (TxIn tx) = 1"
  by (auto simp: SettlementTx_def Let_def AddTxIn_def AddTxOut_def NewMsgTx_def
           split: if_splits option.splits)

text \<open>
  Claim C8. When \<open>SendSettlementTx\<close> succeeds it has sent one transaction, the
  settlement transaction of the fixed rate for the side of the user, and the witness of
  its input is the empty item, two signatures and the fund script. The first signature
  is the user's own when the user is A and the one received from the other side when
  the user is B, and the second is the other one: A's signature stands before B's.
\<close>

theorem C8_settlement_witness_order:
  assumes "dlc u = Some d" and "FixedRate d = Inr (Some rate)"
    and "SendSettlementTx lib world u = (None, sent, u')"
  shows "\<exists>stx rate1 own.
           SettlementTx lib d rate (IsA d) = Inr (Some stx, rate1)
           \<and> GetWitnessSignature lib (wallet u) stx 0 (FundAmount d + SettlementFee d)
                 (FundScript lib d) (PublicKey d (IsA d)) = Inr own
           \<and> sent = [stx\<lparr>TxIn := [(TxIn stx ! 0)\<lparr>Witness :=
                          Some [[],
                                if IsA d then own else bytes_of (ReceivedSign rate),
                                if IsA d then bytes_of (ReceivedSign rate) else own,
                                bytes_of (FundScript lib d)]\<rparr>]\<rparr>]
           \<and> u' = u"
proof -
  from assms obtain stx rate1 own where
    stx: "SettlementTx lib d rate (IsA d) = Inr (Some stx, rate1)"
    and own: "GetWitnessSignature lib (wallet u) stx 0 (FundAmount d + SettlementFee d)
                (FundScript lib d) (PublicKey d (IsA d)) = Inr own"
    by (auto simp: SendSettlementTx_def Let_def split: option.splits sum.splits prod.splits)
  from SettlementTx_one_input[OF stx] obtain txin where txin: "TxIn stx = [txin]"
    by (cases "TxIn stx") auto
  from assms stx own txin show ?thesis
    by (auto simp: SendSettlementTx_def Let_def split: option.splits sum.splits prod.splits)
qed

text \<open>The fixed rates of Alice and of Bob, and what they send.\<close>

lemma alice_fixed_rate: "FixedRate alice_contract = Inr (Some alice_rate)"
  by code_simp

lemma bob_fixed_rate: "FixedRate bob_contract = Inr (Some bob_rate)"
  by code_simp

lemma alice_sends:
  "fst (SendSettlementTx toy_lib alice_world alice4) = None
   \<and> map (\<lambda>tx. Witness (TxIn tx ! 0)) (fst (snd (SendSettlementTx toy_lib alice_world alice4)))
       = [Some [[], [3, 1], [4, 1], [82, 1, 3, 1, 4, 82, 174]]]"
  by code_simp

lemma bob_sends:
  "fst (SendSettlementTx toy_lib bob_world bob5) = None
   \<and> map (\<lambda>tx. Witness (TxIn tx ! 0)) (fst (snd (SendSettlementTx toy_lib bob_world bob5)))
       = [Some [[], [3, 1], [4, 1], [82, 1, 3, 1, 4, 82, 174]]]"
  by code_simp

text \<open>
  Claim C8, on the run: Alice, who is A, and Bob, who is B, each send the settlement
  transaction of the rate that the oracle fixed for them, and in both the witness is the
  empty item, Alice's signature, Bob's signature and the fund script.
\<close>

theorem C8_settlement_witness_order_witness:
  "dlc alice4 = Some alice_contract \<and> IsA alice_contract
   \<and> FixedRate alice_contract = Inr (Some alice_rate)
   \<and> ReceivedSign alice_rate = Some [4, 1]
   \<and> fst (SendSettlementTx toy_lib alice_world alice4) = None
   \<and> map (\<lambda>tx. Witness (TxIn tx ! 0)) (fst (snd (SendSettlementTx toy_lib alice_world alice4)))
       = [Some [[], [3, 1], [4, 1], [82, 1, 3, 1, 4, 82, 174]]]
   \<and> snd (snd (SendSettlementTx toy_lib alice_world alice4)) = alice4
   \<and> dlc bob5 = Some bob_contract \<and> \<not> IsA bob_contract
   \<and> FixedRate bob_contract = Inr (Some bob_rate)
   \<and> ReceivedSign bob_rate = Some [3, 1]
   \<and> fst (SendSettlementTx toy_lib bob_world bob5) = None
   \<and> map (\<lambda>tx. Witness (TxIn tx ! 0)) (fst (snd (SendSettlementTx toy_lib bob_world bob5)))
       = [Some [[], [3, 1], [4, 1], [82, 1, 3, 1, 4, 82, 174]]]
   \<and> snd (snd (SendSettlementTx toy_lib bob_world bob5)) = bob5"
proof -
  have da: "dlc alice4 = Some alice_contract" and db: "dlc bob5 = Some bob_contract"
    by (simp_all add: alice4_def bob5_def at_status_def)
  have ia: "IsA alice_contract" and ib: "\<not> IsA bob_contract"
    by code_simp+
  have ra: "ReceivedSign alice_rate = Some [4, 1]" and rb: "ReceivedSign bob_rate = Some [3, 1]"
    by (simp_all add: ReceivedSign_def alice_rate_def bob_rate_def)
  have sa: "SendSettlementTx toy_lib alice_world alice4
              = (None, fst (snd (SendSettlementTx toy_lib alice_world alice4)),
                 snd (snd (SendSettlementTx toy_lib alice_world alice4)))"
    using alice_sends by (simp add: prod_eq_iff)
  have sb: "SendSettlementTx toy_lib bob_world bob5
              = (None, fst (snd (SendSettlementTx toy_lib bob_world bob5)),
                 snd (snd (SendSettlementTx toy_lib bob_world bob5)))"
    using bob_sends by (simp add: prod_eq_iff)
  from C8_settlement_witness_order [OF da alice_fixed_rate sa]
  have ua: "snd (snd (SendSettlementTx toy_lib alice_world alice4)) = alice4" by blast
  from C8_settlement_witness_order [OF db bob_fixed_rate sb]
  have ub: "snd (snd (SendSettlementTx toy_lib bob_world bob5)) = bob5" by blast
  from da db ia ib ra rb ua ub alice_fixed_rate bob_fixed_rate alice_sends bob_sends
  show ?thesis by simp
qed

end
